theory Spec2Isabelle
  imports Main
begin

section \<open>Strings, as the Go standard library treats them\<close>

text \<open>
  A Go string is a sequence of bytes, here a \<open>string\<close>; text in it is UTF-8.  The functions
  below are the ones of the packages \<open>unicode/utf8\<close>, \<open>unicode\<close>, \<open>strings\<close> and
  \<open>strconv\<close> that the two programs call.  A rune is a code point, here an integer.
\<close>

definition byte :: "char \<Rightarrow> int" where
  "byte c = of_char c"

definition RuneError :: int where
  "RuneError = 0xFFFD"

text \<open>
  \<open>utf8.DecodeRuneInString\<close>: the first rune of the string and its width in bytes.  The
  first byte gives the width (\<open>0xC2\<close> to \<open>0xDF\<close> two bytes, \<open>0xE0\<close> to \<open>0xEF\<close> three,
  \<open>0xF0\<close> to \<open>0xF4\<close> four) and the range of the second byte, which shuts out encodings
  longer than needed, the surrogates and the values above \<open>0x10FFFF\<close>; the other bytes are
  continuation bytes, \<open>0x80\<close> to \<open>0xBF\<close>.  Anything else is \<open>RuneError\<close> of width 1.
  The masks \<open>s0 & 0x1F\<close>, \<open>s0 & 0x0F\<close>, \<open>s0 & 0x07\<close> and \<open>s & 0x3F\<close> are the remainders
  below.
\<close>

definition DecodeRuneInString :: "string \<Rightarrow> int \<times> nat" where
  "DecodeRuneInString s =
     (if length s < 1 then (RuneError, 0)
      else let s0 = byte (s ! 0)
       in if s0 < 0x80 then (s0, 1)
          else if s0 < 0xC2 \<or> 0xF4 < s0 then (RuneError, 1)
          else
            (let sz = (if s0 < 0xE0 then 2 else if s0 < 0xF0 then 3 else 4);
                 lo = (if s0 = 0xE0 then 0xA0 else if s0 = 0xF0 then 0x90 else 0x80);
                 hi = (if s0 = 0xED then 0x9F else if s0 = 0xF4 then 0x8F else 0xBF)
             in if length s < sz then (RuneError, 1)
                else let s1 = byte (s ! 1)
                 in if s1 < lo \<or> hi < s1 then (RuneError, 1)
                    else if sz \<le> 2 then ((s0 mod 32) * 64 + s1 mod 64, 2)
                    else let s2 = byte (s ! 2)
                     in if s2 < 0x80 \<or> 0xBF < s2 then (RuneError, 1)
                        else if sz \<le> 3
                        then ((s0 mod 16) * 4096 + (s1 mod 64) * 64 + s2 mod 64, 3)
                        else let s3 = byte (s ! 3)
                         in if s3 < 0x80 \<or> 0xBF < s3 then (RuneError, 1)
                            else ((s0 mod 8) * 262144 + (s1 mod 64) * 4096
                                  + (s2 mod 64) * 64 + s3 mod 64, 4)))"

text \<open>\<open>utf8.RuneStart\<close>: the byte is not a continuation byte.\<close>

definition RuneStart :: "char \<Rightarrow> bool" where
  "RuneStart c = (byte c < 0x80 \<or> 0xBF < byte c)"

text \<open>
  \<open>utf8.DecodeLastRuneInString\<close>: the last rune of the string and its width.  It looks
  for the start of the rune among the bytes before the last one, at most \<open>UTFMax = 4\<close>
  bytes from the end, decodes from there, and answers \<open>RuneError\<close> of width 1 unless that
  rune ends where the string ends.
\<close>

definition DecodeLastRuneInString :: "string \<Rightarrow> int \<times> nat" where
  "DecodeLastRuneInString s =
     (let n = length s
      in if n = 0 then (RuneError, 0)
         else if byte (s ! (n - 1)) < 0x80 then (byte (s ! (n - 1)), 1)
         else
           (let lim = n - 4;
                start = (case find (\<lambda>k. RuneStart (s ! k)) (rev [lim..<n - 1]) of
                           Some k \<Rightarrow> k
                         | None \<Rightarrow> lim - 1);
                d = DecodeRuneInString (drop start s)
            in if start + snd d \<noteq> n then (RuneError, 1) else d))"

text \<open>\<open>unicode.IsSpace\<close>: the white space of Unicode (property \<open>White_Space\<close>).\<close>

definition IsSpace :: "int \<Rightarrow> bool" where
  "IsSpace r =
     (r \<in> set [0x09, 0x0A, 0x0B, 0x0C, 0x0D, 0x20, 0x85, 0xA0, 0x1680,
                0x2028, 0x2029, 0x202F, 0x205F, 0x3000]
      \<or> (0x2000 \<le> r \<and> r \<le> 0x200A))"

text \<open>\<open>strings.TrimLeftFunc\<close> and \<open>strings.TrimRightFunc\<close>: the runes that satisfy \<open>f\<close> are
  cut from the start, and from the end.\<close>

function TrimLeftFunc :: "string \<Rightarrow> (int \<Rightarrow> bool) \<Rightarrow> string" where
  "TrimLeftFunc s f =
     (if s = [] then []
      else if f (fst (DecodeRuneInString s))
      then TrimLeftFunc (drop (snd (DecodeRuneInString s)) s) f
      else s)"
  by pat_completeness auto
termination
proof (relation "measure (\<lambda>(s, f). length s)")
  show "wf (measure (\<lambda>(s :: string, f :: int \<Rightarrow> bool). length s))"
    by simp
next
  fix s :: string and f :: "int \<Rightarrow> bool"
  assume "s \<noteq> []"
  then have "0 < snd (DecodeRuneInString s)"
    by (auto simp: DecodeRuneInString_def Let_def)
  then show "((drop (snd (DecodeRuneInString s)) s, f), (s, f))
               \<in> measure (\<lambda>(s, f). length s)"
    using \<open>s \<noteq> []\<close> by simp
qed

declare TrimLeftFunc.simps [simp del]

function TrimRightFunc :: "string \<Rightarrow> (int \<Rightarrow> bool) \<Rightarrow> string" where
  "TrimRightFunc s f =
     (if s = [] then []
      else if f (fst (DecodeLastRuneInString s))
      then TrimRightFunc (take (length s - snd (DecodeLastRuneInString s)) s) f
      else s)"
  by pat_completeness auto
termination
proof (relation "measure (\<lambda>(s, f). length s)")
  show "wf (measure (\<lambda>(s :: string, f :: int \<Rightarrow> bool). length s))"
    by simp
next
  fix s :: string and f :: "int \<Rightarrow> bool"
  assume "s \<noteq> []"
  define start where
    "start = (case find (\<lambda>k. RuneStart (s ! k)) (rev [length s - 4..<length s - 1]) of
                Some k \<Rightarrow> k
              | None \<Rightarrow> length s - 4 - 1)"
  have "start < length s"
  proof (cases "find (\<lambda>k. RuneStart (s ! k)) (rev [length s - 4..<length s - 1])")
    case None
    then show ?thesis
      using \<open>s \<noteq> []\<close> by (simp add: start_def)
  next
    case (Some k)
    then have "k \<in> set (rev [length s - 4..<length s - 1])"
      by (metis find_Some_iff nth_mem)
    then have "k < length s - 1"
      by simp
    then show ?thesis
      using Some by (simp add: start_def)
  qed
  then have "0 < snd (DecodeLastRuneInString s)"
    using \<open>s \<noteq> []\<close> by (auto simp: DecodeLastRuneInString_def Let_def start_def)
  then show "((take (length s - snd (DecodeLastRuneInString s)) s, f), (s, f))
               \<in> measure (\<lambda>(s, f). length s)"
    using \<open>s \<noteq> []\<close> by simp
qed

declare TrimRightFunc.simps [simp del]

text \<open>
  \<open>strings.TrimSpace\<close>: all leading and trailing white space is removed, as defined by
  Unicode.  (The library first runs over the ASCII bytes at both ends and calls the two
  functions above at the first byte that is not ASCII; the result is the same.)
\<close>

definition TrimSpace :: "string \<Rightarrow> string" where
  "TrimSpace s = TrimRightFunc (TrimLeftFunc s IsSpace) IsSpace"

text \<open>\<open>strings.Trim(s, " ")\<close>: only the space character is cut.\<close>

definition Trim_blank :: "string \<Rightarrow> string" where
  "Trim_blank s =
     rev (dropWhile (\<lambda>c. c = CHR '' '') (rev (dropWhile (\<lambda>c. c = CHR '' '') s)))"

definition HasPrefix :: "string \<Rightarrow> string \<Rightarrow> bool" where
  "HasPrefix s p = (take (length p) s = p)"

definition TrimPrefix :: "string \<Rightarrow> string \<Rightarrow> string" where
  "TrimPrefix s p = (if HasPrefix s p then drop (length p) s else s)"

definition TrimSuffix :: "string \<Rightarrow> string \<Rightarrow> string" where
  "TrimSuffix s p = (if HasPrefix (rev s) (rev p) then take (length s - length p) s else s)"

fun Contains :: "string \<Rightarrow> string \<Rightarrow> bool" where
  "Contains [] sub = (sub = [])"
| "Contains (c # cs) sub = (HasPrefix (c # cs) sub \<or> Contains cs sub)"

text \<open>\<open>strings.Split(s, sep)\<close> for a one-byte separator: never an empty result.\<close>

fun Split :: "string \<Rightarrow> char \<Rightarrow> string list" where
  "Split [] sep = [[]]"
| "Split (c # cs) sep =
     (if c = sep then [] # Split cs sep
      else (case Split cs sep of [] \<Rightarrow> [[c]] | x # xs \<Rightarrow> (c # x) # xs))"

text \<open>\<open>strings.SplitN(s, ":", 2)\<close>: one part when there is no colon, else the text
  before the first colon and the text after it.\<close>

fun SplitN2 :: "string \<Rightarrow> char \<Rightarrow> string list" where
  "SplitN2 [] sep = [[]]"
| "SplitN2 (c # cs) sep =
     (if c = sep then [[], cs]
      else (case SplitN2 cs sep of [x, y] \<Rightarrow> [c # x, y] | _ \<Rightarrow> [c # cs]))"

definition toLower :: "char \<Rightarrow> char" where
  "toLower c =
     (if (65::nat) \<le> of_char c \<and> of_char c \<le> (90::nat)
      then char_of (of_char c + (32::nat)) else c)"

text \<open>\<open>strings.EqualFold(s, "true")\<close>: no letter outside ASCII folds to t, r, u or e.\<close>

definition EqualFold_true :: "string \<Rightarrow> bool" where
  "EqualFold_true s = (map toLower s = ''true'')"

definition isDigit :: "char \<Rightarrow> bool" where
  "isDigit c = ((48::nat) \<le> of_char c \<and> of_char c \<le> (57::nat))"

definition digits_value :: "string \<Rightarrow> int" where
  "digits_value ds = foldl (\<lambda>a c. 10 * a + (int (of_char c) - 48)) 0 ds"

text \<open>\<open>strconv.Atoi\<close>: an optional sign, then decimal digits only; a value outside
  the 64-bit \<open>int\<close> is an error.\<close>

definition Atoi :: "string \<Rightarrow> int option" where
  "Atoi s =
     (let neg = (s \<noteq> [] \<and> hd s = CHR ''-'');
          ds = (if s \<noteq> [] \<and> (hd s = CHR ''-'' \<or> hd s = CHR ''+'') then tl s else s)
      in if ds = [] \<or> \<not> list_all isDigit ds then None
         else let v = (if neg then - digits_value ds else digits_value ds)
              in if - (2 ^ 63) \<le> v \<and> v < 2 ^ 63 then Some v else None)"

section \<open>Errors\<close>

text \<open>
  A Go \<open>error\<close>.  \<open>RepositoryNotFoundException\<close> is the SDK's typed error, the one that
  \<open>errors.As\<close> looks for; \<open>Errorf\<close> is any other error with its text; \<open>Wrapf p e\<close> is
  \<open>fmt.Errorf("p: %w", e)\<close>, where \<open>p\<close> stands for the text before the colon (the
  quotes of \<open>%q\<close> and the number of \<open>index=%d\<close> are left out of it).
\<close>

datatype error =
    RepositoryNotFoundException string
  | Errorf string
  | Wrapf string error

fun Error_text :: "error \<Rightarrow> string" where
  "Error_text (RepositoryNotFoundException m) = ''RepositoryNotFoundException: '' @ m"
| "Error_text (Errorf m) = m"
| "Error_text (Wrapf p e) = p @ '': '' @ Error_text e"

text \<open>\<open>errors.As(err, &rnfe)\<close> with \<open>rnfe\<close> a \<open>*RepositoryNotFoundException\<close>.\<close>

fun As_RepositoryNotFound :: "error \<Rightarrow> bool" where
  "As_RepositoryNotFound (RepositoryNotFoundException m) = True"
| "As_RepositoryNotFound (Errorf m) = False"
| "As_RepositoryNotFound (Wrapf p e) = As_RepositoryNotFound e"

section \<open>The chained mirror: data\<close>

text \<open>\<open>JobEvent\<close> is the payload passed when chaining.  \<open>Index\<close> is a Go \<open>int\<close>; the
  only arithmetic on it is \<open>Index + 1\<close> below the length of the list, which cannot
  overflow, so it is an integer here.\<close>

record JobEvent =
  Index :: int
  Repo :: string

text \<open>What \<open>remote.Get\<close> returns: the digest, whether the media type is an index, and
  whether \<open>desc.ImageIndex()\<close> and \<open>desc.Image()\<close> can be read.\<close>

record descriptor =
  Digest :: string
  IsIndex :: bool
  ImageIndex :: "error option"
  Image :: "error option"

text \<open>The parts of ECR's answers that the code inspects; \<open>None\<close> is a nil pointer.\<close>

record image_identifier =
  ImageDigest :: "string option"

record image =
  ImageId :: "image_identifier option"

record authorization_data =
  AuthorizationToken :: "string option"
  ProxyEndpoint :: "string option"

text \<open>\<open>aws.ToString\<close>: the empty string for a nil pointer.\<close>

definition ToString :: "string option \<Rightarrow> string" where
  "ToString p = (case p of None \<Rightarrow> [] | Some s \<Rightarrow> s)"

text \<open>
  The input of the Lambda service's \<open>Invoke\<close>.  The invocation type \<open>Event\<close> asks for an
  asynchronous invocation: the service queues the event and answers at once, without
  waiting for the function to run; \<open>RequestResponse\<close> would run the function and wait for
  its result.
\<close>

datatype InvocationType =
    InvocationTypeEvent
  | InvocationTypeRequestResponse
  | InvocationTypeDryRun

record InvokeInput =
  FunctionName :: string
  InvocationType :: InvocationType
  Payload :: string

text \<open>
  The destination registry, the only state that outlives an invocation: the repositories
  that exist and the digest each (repository, tag) points to.
\<close>

record registry =
  repositories :: "string set"
  images :: "string \<times> string \<Rightarrow> string option"

text \<open>
  Everything outside the program: the process environment, the JSON and base64 codecs,
  \<open>path.Join\<close>, the reference parsers, the source registry, ECR, SSM and the Lambda
  service.  Each field gives the answer of one call; the calls to ECR see the state of the
  destination registry, so that an answer may or may not follow it.  \<open>None\<close> for an
  \<open>error option\<close> is Go's \<open>nil\<close>.
\<close>

record world =
  getenv :: "string \<Rightarrow> string"
  json_unmarshal_event :: "string \<Rightarrow> error + JobEvent"
  json_marshal_event :: "JobEvent \<Rightarrow> error + string"
  json_unmarshal_strings :: "string \<Rightarrow> error + string list"
  load_default_config :: "error option"
  ssm_get_parameter :: "string \<Rightarrow> error + string option"
  ecr_get_authorization_token :: "error + authorization_data list"
  base64_decode :: "string \<Rightarrow> error + string"
  path_join :: "string \<Rightarrow> string \<Rightarrow> string"
  name_new_repository :: "string \<Rightarrow> error option"
  name_parse_reference :: "string \<Rightarrow> error option"
  remote_list :: "string \<Rightarrow> error + string list"
  remote_get :: "string \<Rightarrow> error + descriptor"
  ecr_describe_repositories :: "registry \<Rightarrow> string \<Rightarrow> error option"
  ecr_create_repository :: "registry \<Rightarrow> string \<Rightarrow> bool \<Rightarrow> error option"
  ecr_batch_get_image :: "registry \<Rightarrow> string \<Rightarrow> string \<Rightarrow> error + image list"
  remote_write_index :: "registry \<Rightarrow> string \<Rightarrow> error option"
  remote_write :: "registry \<Rightarrow> string \<Rightarrow> error option"
  lambda_invoke :: "InvokeInput \<Rightarrow> error option"

text \<open>The log lines of \<open>handler\<close> and \<open>mirrorSingleRepo\<close>.\<close>

datatype log_line =
    EventParseFailed
  | NoRepositories
  | ProcessingExplicit string
  | DoneExplicit
  | NothingToDo int nat
  | ProcessingRepo int nat string
  | QueuedNext int
  | CompletedAll nat
  | DryRun string
  | CreatedRepo string
  | NoTagsFound string
  | Skipping string string string
  | CopyingIndex string string
  | CopyingImage string string
  | Mirrored string nat

text \<open>
  What an invocation does to the outside, in order: the calls to the two registries and to
  the Lambda service, each recorded when it is made (whatever it answers), and the log
  lines.  \<open>CreateRepository n b\<close> carries the \<open>ScanOnPush\<close> flag; the two writes carry
  the destination reference and the digest written; \<open>Invoke\<close> carries the input of the
  call, with its invocation type.
\<close>

datatype effect =
    DescribeRepositories string
  | CreateRepository string bool
  | RemoteList string
  | RemoteGet string
  | BatchGetImage string string
  | WriteIndex string string
  | WriteImage string string
  | Invoke InvokeInput
  | Log log_line

section \<open>The chained mirror: event parsing and the repository list\<close>

definition parseJobEvent :: "world \<Rightarrow> string \<Rightarrow> error + JobEvent" where
  "parseJobEvent w raw =
     (if length raw = 0 then
        (let s = TrimSpace (getenv w ''START_INDEX'');
             idx = (if s \<noteq> [] then (case Atoi s of Some n \<Rightarrow> n | None \<Rightarrow> 0) else 0)
         in Inr \<lparr>Index = idx, Repo = []\<rparr>)
      else (case json_unmarshal_event w raw of
              Inl e \<Rightarrow> Inl e
            | Inr evt \<Rightarrow> Inr evt))"

definition normalizeRepoList :: "string list \<Rightarrow> string list" where
  "normalizeRepoList ins =
     foldl (\<lambda>out s. let t = TrimSpace s in if t \<noteq> [] then out @ [t] else out) [] ins"

definition loadReposFromSSM :: "world \<Rightarrow> string \<Rightarrow> error + string list" where
  "loadReposFromSSM w paramName =
     (case load_default_config w of
        Some e \<Rightarrow> Inl e
      | None \<Rightarrow>
        (case ssm_get_parameter w paramName of
           Inl e \<Rightarrow> Inl e
         | Inr None \<Rightarrow> Inl (Errorf ''empty SSM parameter'')
         | Inr (Some v) \<Rightarrow>
           (let val = TrimSpace v
            in case json_unmarshal_strings w val of
                 Inr repos \<Rightarrow> Inr (normalizeRepoList repos)
               | Inl e \<Rightarrow> Inr (normalizeRepoList (Split val CHR '','')))))"

definition fallbackRepoList :: "world \<Rightarrow> string list" where
  "fallbackRepoList w =
     (let group = (if getenv w ''GROUP_NAME'' = [] then ''chainguard''
                   else getenv w ''GROUP_NAME'');
          srcRegistry = (if getenv w ''SRC_REGISTRY'' = [] then ''cgr.dev''
                         else getenv w ''SRC_REGISTRY'')
      in [srcRegistry @ ''/'' @ group @ ''/foo'',
          srcRegistry @ ''/'' @ group @ ''/bar'',
          srcRegistry @ ''/'' @ group @ ''/baz''])"

text \<open>The part of \<open>loadRepoList\<close> after the JSON variable: CSV, SSM, fallback.\<close>

definition loadRepoList_rest :: "world \<Rightarrow> error + string list" where
  "loadRepoList_rest w =
     (let s = TrimSpace (getenv w ''REPO_LIST_CSV'')
      in if s \<noteq> [] then Inr (normalizeRepoList (Split s CHR '',''))
         else let name = TrimSpace (getenv w ''REPO_LIST_SSM_PARAM'')
              in if name \<noteq> [] then
                   (case loadReposFromSSM w name of
                      Inl e \<Rightarrow> Inl (Wrapf (''load from SSM '' @ name) e)
                    | Inr repos \<Rightarrow> Inr repos)
                 else Inr (fallbackRepoList w))"

definition loadRepoList :: "world \<Rightarrow> error + string list" where
  "loadRepoList w =
     (let s = TrimSpace (getenv w ''REPO_LIST_JSON'')
      in if s \<noteq> [] then
           (case json_unmarshal_strings w s of
              Inr repos \<Rightarrow> Inr (normalizeRepoList repos)
            | Inl e \<Rightarrow> loadRepoList_rest w)
         else loadRepoList_rest w)"

section \<open>The chained mirror: one repository\<close>

text \<open>Steps 1 and 2 of \<open>mirrorSingleRepo\<close>: the source credentials must be set, then the
  ECR password and endpoint are read from the authorization token.\<close>

definition ecr_login :: "world \<Rightarrow> error + string \<times> string" where
  "ecr_login w =
     (if getenv w ''CGR_USERNAME'' = [] \<or> getenv w ''CGR_PASSWORD'' = []
      then Inl (Errorf ''CGR_USERNAME/CGR_PASSWORD not set'')
      else case load_default_config w of
        Some e \<Rightarrow> Inl e
      | None \<Rightarrow>
        (case ecr_get_authorization_token w of
           Inl e \<Rightarrow> Inl (Wrapf ''ecr:GetAuthorizationToken'' e)
         | Inr [] \<Rightarrow> Inl (Errorf ''no ECR authorization data'')
         | Inr (ad # _) \<Rightarrow>
           (case base64_decode w (ToString (AuthorizationToken ad)) of
              Inl e \<Rightarrow> Inl (Wrapf ''decode ecr token'' e)
            | Inr dec \<Rightarrow>
              (let parts = SplitN2 dec CHR '':''
               in if length parts \<noteq> 2 then Inl (Errorf ''unexpected ecr token format'')
                  else Inr (parts ! 1, TrimPrefix (ToString (ProxyEndpoint ad)) ''https://'')))))"

text \<open>Step 3, first half: the name of the destination repository.\<close>

definition dstRepoName_of :: "world \<Rightarrow> string \<Rightarrow> string" where
  "dstRepoName_of w srcRepo =
     (let srcRegistry = (if getenv w ''SRC_REGISTRY'' = [] then ''cgr.dev''
                         else getenv w ''SRC_REGISTRY'');
          srcNoHost = TrimPrefix srcRepo (srcRegistry @ ''/'');
          dstPrefix = Trim_blank (TrimPrefix (getenv w ''DST_PREFIX'') ''/'')
      in if dstPrefix \<noteq> [] then path_join w dstPrefix srcNoHost else srcNoHost)"

text \<open>Step 3, second half: describe the repository, create it when ECR answers with
  \<open>RepositoryNotFoundException\<close>.  A repository that was created exists afterwards.\<close>

definition ensure_repository ::
  "world \<Rightarrow> registry \<Rightarrow> string \<Rightarrow> error option \<times> effect list \<times> registry" where
  "ensure_repository w reg dstRepoName =
     (case ecr_describe_repositories w reg dstRepoName of
        None \<Rightarrow> (None, [DescribeRepositories dstRepoName], reg)
      | Some err \<Rightarrow>
        if As_RepositoryNotFound err then
          (case ecr_create_repository w reg dstRepoName True of
             Some cerr \<Rightarrow>
               (Some (Wrapf (''create ECR repo '' @ dstRepoName) cerr),
                [DescribeRepositories dstRepoName, CreateRepository dstRepoName True], reg)
           | None \<Rightarrow>
               (None,
                [DescribeRepositories dstRepoName, CreateRepository dstRepoName True,
                 Log (CreatedRepo dstRepoName)],
                reg\<lparr>repositories := insert dstRepoName (repositories reg)\<rparr>))
        else (Some (Wrapf (''describe ECR repo '' @ dstRepoName) err),
              [DescribeRepositories dstRepoName], reg))"

text \<open>Step 4: the tags to mirror.  An empty answer is possible only under
  \<open>COPY_ALL_TAGS\<close>, where the function logs it and returns \<open>nil\<close>.\<close>

definition tags_to_mirror :: "world \<Rightarrow> string \<Rightarrow> (error + string list) \<times> effect list" where
  "tags_to_mirror w srcRepo =
     (if EqualFold_true (getenv w ''COPY_ALL_TAGS'') then
        (case name_new_repository w srcRepo of
           Some e \<Rightarrow> (Inl (Wrapf ''parse src repository'' e), [])
         | None \<Rightarrow>
           (case remote_list w srcRepo of
              Inl e \<Rightarrow> (Inl (Wrapf (''list tags for '' @ srcRepo) e), [RemoteList srcRepo])
            | Inr tags \<Rightarrow>
              if length tags = 0 then (Inr [], [RemoteList srcRepo, Log (NoTagsFound srcRepo)])
              else (Inr tags, [RemoteList srcRepo])))
      else (Inr [''latest''], []))"

text \<open>The mirror decision of step 5 (the test before \<open>continue\<close>): \<open>Skip\<close> when the
  \<open>continue\<close> is taken, \<open>Transfer\<close> when control reaches the copy.\<close>

datatype decision = Skip | Transfer

definition digest_decision :: "string \<Rightarrow> error + image list \<Rightarrow> decision" where
  "digest_decision srcDigest ebr =
     (case ebr of
        Inl err \<Rightarrow> Transfer
      | Inr Images \<Rightarrow>
        if length Images > 0 \<and> ImageId (hd Images) \<noteq> None
           \<and> ImageDigest (the (ImageId (hd Images))) \<noteq> None
        then (let existing = ToString (ImageDigest (the (ImageId (hd Images))))
              in if existing = srcDigest then Skip else Transfer)
        else Transfer)"

text \<open>The body of the loop of step 5, for one tag.  A write that succeeds makes the tag
  point to the digest written; a write that fails leaves the registry as it was.\<close>

definition mirror_tag ::
  "world \<Rightarrow> string \<Rightarrow> string \<Rightarrow> string \<Rightarrow> registry \<Rightarrow> string
     \<Rightarrow> error option \<times> effect list \<times> registry" where
  "mirror_tag w srcRepo ecrEndpoint dstRepoName reg tag =
     (let src = srcRepo @ '':'' @ tag;
          dst = ecrEndpoint @ ''/'' @ dstRepoName @ '':'' @ tag
      in case name_parse_reference w src of
           Some e \<Rightarrow> (Some (Wrapf (''parse src ref '' @ src) e), [], reg)
         | None \<Rightarrow>
        (case name_parse_reference w dst of
           Some e \<Rightarrow> (Some (Wrapf (''parse dst ref '' @ dst) e), [], reg)
         | None \<Rightarrow>
        (case remote_get w src of
           Inl e \<Rightarrow> (Some (Wrapf (''get '' @ src) e), [RemoteGet src], reg)
         | Inr desc \<Rightarrow>
           (let srcDigest = Digest desc;
                ebr = ecr_batch_get_image w reg dstRepoName tag;
                calls = [RemoteGet src, BatchGetImage dstRepoName tag]
            in case digest_decision srcDigest ebr of
                 Skip \<Rightarrow> (None, calls @ [Log (Skipping srcRepo tag srcDigest)], reg)
               | Transfer \<Rightarrow>
                 if IsIndex desc then
                   (case ImageIndex desc of
                      Some e \<Rightarrow> (Some (Wrapf (''read index '' @ src) e), calls, reg)
                    | None \<Rightarrow>
                      (case remote_write_index w reg dst of
                         Some e \<Rightarrow>
                           (Some (Wrapf (''write index to '' @ dst) e),
                            calls @ [Log (CopyingIndex src dst), WriteIndex dst srcDigest], reg)
                       | None \<Rightarrow>
                           (None,
                            calls @ [Log (CopyingIndex src dst), WriteIndex dst srcDigest],
                            reg\<lparr>images := (images reg)((dstRepoName, tag) \<mapsto> srcDigest)\<rparr>)))
                 else
                   (case Image desc of
                      Some e \<Rightarrow> (Some (Wrapf (''read image '' @ src) e), calls, reg)
                    | None \<Rightarrow>
                      (case remote_write w reg dst of
                         Some e \<Rightarrow>
                           (Some (Wrapf (''write image to '' @ dst) e),
                            calls @ [Log (CopyingImage src dst), WriteImage dst srcDigest], reg)
                       | None \<Rightarrow>
                           (None,
                            calls @ [Log (CopyingImage src dst), WriteImage dst srcDigest],
                            reg\<lparr>images := (images reg)((dstRepoName, tag) \<mapsto> srcDigest)\<rparr>)))))))"

text \<open>The loop of step 5: the first error ends it.\<close>

fun mirror_tags ::
  "world \<Rightarrow> string \<Rightarrow> string \<Rightarrow> string \<Rightarrow> registry \<Rightarrow> string list
     \<Rightarrow> error option \<times> effect list \<times> registry" where
  "mirror_tags w srcRepo ecrEndpoint dstRepoName reg [] = (None, [], reg)"
| "mirror_tags w srcRepo ecrEndpoint dstRepoName reg (tag # tags) =
     (case mirror_tag w srcRepo ecrEndpoint dstRepoName reg tag of
        (Some e, tr, reg') \<Rightarrow> (Some e, tr, reg')
      | (None, tr, reg') \<Rightarrow>
        (case mirror_tags w srcRepo ecrEndpoint dstRepoName reg' tags of
           (r, tr', reg'') \<Rightarrow> (r, tr @ tr', reg'')))"

definition mirrorSingleRepo ::
  "world \<Rightarrow> registry \<Rightarrow> string \<Rightarrow> error option \<times> effect list \<times> registry" where
  "mirrorSingleRepo w reg srcRepo =
     (if EqualFold_true (getenv w ''MIRROR_DRY_RUN'') then (None, [Log (DryRun srcRepo)], reg)
      else case ecr_login w of
        Inl e \<Rightarrow> (Some e, [], reg)
      | Inr (ecrPass, ecrEndpoint) \<Rightarrow>
        (let dstRepoName = dstRepoName_of w srcRepo
         in case ensure_repository w reg dstRepoName of
              (Some e, tr, reg1) \<Rightarrow> (Some e, tr, reg1)
            | (None, tr, reg1) \<Rightarrow>
              (case tags_to_mirror w srcRepo of
                 (Inl e, tr2) \<Rightarrow> (Some e, tr @ tr2, reg1)
               | (Inr tags, tr2) \<Rightarrow>
                 if tags = [] then (None, tr @ tr2, reg1)
                 else
                   (case mirror_tags w srcRepo ecrEndpoint dstRepoName reg1 tags of
                      (Some e, tr3, reg2) \<Rightarrow> (Some e, tr @ tr2 @ tr3, reg2)
                    | (None, tr3, reg2) \<Rightarrow>
                        (None, tr @ tr2 @ tr3 @ [Log (Mirrored srcRepo (length tags))],
                         reg2)))))"

section \<open>The chained mirror: the handler\<close>

definition invokeSelfAsync :: "world \<Rightarrow> JobEvent \<Rightarrow> error option \<times> effect list" where
  "invokeSelfAsync w ev =
     (case load_default_config w of
        Some e \<Rightarrow> (Some e, [])
      | None \<Rightarrow>
        (let fn = getenv w ''AWS_LAMBDA_FUNCTION_NAME''
         in if fn = [] then (Some (Errorf ''AWS_LAMBDA_FUNCTION_NAME not set''), [])
            else case json_marshal_event w ev of
                   Inl e \<Rightarrow> (Some e, [])
                 | Inr payload \<Rightarrow>
                     (let inp = \<lparr>FunctionName = fn, InvocationType = InvocationTypeEvent,
                                 Payload = payload\<rparr>
                      in (lambda_invoke w inp, [Invoke inp]))))"

text \<open>\<open>handler\<close> from the loading of the repository list on, for the event that
  parsing gave.\<close>

definition handler_event ::
  "world \<Rightarrow> registry \<Rightarrow> JobEvent \<Rightarrow> error option \<times> effect list \<times> registry" where
  "handler_event w reg evt =
     (case loadRepoList w of
        Inl e \<Rightarrow> (Some (Wrapf ''load repo list'' e), [], reg)
      | Inr repos \<Rightarrow>
        if length repos = 0 then (None, [Log NoRepositories], reg)
        else
          (let r = TrimSpace (Repo evt)
           in if r \<noteq> [] then
                (case mirrorSingleRepo w reg r of
                   (Some e, tr, reg') \<Rightarrow>
                     (Some (Wrapf (''mirror explicit repo '' @ r) e),
                      Log (ProcessingExplicit r) # tr, reg')
                 | (None, tr, reg') \<Rightarrow>
                     (None, Log (ProcessingExplicit r) # tr @ [Log DoneExplicit], reg'))
              else
                (let idx = (if Index evt < 0 then 0 else Index evt)
                 in if idx \<ge> int (length repos)
                    then (None, [Log (NothingToDo idx (length repos))], reg)
                    else
                      (let current = repos ! nat idx;
                           start = Log (ProcessingRepo (idx + 1) (length repos) current)
                       in case mirrorSingleRepo w reg current of
                            (Some e, tr, reg') \<Rightarrow>
                              (Some (Wrapf (''mirror '' @ current) e), start # tr, reg')
                          | (None, tr, reg') \<Rightarrow>
                            (let next = idx + 1
                             in if next < int (length repos) then
                                  (case invokeSelfAsync w \<lparr>Index = next, Repo = []\<rparr> of
                                     (Some e, tr2) \<Rightarrow>
                                       (Some (Wrapf ''invoke self'' e), start # tr @ tr2, reg')
                                   | (None, tr2) \<Rightarrow>
                                       (None, start # tr @ tr2 @ [Log (QueuedNext next)], reg'))
                                else
                                  (None, start # tr @ [Log (CompletedAll (length repos))],
                                   reg'))))))"

definition handler ::
  "world \<Rightarrow> registry \<Rightarrow> string \<Rightarrow> error option \<times> effect list \<times> registry" where
  "handler w reg raw =
     (case parseJobEvent w raw of
        Inl err \<Rightarrow>
          (case handler_event w reg \<lparr>Index = 0, Repo = []\<rparr> of
             (r, tr, reg') \<Rightarrow> (r, Log EventParseFailed # tr, reg'))
      | Inr evt \<Rightarrow> handler_event w reg evt)"

section \<open>The full sync (cmd/fullsync)\<close>

text \<open>
  The older program mirrors every repository of the group in one invocation.  Its
  collaborators answer per call; \<open>crane.Digest\<close> returns Go's pair of a string and an
  error (the empty string when it fails), \<open>DescribeImages\<close> the \<open>ImageDigest\<close> pointers
  of the image details.
\<close>

record fs_world =
  fs_getenv :: "string \<Rightarrow> string"
  fs_load_default_config :: "error + string"
  sts_get_caller_identity :: "error + string"
  fs_get_authorization_token :: "string list \<Rightarrow> error + string option list"
  fs_base64_decode :: "string \<Rightarrow> error + string"
  fs_path_join :: "string \<Rightarrow> string \<Rightarrow> string"
  fs_parse_reference :: "string \<Rightarrow> error option"
  crane_catalog :: "string \<Rightarrow> error + string list"
  crane_list_tags :: "string \<Rightarrow> error + string list"
  crane_digest :: "string \<Rightarrow> string \<times> error option"
  crane_copy :: "string \<Rightarrow> string \<Rightarrow> error option"
  fs_describe_repositories :: "string \<Rightarrow> error option"
  fs_create_repository :: "string \<Rightarrow> bool \<Rightarrow> error option"
  fs_describe_images :: "string \<Rightarrow> string \<Rightarrow> error + string option list"

datatype fs_log =
    FoundRepos nat string
  | ListTagsFailed string
  | EnsureRepoFailed string
  | DigestSrcFailed string
  | CheckDstDigestFailed string
  | SkipSameDigest string string string
  | CopyLine string string
  | CopyError string string

datatype fs_effect =
    FsDescribeRepositories string
  | FsCreateRepository string bool
  | CraneListTags string
  | CraneDigest string
  | DescribeImages string string
  | CraneCopy string string
  | FsLog fs_log

text \<open>\<open>log.Fatalf\<close> in \<open>mustEnv\<close> ends the process; otherwise the handler returns.\<close>

datatype fs_outcome = Fatal string | Returned "error + string"

definition ecrHost :: "string \<Rightarrow> string \<Rightarrow> string" where
  "ecrHost accountID region = accountID @ ''.dkr.ecr.'' @ region @ ''.amazonaws.com''"

definition ensureECRRepo :: "fs_world \<Rightarrow> string \<Rightarrow> error option \<times> fs_effect list" where
  "ensureECRRepo w repo =
     (case fs_describe_repositories w repo of
        None \<Rightarrow> (None, [FsDescribeRepositories repo])
      | Some derr \<Rightarrow>
        (let err = fs_create_repository w repo True;
             calls = [FsDescribeRepositories repo, FsCreateRepository repo True]
         in if err \<noteq> None
               \<and> \<not> Contains (Error_text (the err)) ''RepositoryAlreadyExistsException''
            then (err, calls)
            else (None, calls)))"

definition ecrPassword :: "fs_world \<Rightarrow> string list \<Rightarrow> error + string" where
  "ecrPassword w registryIDs =
     (case fs_get_authorization_token w registryIDs of
        Inl e \<Rightarrow> Inl e
      | Inr out \<Rightarrow>
        if length out = 0 \<or> hd out = None then Inl (Errorf ''no ECR authorization data'')
        else (case fs_base64_decode w (the (hd out)) of
                Inl e \<Rightarrow> Inl e
              | Inr dec \<Rightarrow>
                (let parts = SplitN2 dec CHR '':''
                 in if length parts \<noteq> 2 then Inl (Errorf ''unexpected ECR token format'')
                    else Inr (parts ! 1))))"

definition copyImage :: "fs_world \<Rightarrow> string \<Rightarrow> string \<Rightarrow> error option \<times> fs_effect list" where
  "copyImage w src dst =
     (case fs_parse_reference w src of
        Some e \<Rightarrow> (Some (Wrapf ''parse src'' e), [])
      | None \<Rightarrow>
        (case fs_parse_reference w dst of
           Some e \<Rightarrow> (Some (Wrapf ''parse dst'' e), [])
         | None \<Rightarrow> (crane_copy w src dst, [CraneCopy src dst])))"

text \<open>\<open>ecrTagDigest\<close> returns Go's triple (digest, exists, err).\<close>

definition ecrTagDigest :: "fs_world \<Rightarrow> string \<Rightarrow> string \<Rightarrow> string \<times> bool \<times> error option" where
  "ecrTagDigest w repo tag =
     (case fs_describe_images w repo tag of
        Inl err \<Rightarrow>
          if Contains (Error_text err) ''RepositoryNotFoundException'' then ([], False, None)
          else ([], False, Some err)
      | Inr ImageDetails \<Rightarrow>
          if length ImageDetails = 0 \<or> hd ImageDetails = None then ([], False, None)
          else (the (hd ImageDetails), True, None))"

text \<open>The precheck of the tag loop: \<open>Skip\<close> when its \<open>continue\<close> is taken.\<close>

definition fs_digest_decision :: "string \<Rightarrow> string \<times> bool \<times> error option \<Rightarrow> decision" where
  "fs_digest_decision srcDigest r =
     (case r of (dstDigest, exists, err) \<Rightarrow>
        if err \<noteq> None then Transfer
        else if exists \<and> srcDigest \<noteq> [] \<and> dstDigest = srcDigest then Skip
        else Transfer)"

text \<open>The body of the tag loop.  No failure ends it: each one is logged.\<close>

definition fs_mirror_tag ::
  "fs_world \<Rightarrow> string \<Rightarrow> string \<Rightarrow> string \<Rightarrow> string \<Rightarrow> fs_effect list" where
  "fs_mirror_tag w fullSrcRepo dstHost dstRepo tag =
     (let src = fullSrcRepo @ '':'' @ tag;
          dst = dstHost @ ''/'' @ dstRepo @ '':'' @ tag;
          srcDigest = fst (crane_digest w src);
          digest_log = (if snd (crane_digest w src) \<noteq> None then [FsLog (DigestSrcFailed src)]
                        else []);
          r = ecrTagDigest w dstRepo tag;
          checks = [CraneDigest src] @ digest_log @ [DescribeImages dstRepo tag]
      in case fs_digest_decision srcDigest r of
           Skip \<Rightarrow> checks @ [FsLog (SkipSameDigest src dst srcDigest)]
         | Transfer \<Rightarrow>
             checks
             @ (if snd (snd r) \<noteq> None then [FsLog (CheckDstDigestFailed dst)] else [])
             @ [FsLog (CopyLine src dst)]
             @ snd (copyImage w src dst)
             @ (if fst (copyImage w src dst) \<noteq> None then [FsLog (CopyError src dst)]
                else []))"

text \<open>The body of the repository loop: a failure to list the tags or to ensure the
  repository is logged and the loop goes on with the next repository.\<close>

definition fs_mirror_repo ::
  "fs_world \<Rightarrow> string \<Rightarrow> string \<Rightarrow> string \<Rightarrow> string \<Rightarrow> fs_effect list" where
  "fs_mirror_repo w srcRegistry dstPrefix dstHost repoPath =
     (let fullSrcRepo = srcRegistry @ ''/'' @ repoPath
      in case crane_list_tags w fullSrcRepo of
           Inl err \<Rightarrow> [CraneListTags fullSrcRepo, FsLog (ListTagsFailed fullSrcRepo)]
         | Inr tags \<Rightarrow>
           if length tags = 0 then [CraneListTags fullSrcRepo]
           else
             (let dstRepo = (if dstPrefix \<noteq> [] then fs_path_join w dstPrefix repoPath
                             else repoPath)
              in case ensureECRRepo w dstRepo of
                   (Some err, tr) \<Rightarrow>
                     CraneListTags fullSrcRepo # tr @ [FsLog (EnsureRepoFailed dstRepo)]
                 | (None, tr) \<Rightarrow>
                     CraneListTags fullSrcRepo # tr
                     @ concat (map (fs_mirror_tag w fullSrcRepo dstHost dstRepo) tags)))"

definition fs_handler :: "fs_world \<Rightarrow> fs_outcome \<times> fs_effect list" where
  "fs_handler w =
     (let srcRegistry = (if fs_getenv w ''SRC_REGISTRY'' = [] then ''cgr.dev''
                         else fs_getenv w ''SRC_REGISTRY'')
      in if fs_getenv w ''GROUP_NAME'' = [] then (Fatal ''GROUP_NAME'', [])
         else if fs_getenv w ''CGR_USERNAME'' = [] then (Fatal ''CGR_USERNAME'', [])
         else if fs_getenv w ''CGR_PASSWORD'' = [] then (Fatal ''CGR_PASSWORD'', [])
         else
           (let group = fs_getenv w ''GROUP_NAME'';
                dstPrefix = TrimSuffix (fs_getenv w ''DST_PREFIX'') ''/''
            in case fs_load_default_config w of
                 Inl err \<Rightarrow> (Returned (Inl (Wrapf ''aws cfg'' err)), [])
               | Inr region \<Rightarrow>
              (case sts_get_caller_identity w of
                 Inl err \<Rightarrow> (Returned (Inl (Wrapf ''sts'' err)), [])
               | Inr accountID \<Rightarrow>
              (case ecrPassword w [accountID] of
                 Inl err \<Rightarrow> (Returned (Inl (Wrapf ''ecr auth'' err)), [])
               | Inr ecrPass \<Rightarrow>
              (let dstHost = ecrHost accountID region
               in case crane_catalog w srcRegistry of
                    Inl err \<Rightarrow> (Returned (Inl (Wrapf (''catalog '' @ srcRegistry) err)), [])
                  | Inr repos \<Rightarrow>
                    (let matched = filter (\<lambda>r. HasPrefix r (group @ ''/'')) repos
                     in (Returned (Inr ''ok''),
                         FsLog (FoundRepos (length matched) group)
                         # concat (map (fs_mirror_repo w srcRegistry dstPrefix dstHost)
                                     matched))))))))"

section \<open>Notions of the specification, read off the answers of the destination\<close>

text \<open>The digest that the destination records for a tag, if any: what the lookup of the
  chained mirror (\<open>BatchGetImage\<close>) and of the full sync (\<open>ecrTagDigest\<close>) found.\<close>

definition recorded_digest :: "error + image list \<Rightarrow> string option" where
  "recorded_digest ebr =
     (case ebr of
        Inl e \<Rightarrow> None
      | Inr [] \<Rightarrow> None
      | Inr (im # _) \<Rightarrow> (case ImageId im of None \<Rightarrow> None | Some i \<Rightarrow> ImageDigest i))"

definition fs_recorded_digest :: "string \<times> bool \<times> error option \<Rightarrow> string option" where
  "fs_recorded_digest r =
     (case r of (dstDigest, exists, err) \<Rightarrow>
        if err = None \<and> exists then Some dstDigest else None)"

text \<open>A destination that answers a digest lookup from its recorded state.\<close>

definition registry_lookup :: "registry \<Rightarrow> string \<Rightarrow> string \<Rightarrow> error + image list" where
  "registry_lookup reg repo tag =
     (case images reg (repo, tag) of
        None \<Rightarrow> Inr []
      | Some d \<Rightarrow> Inr [\<lparr>ImageId = Some \<lparr>ImageDigest = Some d\<rparr>\<rparr>])"



text \<open>Readings of a trace: the manifest and index writes, the creation calls, the
  continuations dispatched (their payloads, and the whole inputs of the calls), the tags
  whose digest was looked up, the tags skipped.\<close>

fun is_write :: "effect \<Rightarrow> bool" where
  "is_write (WriteIndex dst d) = True"
| "is_write (WriteImage dst d) = True"
| "is_write e = False"

fun is_create :: "effect \<Rightarrow> bool" where
  "is_create (CreateRepository n b) = True"
| "is_create e = False"

fun invoked :: "effect \<Rightarrow> string list" where
  "invoked (Invoke inp) = [Payload inp]"
| "invoked e = []"

fun dispatched :: "effect \<Rightarrow> InvokeInput list" where
  "dispatched (Invoke inp) = [inp]"
| "dispatched e = []"


fun skipped :: "effect \<Rightarrow> string list" where
  "skipped (Log (Skipping r t d)) = [t]"
| "skipped e = []"

text \<open>
  The transfer of a tag in the chained mirror.  The content to write is read from the
  descriptor, an index or an image according to the media type, and that may fail; the
  write is the call that puts the digest of the source under the destination reference;
  the destination answers the write.
\<close>

definition content_error :: "descriptor \<Rightarrow> error option" where
  "content_error desc = (if IsIndex desc then ImageIndex desc else Image desc)"

definition transfer_of :: "descriptor \<Rightarrow> string \<Rightarrow> effect" where
  "transfer_of desc dst =
     (if IsIndex desc then WriteIndex dst (Digest desc) else WriteImage dst (Digest desc))"

definition write_answer :: "world \<Rightarrow> registry \<Rightarrow> descriptor \<Rightarrow> string \<Rightarrow> error option" where
  "write_answer w reg desc dst =
     (if IsIndex desc then remote_write_index w reg dst else remote_write w reg dst)"

text \<open>The same for the full sync: the copies made and the source references skipped.\<close>

fun fs_is_copy :: "fs_effect \<Rightarrow> bool" where
  "fs_is_copy (CraneCopy src dst) = True"
| "fs_is_copy e = False"

fun fs_skipped :: "fs_effect \<Rightarrow> string list" where
  "fs_skipped (FsLog (SkipSameDigest src dst d)) = [src]"
| "fs_skipped e = []"

section \<open>The Lambda service\<close>

text \<open>
  The service runs the handler for the trigger, then once for each asynchronous
  invocation (an \<open>Invoke\<close> of type \<open>Event\<close>) that the handler dispatched before it
  returned without error: the event waits in the queue of the service while the handler
  that sent it runs to its end.  The list is the outcome of each invocation in order; the
  fuel bounds their number, and \<open>None\<close> says that it ran out.
\<close>

fun queued :: "effect \<Rightarrow> string list" where
  "queued (Invoke inp) =
     (if InvocationType inp = InvocationTypeEvent then [Payload inp] else [])"
| "queued e = []"

definition continuation :: "error option \<Rightarrow> effect list \<Rightarrow> string option" where
  "continuation r tr =
     (if r = None then (case concat (map queued tr) of [] \<Rightarrow> None | p # _ \<Rightarrow> Some p)
      else None)"

fun sweep ::
  "nat \<Rightarrow> world \<Rightarrow> registry \<Rightarrow> string \<Rightarrow> (error option \<times> effect list) list option" where
  "sweep 0 w reg raw = None"
| "sweep (Suc k) w reg raw =
     (case handler w reg raw of
        (r, tr, reg') \<Rightarrow>
          (case continuation r tr of
             None \<Rightarrow> Some [(r, tr)]
           | Some p \<Rightarrow>
               (case sweep k w reg' p of
                  None \<Rightarrow> None
                | Some rest \<Rightarrow> Some ((r, tr) # rest))))"

text \<open>
  The continuations of a list of \<open>N\<close> repositories can be dispatched: the configuration
  loads, the function name is set, and each event \<open>{index: i}\<close> with \<open>0 < i < N\<close> is
  marshalled to a payload that is not empty, that the service accepts as an asynchronous
  invocation and that \<open>json.Unmarshal\<close> reads back as the same event.
\<close>

definition dispatch_ok :: "world \<Rightarrow> nat \<Rightarrow> bool" where
  "dispatch_ok w N =
     (load_default_config w = None \<and> getenv w ''AWS_LAMBDA_FUNCTION_NAME'' \<noteq> []
      \<and> (\<forall>i \<in> {1..<N}.
            case json_marshal_event w \<lparr>Index = int i, Repo = []\<rparr> of
              Inl e \<Rightarrow> False
            | Inr p \<Rightarrow>
                p \<noteq> [] \<and> json_unmarshal_event w p = Inr \<lparr>Index = int i, Repo = []\<rparr>
                \<and> lambda_invoke w
                     \<lparr>FunctionName = getenv w ''AWS_LAMBDA_FUNCTION_NAME'',
                      InvocationType = InvocationTypeEvent, Payload = p\<rparr> = None))"

text \<open>
  What the invocation for position \<open>i\<close> (from 0) of a list of \<open>N\<close> repositories is
  expected to be: it returns without error; when \<open>i + 1 < N\<close> it calls \<open>Invoke\<close> exactly
  once, for its own function, asynchronously (type \<open>Event\<close>) and with the event
  \<open>{index: i + 1}\<close>, and it calls it not at all otherwise; and the last one logs that all
  repositories are completed.
\<close>

definition invocation_ok :: "world \<Rightarrow> nat \<Rightarrow> nat \<Rightarrow> error option \<times> effect list \<Rightarrow> bool" where
  "invocation_ok w N i out =
     (fst out = None
      \<and> map (\<lambda>inp. (FunctionName inp, InvocationType inp, Inr (Payload inp)))
            (concat (map dispatched (snd out)))
          = (if i + 1 < N
             then [(getenv w ''AWS_LAMBDA_FUNCTION_NAME'', InvocationTypeEvent,
                    json_marshal_event w \<lparr>Index = int (i + 1), Repo = []\<rparr>)]
             else [])
      \<and> (i + 1 = N \<longrightarrow> Log (CompletedAll N) \<in> set (snd out)))"

section \<open>Concrete worlds\<close>

text \<open>A small JSON codec for the events the examples use.\<close>

definition demo_marshal :: "JobEvent \<Rightarrow> error + string" where
  \<open>demo_marshal ev =
     (if 0 \<le> Index ev \<and> Index ev < 10 \<and> Repo ev = []
      then Inr (''{"index":'' @ [char_of (48 + nat (Index ev))] @ ''}'')
      else Inl (Errorf ''unsupported value''))\<close>

definition demo_unmarshal :: "string \<Rightarrow> error + JobEvent" where
  \<open>demo_unmarshal s =
     (if s = ''{}'' then Inr \<lparr>Index = 0, Repo = []\<rparr>
      else if length s = 11 \<and> take 9 s = ''{"index":'' \<and> isDigit (s ! 9)
              \<and> s ! 10 = CHR ''}''
      then Inr \<lparr>Index = int (of_char (s ! 9)) - 48, Repo = []\<rparr>
      else if HasPrefix s ''{"repo":"'' \<and> HasPrefix (rev s) ''}"''
      then Inr \<lparr>Index = 0, Repo = take (length s - 11) (drop 9 s)\<rparr>
      else Inl (Errorf ''invalid character''))\<close>

definition demo_env :: "string \<Rightarrow> string" where
  "demo_env k =
     (if k = ''REPO_LIST_CSV'' then ''cgr.dev/acme/a, cgr.dev/acme/b,cgr.dev/acme/c''
      else if k = ''COPY_ALL_TAGS'' then ''true''
      else if k = ''CGR_USERNAME'' then ''user''
      else if k = ''CGR_PASSWORD'' then ''token''
      else if k = ''AWS_LAMBDA_FUNCTION_NAME'' then ''mirror''
      else [])"

text \<open>Three repositories with the tags \<open>latest\<close> and \<open>v1\<close>; one tag is an index.  ECR
  answers from the state of the registry, and nothing fails.\<close>

definition demo_world :: world where
  "demo_world =
     \<lparr>getenv = demo_env,
      json_unmarshal_event = demo_unmarshal,
      json_marshal_event = demo_marshal,
      json_unmarshal_strings = (\<lambda>s. Inl (Errorf ''invalid character'')),
      load_default_config = None,
      ssm_get_parameter = (\<lambda>n. Inl (Errorf ''ParameterNotFound'')),
      ecr_get_authorization_token =
        Inr [\<lparr>AuthorizationToken = Some ''QVdTOnB3'',
              ProxyEndpoint = Some ''https://1.dkr.ecr.us-east-2.amazonaws.com''\<rparr>],
      base64_decode = (\<lambda>s. if s = ''QVdTOnB3'' then Inr ''AWS:pw''
                            else Inl (Errorf ''illegal base64 data'')),
      path_join = (\<lambda>a b. a @ ''/'' @ b),
      name_new_repository = (\<lambda>s. None),
      name_parse_reference = (\<lambda>s. None),
      remote_list = (\<lambda>r. Inr [''latest'', ''v1'']),
      remote_get =
        (\<lambda>r. Inr \<lparr>Digest = ''sha256:'' @ r, IsIndex = (r = ''cgr.dev/acme/b:latest''),
                  ImageIndex = None, Image = None\<rparr>),
      ecr_describe_repositories =
        (\<lambda>reg n. if n \<in> repositories reg then None
                  else Some (RepositoryNotFoundException n)),
      ecr_create_repository = (\<lambda>reg n scan. None),
      ecr_batch_get_image = registry_lookup,
      remote_write_index = (\<lambda>reg dst. None),
      remote_write = (\<lambda>reg dst. None),
      lambda_invoke = (\<lambda>inp. None)\<rparr>"

definition empty_registry :: registry where
  "empty_registry = \<lparr>repositories = {}, images = (\<lambda>k. None)\<rparr>"

text \<open>The full sync over one repository of the group with two tags; the digest of the
  first cannot be read, the destination has neither.\<close>

definition fs_demo_world :: fs_world where
  "fs_demo_world =
     \<lparr>fs_getenv = (\<lambda>k. if k = ''GROUP_NAME'' then ''acme''
                        else if k = ''CGR_USERNAME'' then ''user''
                        else if k = ''CGR_PASSWORD'' then ''token''
                        else []),
      fs_load_default_config = Inr ''us-east-2'',
      sts_get_caller_identity = Inr ''1'',
      fs_get_authorization_token = (\<lambda>ids. Inr [Some ''QVdTOnB3'']),
      fs_base64_decode = (\<lambda>s. if s = ''QVdTOnB3'' then Inr ''AWS:pw''
                               else Inl (Errorf ''illegal base64 data'')),
      fs_path_join = (\<lambda>a b. a @ ''/'' @ b),
      fs_parse_reference = (\<lambda>s. None),
      crane_catalog = (\<lambda>r. Inr [''acme/a'', ''other/x'']),
      crane_list_tags = (\<lambda>r. Inr [''v1'', ''v2'']),
      crane_digest =
        (\<lambda>src. if src = ''cgr.dev/acme/a:v1''
                then ([], Some (Errorf ''unexpected status code 503''))
                else (''sha256:'' @ src, None)),
      crane_copy = (\<lambda>src dst. None),
      fs_describe_repositories = (\<lambda>n. None),
      fs_create_repository = (\<lambda>n scan. None),
      fs_describe_images = (\<lambda>repo tag. Inr [])\<rparr>"

text \<open>The same source, every digest of which can be read, and a destination that already
  has each tag with the digest of the source; then the same again, except that the
  digest of one tag cannot be read.\<close>

definition fs_mirrored_world :: fs_world where
  "fs_mirrored_world =
     fs_demo_world
       \<lparr>crane_digest := (\<lambda>src. (''sha256:'' @ src, None)),
        fs_describe_images := (\<lambda>repo tag. Inr [Some (''sha256:cgr.dev/'' @ repo @ '':'' @ tag)])\<rparr>"


section \<open>Properties\<close>

subsection \<open>Strings\<close>

lemma TrimSpace_Nil: "TrimSpace [] = []"
  by (simp add: TrimSpace_def TrimLeftFunc.simps TrimRightFunc.simps)

subsection \<open>The mirror decision\<close>

lemma digest_decision_Skip_iff:
  "digest_decision s e = Skip \<longleftrightarrow> recorded_digest e = Some s"
  by (auto simp: digest_decision_def recorded_digest_def ToString_def
           split: sum.splits list.splits option.splits)

lemma decision_Transfer_iff: "d = Transfer \<longleftrightarrow> d \<noteq> Skip"
  by (cases d) simp_all

lemma fs_digest_decision_Skip_iff:
  "fs_digest_decision s r = Skip \<longleftrightarrow> s \<noteq> [] \<and> fs_recorded_digest r = Some s"
  by (auto simp: fs_digest_decision_def fs_recorded_digest_def split: prod.splits)

lemma fs_digest_decision_miss:
  "fs_recorded_digest r = None \<Longrightarrow> fs_digest_decision s r = Transfer"
  by (simp add: decision_Transfer_iff fs_digest_decision_Skip_iff)

lemma fs_lookup_failed:
  "fs_describe_images w repo tag = Inl err \<Longrightarrow> fs_recorded_digest (ecrTagDigest w repo tag) = None"
  by (simp add: ecrTagDigest_def fs_recorded_digest_def)

lemma fs_lookup_not_found:
  "fs_describe_images w repo tag = Inr [] \<Longrightarrow> fs_recorded_digest (ecrTagDigest w repo tag) = None"
  by (simp add: ecrTagDigest_def fs_recorded_digest_def)

subsection \<open>One tag of the chained mirror\<close>


lemma mirror_tag_Transfer_image:
  assumes "name_parse_reference w (srcRepo @ '':'' @ tag) = None"
    and "name_parse_reference w (ecrEndpoint @ ''/'' @ dstRepoName @ '':'' @ tag) = None"
    and "remote_get w (srcRepo @ '':'' @ tag) = Inr desc"
    and "digest_decision (Digest desc) (ecr_batch_get_image w reg dstRepoName tag) = Transfer"
    and "\<not> IsIndex desc" and "Image desc = None"
  shows "mirror_tag w srcRepo ecrEndpoint dstRepoName reg tag
         = (case remote_write w reg (ecrEndpoint @ ''/'' @ dstRepoName @ '':'' @ tag) of
              Some e \<Rightarrow>
                (Some (Wrapf (''write image to ''
                               @ ecrEndpoint @ ''/'' @ dstRepoName @ '':'' @ tag) e),
                 [RemoteGet (srcRepo @ '':'' @ tag), BatchGetImage dstRepoName tag,
                  Log (CopyingImage (srcRepo @ '':'' @ tag)
                         (ecrEndpoint @ ''/'' @ dstRepoName @ '':'' @ tag)),
                  WriteImage (ecrEndpoint @ ''/'' @ dstRepoName @ '':'' @ tag) (Digest desc)],
                 reg)
            | None \<Rightarrow>
                (None,
                 [RemoteGet (srcRepo @ '':'' @ tag), BatchGetImage dstRepoName tag,
                  Log (CopyingImage (srcRepo @ '':'' @ tag)
                         (ecrEndpoint @ ''/'' @ dstRepoName @ '':'' @ tag)),
                  WriteImage (ecrEndpoint @ ''/'' @ dstRepoName @ '':'' @ tag) (Digest desc)],
                 reg\<lparr>images := (images reg)((dstRepoName, tag) \<mapsto> Digest desc)\<rparr>))"
  using assms by (simp add: mirror_tag_def Let_def split: option.splits)

lemma mirror_tag_Transfer_index:
  assumes "name_parse_reference w (srcRepo @ '':'' @ tag) = None"
    and "name_parse_reference w (ecrEndpoint @ ''/'' @ dstRepoName @ '':'' @ tag) = None"
    and "remote_get w (srcRepo @ '':'' @ tag) = Inr desc"
    and "digest_decision (Digest desc) (ecr_batch_get_image w reg dstRepoName tag) = Transfer"
    and "IsIndex desc" and "ImageIndex desc = None"
  shows "mirror_tag w srcRepo ecrEndpoint dstRepoName reg tag
         = (case remote_write_index w reg (ecrEndpoint @ ''/'' @ dstRepoName @ '':'' @ tag) of
              Some e \<Rightarrow>
                (Some (Wrapf (''write index to ''
                               @ ecrEndpoint @ ''/'' @ dstRepoName @ '':'' @ tag) e),
                 [RemoteGet (srcRepo @ '':'' @ tag), BatchGetImage dstRepoName tag,
                  Log (CopyingIndex (srcRepo @ '':'' @ tag)
                         (ecrEndpoint @ ''/'' @ dstRepoName @ '':'' @ tag)),
                  WriteIndex (ecrEndpoint @ ''/'' @ dstRepoName @ '':'' @ tag) (Digest desc)],
                 reg)
            | None \<Rightarrow>
                (None,
                 [RemoteGet (srcRepo @ '':'' @ tag), BatchGetImage dstRepoName tag,
                  Log (CopyingIndex (srcRepo @ '':'' @ tag)
                         (ecrEndpoint @ ''/'' @ dstRepoName @ '':'' @ tag)),
                  WriteIndex (ecrEndpoint @ ''/'' @ dstRepoName @ '':'' @ tag) (Digest desc)],
                 reg\<lparr>images := (images reg)((dstRepoName, tag) \<mapsto> Digest desc)\<rparr>))"
  using assms by (simp add: mirror_tag_def Let_def split: option.splits)

lemma mirror_tag_Transfer_unreadable:
  assumes "name_parse_reference w (srcRepo @ '':'' @ tag) = None"
    and "name_parse_reference w (ecrEndpoint @ ''/'' @ dstRepoName @ '':'' @ tag) = None"
    and "remote_get w (srcRepo @ '':'' @ tag) = Inr desc"
    and "digest_decision (Digest desc) (ecr_batch_get_image w reg dstRepoName tag) = Transfer"
    and "content_error desc = Some e"
  shows "mirror_tag w srcRepo ecrEndpoint dstRepoName reg tag
         = (Some (Wrapf ((if IsIndex desc then ''read index '' else ''read image '')
                          @ srcRepo @ '':'' @ tag) e),
            [RemoteGet (srcRepo @ '':'' @ tag), BatchGetImage dstRepoName tag],
            reg)"
  using assms by (simp add: mirror_tag_def content_error_def Let_def split: if_splits)

text \<open>What a tag costs when the decision is to transfer it: no skip, the write of the
  source digest when the content can be read, and no error but that of the reading or of
  the write.\<close>

lemma mirror_tag_Transfer:
  assumes "name_parse_reference w (srcRepo @ '':'' @ tag) = None"
    and "name_parse_reference w (ecrEndpoint @ ''/'' @ dstRepoName @ '':'' @ tag) = None"
    and "remote_get w (srcRepo @ '':'' @ tag) = Inr desc"
    and "recorded_digest (ecr_batch_get_image w reg dstRepoName tag) \<noteq> Some (Digest desc)"
  shows "concat (map skipped (fst (snd (mirror_tag w srcRepo ecrEndpoint dstRepoName reg tag))))
           = []"
    and "filter is_write (fst (snd (mirror_tag w srcRepo ecrEndpoint dstRepoName reg tag)))
           = (if content_error desc = None
              then [transfer_of desc (ecrEndpoint @ ''/'' @ dstRepoName @ '':'' @ tag)]
              else [])"
    and "fst (mirror_tag w srcRepo ecrEndpoint dstRepoName reg tag) = None
           \<longleftrightarrow> content_error desc = None
               \<and> write_answer w reg desc (ecrEndpoint @ ''/'' @ dstRepoName @ '':'' @ tag)
                   = None"
    and "fst (mirror_tag w srcRepo ecrEndpoint dstRepoName reg tag) = None
           \<longrightarrow> snd (snd (mirror_tag w srcRepo ecrEndpoint dstRepoName reg tag))
               = reg\<lparr>images := (images reg)((dstRepoName, tag) \<mapsto> Digest desc)\<rparr>"
proof -
  let ?m = "mirror_tag w srcRepo ecrEndpoint dstRepoName reg tag"
  let ?dst = "ecrEndpoint @ ''/'' @ dstRepoName @ '':'' @ tag"
  have decision:
    "digest_decision (Digest desc) (ecr_batch_get_image w reg dstRepoName tag) = Transfer"
    using assms(4) by (simp add: decision_Transfer_iff digest_decision_Skip_iff)
  have all: "concat (map skipped (fst (snd ?m))) = []
      \<and> filter is_write (fst (snd ?m))
          = (if content_error desc = None then [transfer_of desc ?dst] else [])
      \<and> (fst ?m = None
           \<longleftrightarrow> content_error desc = None \<and> write_answer w reg desc ?dst = None)
      \<and> (fst ?m = None
           \<longrightarrow> snd (snd ?m) = reg\<lparr>images := (images reg)((dstRepoName, tag) \<mapsto> Digest desc)\<rparr>)"
  proof (cases "content_error desc")
    case (Some e)
    have "?m = (Some (Wrapf ((if IsIndex desc then ''read index '' else ''read image '')
                          @ srcRepo @ '':'' @ tag) e),
                [RemoteGet (srcRepo @ '':'' @ tag), BatchGetImage dstRepoName tag], reg)"
      using assms(1-3) decision Some by (rule mirror_tag_Transfer_unreadable)
    then show ?thesis
      using Some by simp
  next
    case None
    show ?thesis
    proof (cases "IsIndex desc")
      case True
      then have readable: "ImageIndex desc = None"
        using None by (simp add: content_error_def)
      show ?thesis
        unfolding mirror_tag_Transfer_index [OF assms(1-3) decision True readable]
        using None True
        by (simp add: transfer_of_def write_answer_def split: option.splits)
    next
      case False
      then have readable: "Image desc = None"
        using None by (simp add: content_error_def)
      show ?thesis
        unfolding mirror_tag_Transfer_image [OF assms(1-3) decision False readable]
        using None False
        by (simp add: transfer_of_def write_answer_def split: option.splits)
    qed
  qed
  show "concat (map skipped (fst (snd ?m))) = []"
    using all by (rule conjunct1)
  show "filter is_write (fst (snd ?m))
          = (if content_error desc = None then [transfer_of desc ?dst] else [])"
    using all by (elim conjE)
  show "fst ?m = None \<longleftrightarrow> content_error desc = None \<and> write_answer w reg desc ?dst = None"
    using all by (elim conjE)
  show "fst ?m = None
          \<longrightarrow> snd (snd ?m) = reg\<lparr>images := (images reg)((dstRepoName, tag) \<mapsto> Digest desc)\<rparr>"
    using all by (elim conjE)
qed

subsection \<open>One tag of the full sync\<close>

lemma copyImage_copies:
  "filter fs_is_copy (snd (copyImage w src dst))
     = (if fs_parse_reference w src = None \<and> fs_parse_reference w dst = None
        then [CraneCopy src dst] else [])"
  "concat (map fs_skipped (snd (copyImage w src dst))) = []"
  by (auto simp: copyImage_def split: option.splits)


lemma fs_mirror_tag_Transfer:
  assumes "\<not> (fst (crane_digest w (fullSrcRepo @ '':'' @ tag)) \<noteq> []
              \<and> fs_recorded_digest (ecrTagDigest w dstRepo tag)
                  = Some (fst (crane_digest w (fullSrcRepo @ '':'' @ tag))))"
  shows "fs_mirror_tag w fullSrcRepo dstHost dstRepo tag
           = [CraneDigest (fullSrcRepo @ '':'' @ tag)]
             @ (if snd (crane_digest w (fullSrcRepo @ '':'' @ tag)) \<noteq> None
                then [FsLog (DigestSrcFailed (fullSrcRepo @ '':'' @ tag))] else [])
             @ [DescribeImages dstRepo tag]
             @ (if snd (snd (ecrTagDigest w dstRepo tag)) \<noteq> None
                then [FsLog (CheckDstDigestFailed (dstHost @ ''/'' @ dstRepo @ '':'' @ tag))]
                else [])
             @ [FsLog (CopyLine (fullSrcRepo @ '':'' @ tag)
                         (dstHost @ ''/'' @ dstRepo @ '':'' @ tag))]
             @ snd (copyImage w (fullSrcRepo @ '':'' @ tag)
                      (dstHost @ ''/'' @ dstRepo @ '':'' @ tag))
             @ (if fst (copyImage w (fullSrcRepo @ '':'' @ tag)
                          (dstHost @ ''/'' @ dstRepo @ '':'' @ tag)) \<noteq> None
                then [FsLog (CopyError (fullSrcRepo @ '':'' @ tag)
                               (dstHost @ ''/'' @ dstRepo @ '':'' @ tag))]
                else [])"
proof -
  have "fs_digest_decision (fst (crane_digest w (fullSrcRepo @ '':'' @ tag)))
          (ecrTagDigest w dstRepo tag) = Transfer"
    using assms unfolding decision_Transfer_iff fs_digest_decision_Skip_iff by simp
  then show ?thesis
    by (simp add: fs_mirror_tag_def Let_def)
qed


lemma fs_mirror_tag_Transfer_reads:
  assumes "\<not> (fst (crane_digest w (fullSrcRepo @ '':'' @ tag)) \<noteq> []
              \<and> fs_recorded_digest (ecrTagDigest w dstRepo tag)
                  = Some (fst (crane_digest w (fullSrcRepo @ '':'' @ tag))))"
  shows "concat (map fs_skipped (fs_mirror_tag w fullSrcRepo dstHost dstRepo tag)) = []"
    and "filter fs_is_copy (fs_mirror_tag w fullSrcRepo dstHost dstRepo tag)
           = (if fs_parse_reference w (fullSrcRepo @ '':'' @ tag) = None
                 \<and> fs_parse_reference w (dstHost @ ''/'' @ dstRepo @ '':'' @ tag) = None
              then [CraneCopy (fullSrcRepo @ '':'' @ tag)
                      (dstHost @ ''/'' @ dstRepo @ '':'' @ tag)]
              else [])"
    and "FsLog (CopyLine (fullSrcRepo @ '':'' @ tag) (dstHost @ ''/'' @ dstRepo @ '':'' @ tag))
           \<in> set (fs_mirror_tag w fullSrcRepo dstHost dstRepo tag)"
  unfolding fs_mirror_tag_Transfer [OF assms] by (simp_all add: copyImage_copies)

text \<open>The tag loop of the full sync runs the body for every tag, whatever happened at the
  tags before.\<close>

lemma fs_mirror_repo_tags:
  assumes "crane_list_tags w (srcRegistry @ ''/'' @ repoPath) = Inr tags"
    and "tags \<noteq> []"
    and "ensureECRRepo w (if dstPrefix \<noteq> [] then fs_path_join w dstPrefix repoPath
                           else repoPath) = (None, tr)"
  shows "fs_mirror_repo w srcRegistry dstPrefix dstHost repoPath
           = CraneListTags (srcRegistry @ ''/'' @ repoPath) # tr
             @ concat (map (fs_mirror_tag w (srcRegistry @ ''/'' @ repoPath) dstHost
                              (if dstPrefix \<noteq> [] then fs_path_join w dstPrefix repoPath
                               else repoPath))
                         tags)"
  using assms by (simp add: fs_mirror_repo_def Let_def)

subsection \<open>Claim C1: skip exactly on the same digest\<close>




subsection \<open>Claim C6: a failed lookup is a cache miss\<close>

text \<open>
  Claim C6.  When the digest lookup at the destination fails, or finds no digest for the
  tag, the destination records nothing for the tag as far as the program knows, and the
  decision is \<open>Transfer\<close>.  In the chained mirror the tag is then never skipped: its
  content is read and written, an image or an index alike, and the failure of the lookup
  is no error of the pass, whose only errors are those of the reading and of the write;
  when these succeed the loop goes on with the next tag.  In the full sync the tag is not
  skipped either: the copy is logged and made (provided both references parse), and the
  tag loop runs its body for every tag.
\<close>

theorem lookup_miss_transfers:
  "recorded_digest (Inl err) = None
   \<and> recorded_digest (Inr []) = None
   \<and> (recorded_digest ebr = None \<longrightarrow> digest_decision srcDigest ebr = Transfer)
   \<and> (name_parse_reference w (srcRepo @ '':'' @ tag) = None
        \<and> name_parse_reference w (ep @ ''/'' @ dn @ '':'' @ tag) = None
        \<and> remote_get w (srcRepo @ '':'' @ tag) = Inr desc
        \<and> recorded_digest (ecr_batch_get_image w reg dn tag) = None
       \<longrightarrow> concat (map skipped (fst (snd (mirror_tag w srcRepo ep dn reg tag)))) = []
           \<and> filter is_write (fst (snd (mirror_tag w srcRepo ep dn reg tag)))
               = (if content_error desc = None
                  then [transfer_of desc (ep @ ''/'' @ dn @ '':'' @ tag)] else [])
           \<and> (fst (mirror_tag w srcRepo ep dn reg tag) = None
                \<longleftrightarrow> content_error desc = None
                    \<and> write_answer w reg desc (ep @ ''/'' @ dn @ '':'' @ tag) = None)
           \<and> (fst (mirror_tag w srcRepo ep dn reg tag) = None
                \<longrightarrow> mirror_tags w srcRepo ep dn reg (tag # rest)
                    = (case mirror_tags w srcRepo ep dn
                              (reg\<lparr>images := (images reg)((dn, tag) \<mapsto> Digest desc)\<rparr>) rest of
                         (r, tr', reg'') \<Rightarrow>
                           (r, fst (snd (mirror_tag w srcRepo ep dn reg tag)) @ tr', reg''))))
   \<and> (fs_describe_images fw dstRepo ftag = Inl err
       \<longrightarrow> fs_recorded_digest (ecrTagDigest fw dstRepo ftag) = None)
   \<and> (fs_describe_images fw dstRepo ftag = Inr []
       \<longrightarrow> fs_recorded_digest (ecrTagDigest fw dstRepo ftag) = None)
   \<and> (fs_recorded_digest (ecrTagDigest fw dstRepo ftag) = None
       \<longrightarrow> fs_digest_decision srcDigest (ecrTagDigest fw dstRepo ftag) = Transfer
           \<and> concat (map fs_skipped (fs_mirror_tag fw fullSrcRepo dstHost dstRepo ftag)) = []
           \<and> FsLog (CopyLine (fullSrcRepo @ '':'' @ ftag)
                      (dstHost @ ''/'' @ dstRepo @ '':'' @ ftag))
                \<in> set (fs_mirror_tag fw fullSrcRepo dstHost dstRepo ftag)
           \<and> filter fs_is_copy (fs_mirror_tag fw fullSrcRepo dstHost dstRepo ftag)
               = (if fs_parse_reference fw (fullSrcRepo @ '':'' @ ftag) = None
                     \<and> fs_parse_reference fw (dstHost @ ''/'' @ dstRepo @ '':'' @ ftag) = None
                  then [CraneCopy (fullSrcRepo @ '':'' @ ftag)
                          (dstHost @ ''/'' @ dstRepo @ '':'' @ ftag)]
                  else []))
   \<and> (crane_list_tags fw (srcRegistry @ ''/'' @ repoPath) = Inr tags \<and> tags \<noteq> []
        \<and> ensureECRRepo fw (if dstPrefix \<noteq> [] then fs_path_join fw dstPrefix repoPath
                              else repoPath) = (None, etr)
       \<longrightarrow> fs_mirror_repo fw srcRegistry dstPrefix dstHost repoPath
            = CraneListTags (srcRegistry @ ''/'' @ repoPath) # etr
              @ concat (map (fs_mirror_tag fw (srcRegistry @ ''/'' @ repoPath) dstHost
                               (if dstPrefix \<noteq> [] then fs_path_join fw dstPrefix repoPath
                                else repoPath))
                          tags))"
proof (intro conjI impI)
  show "recorded_digest (Inl err) = None" and "recorded_digest (Inr []) = None"
    by (simp_all add: recorded_digest_def)
  show "digest_decision srcDigest ebr = Transfer" if "recorded_digest ebr = None"
    using that by (simp add: decision_Transfer_iff digest_decision_Skip_iff)
next
  let ?m = "mirror_tag w srcRepo ep dn reg tag"
  let ?dst = "ep @ ''/'' @ dn @ '':'' @ tag"
  assume miss: "name_parse_reference w (srcRepo @ '':'' @ tag) = None
        \<and> name_parse_reference w (ep @ ''/'' @ dn @ '':'' @ tag) = None
        \<and> remote_get w (srcRepo @ '':'' @ tag) = Inr desc
        \<and> recorded_digest (ecr_batch_get_image w reg dn tag) = None"
  then have p1: "name_parse_reference w (srcRepo @ '':'' @ tag) = None"
    and p2: "name_parse_reference w (ep @ ''/'' @ dn @ '':'' @ tag) = None"
    and p3: "remote_get w (srcRepo @ '':'' @ tag) = Inr desc"
    and p4: "recorded_digest (ecr_batch_get_image w reg dn tag) \<noteq> Some (Digest desc)"
    by simp_all
  show "concat (map skipped (fst (snd ?m))) = []"
    using p1 p2 p3 p4 by (rule mirror_tag_Transfer(1))
  show "filter is_write (fst (snd ?m))
          = (if content_error desc = None then [transfer_of desc ?dst] else [])"
    using p1 p2 p3 p4 by (rule mirror_tag_Transfer(2))
  show "fst ?m = None \<longleftrightarrow> content_error desc = None \<and> write_answer w reg desc ?dst = None"
    using p1 p2 p3 p4 by (rule mirror_tag_Transfer(3))
  show "mirror_tags w srcRepo ep dn reg (tag # rest)
          = (case mirror_tags w srcRepo ep dn
                    (reg\<lparr>images := (images reg)((dn, tag) \<mapsto> Digest desc)\<rparr>) rest of
               (r, tr', reg'') \<Rightarrow> (r, fst (snd ?m) @ tr', reg''))"
    if ok: "fst ?m = None"
  proof -
    have after: "snd (snd ?m) = reg\<lparr>images := (images reg)((dn, tag) \<mapsto> Digest desc)\<rparr>"
      using mirror_tag_Transfer(4) [OF p1 p2 p3 p4] ok by simp
    obtain tr where m: "?m = (None, tr, reg\<lparr>images := (images reg)((dn, tag) \<mapsto> Digest desc)\<rparr>)"
      using ok after by (cases ?m) auto
    show ?thesis
      by (simp add: m split_beta)
  qed
next
  show "fs_recorded_digest (ecrTagDigest fw dstRepo ftag) = None"
    if "fs_describe_images fw dstRepo ftag = Inl err"
    using that by (rule fs_lookup_failed)
  show "fs_recorded_digest (ecrTagDigest fw dstRepo ftag) = None"
    if "fs_describe_images fw dstRepo ftag = Inr []"
    using that by (rule fs_lookup_not_found)
next
  let ?t = "fs_mirror_tag fw fullSrcRepo dstHost dstRepo ftag"
  assume miss: "fs_recorded_digest (ecrTagDigest fw dstRepo ftag) = None"
  then have other:
    "\<not> (fst (crane_digest fw (fullSrcRepo @ '':'' @ ftag)) \<noteq> []
        \<and> fs_recorded_digest (ecrTagDigest fw dstRepo ftag)
            = Some (fst (crane_digest fw (fullSrcRepo @ '':'' @ ftag))))"
    by simp
  show "fs_digest_decision srcDigest (ecrTagDigest fw dstRepo ftag) = Transfer"
    using miss by (rule fs_digest_decision_miss)
  show "concat (map fs_skipped ?t) = []"
    using other by (rule fs_mirror_tag_Transfer_reads(1))
  show "FsLog (CopyLine (fullSrcRepo @ '':'' @ ftag) (dstHost @ ''/'' @ dstRepo @ '':'' @ ftag))
          \<in> set ?t"
    using other by (rule fs_mirror_tag_Transfer_reads(3))
  show "filter fs_is_copy ?t
          = (if fs_parse_reference fw (fullSrcRepo @ '':'' @ ftag) = None
                \<and> fs_parse_reference fw (dstHost @ ''/'' @ dstRepo @ '':'' @ ftag) = None
             then [CraneCopy (fullSrcRepo @ '':'' @ ftag)
                     (dstHost @ ''/'' @ dstRepo @ '':'' @ ftag)]
             else [])"
    using other by (rule fs_mirror_tag_Transfer_reads(2))
next
  assume "crane_list_tags fw (srcRegistry @ ''/'' @ repoPath) = Inr tags \<and> tags \<noteq> []
        \<and> ensureECRRepo fw (if dstPrefix \<noteq> [] then fs_path_join fw dstPrefix repoPath
                              else repoPath) = (None, etr)"
  then show "fs_mirror_repo fw srcRegistry dstPrefix dstHost repoPath
            = CraneListTags (srcRegistry @ ''/'' @ repoPath) # etr
              @ concat (map (fs_mirror_tag fw (srcRegistry @ ''/'' @ repoPath) dstHost
                               (if dstPrefix \<noteq> [] then fs_path_join fw dstPrefix repoPath
                                else repoPath))
                          tags)"
    by (intro fs_mirror_repo_tags) simp_all
qed

text \<open>
  The theorem at work.  ECR throttles every lookup.  In the chained mirror the index
  \<open>cgr.dev/acme/b:latest\<close> is written all the same and the pass goes on to \<open>v1\<close>; in the
  full sync the two tags of the repository are copied.
\<close>

theorem lookup_miss_transfers_witness:
  "digest_decision ''sha256:aa'' (Inl (Errorf ''ThrottlingException'')) = Transfer
   \<and> filter is_write
        (fst (snd (mirror_tag
           (demo_world\<lparr>ecr_batch_get_image :=
              (\<lambda>reg repo tag. Inl (Errorf ''ThrottlingException''))\<rparr>)
           ''cgr.dev/acme/b'' ''1.dkr.ecr.us-east-2.amazonaws.com'' ''acme/b''
           empty_registry ''latest'')))
      = [WriteIndex ''1.dkr.ecr.us-east-2.amazonaws.com/acme/b:latest''
           ''sha256:cgr.dev/acme/b:latest'']
   \<and> fst (mirror_tag
           (demo_world\<lparr>ecr_batch_get_image :=
              (\<lambda>reg repo tag. Inl (Errorf ''ThrottlingException''))\<rparr>)
           ''cgr.dev/acme/b'' ''1.dkr.ecr.us-east-2.amazonaws.com'' ''acme/b''
           empty_registry ''latest'') = None
   \<and> filter fs_is_copy
        (fs_mirror_tag
           (fs_mirrored_world\<lparr>fs_describe_images :=
              (\<lambda>repo tag. Inl (Errorf ''ThrottlingException''))\<rparr>)
           ''cgr.dev/acme/a'' ''1.dkr.ecr.us-east-2.amazonaws.com'' ''acme/a'' ''v1'')
      = [CraneCopy ''cgr.dev/acme/a:v1'' ''1.dkr.ecr.us-east-2.amazonaws.com/acme/a:v1'']
   \<and> filter fs_is_copy
        (fs_mirror_repo
           (fs_mirrored_world\<lparr>fs_describe_images :=
              (\<lambda>repo tag. Inl (Errorf ''ThrottlingException''))\<rparr>)
           ''cgr.dev'' [] ''1.dkr.ecr.us-east-2.amazonaws.com'' ''acme/a'')
      = [CraneCopy ''cgr.dev/acme/a:v1'' ''1.dkr.ecr.us-east-2.amazonaws.com/acme/a:v1'',
         CraneCopy ''cgr.dev/acme/a:v2'' ''1.dkr.ecr.us-east-2.amazonaws.com/acme/a:v2'']"
proof -
  let ?w = "demo_world\<lparr>ecr_batch_get_image :=
               (\<lambda>reg repo tag. Inl (Errorf ''ThrottlingException''))\<rparr>"
  let ?fw = "fs_mirrored_world\<lparr>fs_describe_images :=
                (\<lambda>repo tag. Inl (Errorf ''ThrottlingException''))\<rparr>"
  let ?ep = "''1.dkr.ecr.us-east-2.amazonaws.com''"
  let ?desc = "\<lparr>Digest = ''sha256:cgr.dev/acme/b:latest'', IsIndex = True,
                ImageIndex = None, Image = None\<rparr>"
  have miss:
    "name_parse_reference ?w (''cgr.dev/acme/b'' @ '':'' @ ''latest'') = None
     \<and> name_parse_reference ?w (?ep @ ''/'' @ ''acme/b'' @ '':'' @ ''latest'') = None
     \<and> remote_get ?w (''cgr.dev/acme/b'' @ '':'' @ ''latest'') = Inr ?desc
     \<and> recorded_digest (ecr_batch_get_image ?w empty_registry ''acme/b'' ''latest'') = None"
    by (simp add: demo_world_def recorded_digest_def)
  have readable: "content_error ?desc = None"
    by (simp add: content_error_def)
  have answer: "write_answer ?w empty_registry ?desc
                  (?ep @ ''/'' @ ''acme/b'' @ '':'' @ ''latest'') = None"
    by (simp add: write_answer_def demo_world_def)
  have wr: "transfer_of ?desc (?ep @ ''/'' @ ''acme/b'' @ '':'' @ ''latest'')
              = WriteIndex ''1.dkr.ecr.us-east-2.amazonaws.com/acme/b:latest''
                  ''sha256:cgr.dev/acme/b:latest''"
    by (simp add: transfer_of_def)
  have failing: "fs_describe_images ?fw ''acme/a'' ''v1'' = Inl (Errorf ''ThrottlingException'')"
    by simp
  have parses: "fs_parse_reference fs_mirrored_world s = None" for s
    by (simp add: fs_mirrored_world_def fs_demo_world_def)
  have listed: "crane_list_tags ?fw (''cgr.dev'' @ ''/'' @ ''acme/a'') = Inr [''v1'', ''v2'']"
    by (simp add: fs_mirrored_world_def fs_demo_world_def)
  have ensured: "ensureECRRepo ?fw ''acme/a'' = (None, [FsDescribeRepositories ''acme/a''])"
    by (simp add: ensureECRRepo_def fs_mirrored_world_def fs_demo_world_def)
  note inst = lookup_miss_transfers [where err = "Errorf ''ThrottlingException''"
      and ebr = "Inl (Errorf ''ThrottlingException'')" and srcDigest = "''sha256:aa''"
      and w = ?w and srcRepo = "''cgr.dev/acme/b''" and tag = "''latest''" and ep = ?ep
      and dn = "''acme/b''" and desc = ?desc and reg = empty_registry and rest = "[''v1'']"
      and fw = ?fw and dstRepo = "''acme/a''" and ftag = "''v1''"
      and fullSrcRepo = "''cgr.dev/acme/a''" and dstHost = ?ep
      and srcRegistry = "''cgr.dev''" and repoPath = "''acme/a''" and dstPrefix = "[]"
      and tags = "[''v1'', ''v2'']" and etr = "[FsDescribeRepositories ''acme/a'']"]
  have norecord: "recorded_digest (Inl (Errorf ''ThrottlingException'') :: error + image list)
                    = None"
    using inst by (rule conjunct1)
  have a: "digest_decision ''sha256:aa'' (Inl (Errorf ''ThrottlingException'')) = Transfer"
    using inst [THEN conjunct2, THEN conjunct2, THEN conjunct1] norecord by blast
  have chained:
    "filter is_write (fst (snd (mirror_tag ?w ''cgr.dev/acme/b'' ?ep ''acme/b''
                                  empty_registry ''latest'')))
       = [WriteIndex ''1.dkr.ecr.us-east-2.amazonaws.com/acme/b:latest''
            ''sha256:cgr.dev/acme/b:latest'']
     \<and> fst (mirror_tag ?w ''cgr.dev/acme/b'' ?ep ''acme/b'' empty_registry ''latest'') = None"
    using inst [THEN conjunct2, THEN conjunct2, THEN conjunct2, THEN conjunct1]
      miss readable answer wr
    by simp
  have lost: "fs_recorded_digest (ecrTagDigest ?fw ''acme/a'' ''v1'') = None"
    using inst [THEN conjunct2, THEN conjunct2, THEN conjunct2, THEN conjunct2, THEN conjunct1]
      failing
    by blast
  have d: "filter fs_is_copy (fs_mirror_tag ?fw ''cgr.dev/acme/a'' ?ep ''acme/a'' ''v1'')
      = [CraneCopy ''cgr.dev/acme/a:v1'' ''1.dkr.ecr.us-east-2.amazonaws.com/acme/a:v1'']"
    using inst [THEN conjunct2, THEN conjunct2, THEN conjunct2, THEN conjunct2, THEN conjunct2,
                THEN conjunct2, THEN conjunct1] lost
    by (simp add: parses)
  have "fs_mirror_repo ?fw ''cgr.dev'' [] ?ep ''acme/a''
          = CraneListTags (''cgr.dev'' @ ''/'' @ ''acme/a'') # [FsDescribeRepositories ''acme/a'']
            @ concat (map (fs_mirror_tag ?fw (''cgr.dev'' @ ''/'' @ ''acme/a'') ?ep ''acme/a'')
                        [''v1'', ''v2''])"
    using inst [THEN conjunct2, THEN conjunct2, THEN conjunct2, THEN conjunct2, THEN conjunct2,
                THEN conjunct2, THEN conjunct2] listed ensured
    by simp
  then have e: "filter fs_is_copy (fs_mirror_repo ?fw ''cgr.dev'' [] ?ep ''acme/a'')
      = [CraneCopy ''cgr.dev/acme/a:v1'' ''1.dkr.ecr.us-east-2.amazonaws.com/acme/a:v1'',
         CraneCopy ''cgr.dev/acme/a:v2'' ''1.dkr.ecr.us-east-2.amazonaws.com/acme/a:v2'']"
    by (simp add: fs_mirror_tag_def fs_digest_decision_def ecrTagDigest_def copyImage_def
          Contains.simps HasPrefix_def fs_mirrored_world_def fs_demo_world_def Let_def)
  show ?thesis
    using a chained d e by (intro conjI) simp_all
qed

subsection \<open>Claim C7: the repository list\<close>

lemma normalizeRepoList_foldl:
  "foldl (\<lambda>out s. let t = TrimSpace s in if t \<noteq> [] then out @ [t] else out) acc ins
     = acc @ filter (\<lambda>t. t \<noteq> []) (map TrimSpace ins)"
  by (induction ins arbitrary: acc) (simp_all add: Let_def)

lemma normalizeRepoList_eq:
  "normalizeRepoList ins = filter (\<lambda>t. t \<noteq> []) (map TrimSpace ins)"
  by (simp add: normalizeRepoList_def normalizeRepoList_foldl)

lemma count_list_filter_other:
  "P t \<Longrightarrow> count_list (filter P xs) t = count_list xs t"
  by (induction xs) auto

text \<open>
  Claim C7, as amended.  The list that the provider returns is not deduplicated.  It is the
  configured entries in their order, each trimmed of the surrounding white space (that of
  Unicode), the blank ones dropped: an identifier written twice in \<open>REPO_LIST_JSON\<close> or
  \<open>REPO_LIST_CSV\<close> occurs twice in the list.
\<close>

theorem repo_list_keeps_duplicates:
  "normalizeRepoList ins = filter (\<lambda>t. t \<noteq> []) (map TrimSpace ins)
   \<and> (t \<noteq> [] \<longrightarrow> count_list (normalizeRepoList ins) t = count_list (map TrimSpace ins) t)
   \<and> (TrimSpace (getenv w ''REPO_LIST_JSON'') \<noteq> []
        \<and> json_unmarshal_strings w (TrimSpace (getenv w ''REPO_LIST_JSON'')) = Inr repos
       \<longrightarrow> loadRepoList w = Inr (filter (\<lambda>t. t \<noteq> []) (map TrimSpace repos)))
   \<and> ((TrimSpace (getenv w ''REPO_LIST_JSON'') = []
         \<or> json_unmarshal_strings w (TrimSpace (getenv w ''REPO_LIST_JSON'')) = Inl e)
        \<and> TrimSpace (getenv w ''REPO_LIST_CSV'') \<noteq> []
       \<longrightarrow> loadRepoList w
             = Inr (filter (\<lambda>t. t \<noteq> [])
                      (map TrimSpace (Split (TrimSpace (getenv w ''REPO_LIST_CSV'')) CHR '',''))))"
proof (intro conjI impI)
  show "normalizeRepoList ins = filter (\<lambda>t. t \<noteq> []) (map TrimSpace ins)"
    by (rule normalizeRepoList_eq)
  show "count_list (normalizeRepoList ins) t = count_list (map TrimSpace ins) t" if "t \<noteq> []"
    using that by (simp add: normalizeRepoList_eq count_list_filter_other)
  show "loadRepoList w = Inr (filter (\<lambda>t. t \<noteq> []) (map TrimSpace repos))"
    if "TrimSpace (getenv w ''REPO_LIST_JSON'') \<noteq> []
        \<and> json_unmarshal_strings w (TrimSpace (getenv w ''REPO_LIST_JSON'')) = Inr repos"
    using that by (simp add: loadRepoList_def normalizeRepoList_eq)
  show "loadRepoList w
          = Inr (filter (\<lambda>t. t \<noteq> [])
                   (map TrimSpace (Split (TrimSpace (getenv w ''REPO_LIST_CSV'')) CHR '','')))"
    if "(TrimSpace (getenv w ''REPO_LIST_JSON'') = []
         \<or> json_unmarshal_strings w (TrimSpace (getenv w ''REPO_LIST_JSON'')) = Inl e)
        \<and> TrimSpace (getenv w ''REPO_LIST_CSV'') \<noteq> []"
    using that
    by (auto simp: loadRepoList_def loadRepoList_rest_def normalizeRepoList_eq Let_def)
qed

text \<open>
  The theorem at work: entries with ASCII blanks, with a no-break space (U+00A0, the bytes
  \<open>C2 A0\<close>) and with an em space (U+2003, the bytes \<open>E2 80 83\<close>).
\<close>

theorem repo_list_keeps_duplicates_witness:
  "normalizeRepoList ['' a'', ''  '', ''a '', CHR 0xC2 # CHR 0xA0 # ''a'',
                      [CHR 0xE2, CHR 0x80, CHR 0x83]]
     = [''a'', ''a'', ''a'']
   \<and> count_list (normalizeRepoList ['' a'', ''  '', ''a '', CHR 0xC2 # CHR 0xA0 # ''a'',
                                      [CHR 0xE2, CHR 0x80, CHR 0x83]]) ''a'' = 3
   \<and> loadRepoList demo_world = Inr [''cgr.dev/acme/a'', ''cgr.dev/acme/b'', ''cgr.dev/acme/c'']"
proof -
  let ?ins = "['' a'', ''  '', ''a '', CHR 0xC2 # CHR 0xA0 # ''a'',
               [CHR 0xE2, CHR 0x80, CHR 0x83]]"
  have trimmed: "map TrimSpace ?ins = [''a'', [], ''a'', ''a'', []]"
    by code_simp
  have json: "TrimSpace (getenv demo_world ''REPO_LIST_JSON'') = []"
    by code_simp
  have csv: "TrimSpace (getenv demo_world ''REPO_LIST_CSV'')
               = ''cgr.dev/acme/a, cgr.dev/acme/b,cgr.dev/acme/c''"
    by code_simp
  have parts: "map TrimSpace (Split ''cgr.dev/acme/a, cgr.dev/acme/b,cgr.dev/acme/c'' CHR '','')
                 = [''cgr.dev/acme/a'', ''cgr.dev/acme/b'', ''cgr.dev/acme/c'']"
    by code_simp
  note inst = repo_list_keeps_duplicates [of ?ins "''a''" demo_world]
  have a: "normalizeRepoList ?ins = [''a'', ''a'', ''a'']"
    using inst trimmed by simp
  have b: "count_list (normalizeRepoList ?ins) ''a'' = 3"
    using inst trimmed by simp
  have c: "loadRepoList demo_world
             = Inr [''cgr.dev/acme/a'', ''cgr.dev/acme/b'', ''cgr.dev/acme/c'']"
    using inst json csv parts by simp
  show ?thesis
    using a b c by (intro conjI)
qed

text \<open>The claim as it was stated fails: an identifier configured twice is returned
  twice.\<close>

theorem repo_list_duplicate_counterexample:
  "loadRepoList
     (demo_world\<lparr>getenv := (\<lambda>k. if k = ''REPO_LIST_CSV''
                                 then ''cgr.dev/acme/a,cgr.dev/acme/a'' else [])\<rparr>)
     = Inr [''cgr.dev/acme/a'', ''cgr.dev/acme/a'']
   \<and> \<not> distinct [''cgr.dev/acme/a'', ''cgr.dev/acme/a'']"
  by code_simp

subsection \<open>Claim C10: the event and the index\<close>

text \<open>Only \<open>parseJobEvent\<close> reads \<open>START_INDEX\<close>.\<close>

lemma loadRepoList_START_INDEX:
  "loadRepoList (w\<lparr>getenv := (getenv w)(''START_INDEX'' := s)\<rparr>) = loadRepoList w"
  by (simp add: loadRepoList_def loadRepoList_rest_def loadReposFromSSM_def
        fallbackRepoList_def Let_def cong: option.case_cong sum.case_cong if_cong)

lemma mirror_tag_getenv:
  "mirror_tag (w\<lparr>getenv := g\<rparr>) srcRepo ep dn reg tag = mirror_tag w srcRepo ep dn reg tag"
  by (simp add: mirror_tag_def Let_def
        cong: option.case_cong sum.case_cong decision.case_cong if_cong)

lemma mirror_tags_getenv:
  "mirror_tags (w\<lparr>getenv := g\<rparr>) srcRepo ep dn reg tags = mirror_tags w srcRepo ep dn reg tags"
  by (induction tags arbitrary: reg)
    (simp_all add: mirror_tag_getenv split: prod.splits option.splits)

lemma mirrorSingleRepo_START_INDEX:
  "mirrorSingleRepo (w\<lparr>getenv := (getenv w)(''START_INDEX'' := s)\<rparr>) reg r
     = mirrorSingleRepo w reg r"
  by (simp add: mirrorSingleRepo_def ecr_login_def dstRepoName_of_def ensure_repository_def
        tags_to_mirror_def mirror_tags_getenv Let_def
        cong: option.case_cong sum.case_cong prod.case_cong list.case_cong if_cong)

lemma invokeSelfAsync_START_INDEX:
  "invokeSelfAsync (w\<lparr>getenv := (getenv w)(''START_INDEX'' := s)\<rparr>) ev = invokeSelfAsync w ev"
  by (simp add: invokeSelfAsync_def Let_def cong: option.case_cong sum.case_cong if_cong)

lemma handler_event_START_INDEX:
  "handler_event (w\<lparr>getenv := (getenv w)(''START_INDEX'' := s)\<rparr>) reg evt
     = handler_event w reg evt"
  by (simp add: handler_event_def loadRepoList_START_INDEX mirrorSingleRepo_START_INDEX
        invokeSelfAsync_START_INDEX Let_def
        cong: option.case_cong sum.case_cong prod.case_cong if_cong)

text \<open>
  Claim C10.  A payload that is not empty and that \<open>json.Unmarshal\<close> rejects is handled
  as the indexed job of index 0 (after the warning), and \<open>START_INDEX\<close> plays no part: for
  every payload that is not empty the invocation is the same whatever the value of
  \<open>START_INDEX\<close>.  Only for the empty payload is the index the one that \<open>START_INDEX\<close>
  gives, trimmed of the white space of Unicode (0 when it is blank or not a number).
\<close>

theorem malformed_payload_is_index_0:
  "(raw \<noteq> [] \<and> json_unmarshal_event w raw = Inl err
      \<longrightarrow> handler w reg raw
           = (case handler_event w reg \<lparr>Index = 0, Repo = []\<rparr> of
                (r, tr, reg') \<Rightarrow> (r, Log EventParseFailed # tr, reg')))
   \<and> (raw \<noteq> [] \<and> json_unmarshal_event w raw = Inl err
        \<and> loadRepoList w = Inr repos \<and> repos \<noteq> []
      \<longrightarrow> take 2 (fst (snd (handler w reg raw)))
           = [Log EventParseFailed, Log (ProcessingRepo 1 (length repos) (repos ! 0))])
   \<and> (raw \<noteq> []
      \<longrightarrow> handler (w\<lparr>getenv := (getenv w)(''START_INDEX'' := s)\<rparr>) reg raw = handler w reg raw)
   \<and> (raw = []
      \<longrightarrow> handler w reg raw
           = handler_event w reg
               \<lparr>Index = (case Atoi (TrimSpace (getenv w ''START_INDEX'')) of
                           Some n \<Rightarrow> n | None \<Rightarrow> 0),
                Repo = []\<rparr>)"
proof (intro conjI impI)
  show "handler w reg raw
          = (case handler_event w reg \<lparr>Index = 0, Repo = []\<rparr> of
               (r, tr, reg') \<Rightarrow> (r, Log EventParseFailed # tr, reg'))"
    if "raw \<noteq> [] \<and> json_unmarshal_event w raw = Inl err"
    using that by (simp add: handler_def parseJobEvent_def)
  show "take 2 (fst (snd (handler w reg raw)))
          = [Log EventParseFailed, Log (ProcessingRepo 1 (length repos) (repos ! 0))]"
    if "raw \<noteq> [] \<and> json_unmarshal_event w raw = Inl err
        \<and> loadRepoList w = Inr repos \<and> repos \<noteq> []"
    using that
    by (simp add: handler_def parseJobEvent_def handler_event_def TrimSpace_Nil Let_def
          split: prod.splits option.splits)
  show "handler (w\<lparr>getenv := (getenv w)(''START_INDEX'' := s)\<rparr>) reg raw = handler w reg raw"
    if "raw \<noteq> []"
    using that
    by (simp add: handler_def parseJobEvent_def handler_event_START_INDEX
          cong: sum.case_cong)
  show "handler w reg raw
          = handler_event w reg
              \<lparr>Index = (case Atoi (TrimSpace (getenv w ''START_INDEX'')) of
                          Some n \<Rightarrow> n | None \<Rightarrow> 0),
               Repo = []\<rparr>"
    if "raw = []"
  proof -
    have "Atoi [] = None"
      by (simp add: Atoi_def)
    then show ?thesis
      using that by (simp add: handler_def parseJobEvent_def Let_def)
  qed
qed

text \<open>
  The theorem at work: a payload that is not JSON, with and without \<open>START_INDEX\<close>; and
  the empty payload with \<open>START_INDEX\<close> set to a no-break space (the bytes \<open>C2 A0\<close>),
  the digit 2 and a blank.
\<close>

theorem malformed_payload_is_index_0_witness:
  "handler demo_world empty_registry ''not json''
     = (case handler_event demo_world empty_registry \<lparr>Index = 0, Repo = []\<rparr> of
          (r, tr, reg') \<Rightarrow> (r, Log EventParseFailed # tr, reg'))
   \<and> take 2 (fst (snd (handler demo_world empty_registry ''not json'')))
       = [Log EventParseFailed, Log (ProcessingRepo 1 3 ''cgr.dev/acme/a'')]
   \<and> handler (demo_world\<lparr>getenv := (getenv demo_world)(''START_INDEX'' := ''2'')\<rparr>)
         empty_registry ''not json''
       = handler demo_world empty_registry ''not json''
   \<and> handler (demo_world\<lparr>getenv := demo_env(''START_INDEX'' := CHR 0xC2 # CHR 0xA0 # ''2 '')\<rparr>) empty_registry []
       = handler_event (demo_world\<lparr>getenv := demo_env(''START_INDEX'' := CHR 0xC2 # CHR 0xA0 # ''2 '')\<rparr>)
           empty_registry \<lparr>Index = 2, Repo = []\<rparr>"
proof -
  let ?w2 = "demo_world\<lparr>getenv := demo_env(''START_INDEX'' := CHR 0xC2 # CHR 0xA0 # ''2 '')\<rparr>"
  have rejected: "json_unmarshal_event demo_world ''not json'' = Inl (Errorf ''invalid character'')"
    by (simp add: demo_world_def demo_unmarshal_def HasPrefix_def)
  have nonempty: "''not json'' \<noteq> []"
    by simp
  have repos: "loadRepoList demo_world
                 = Inr [''cgr.dev/acme/a'', ''cgr.dev/acme/b'', ''cgr.dev/acme/c'']"
    by code_simp
  have start: "Atoi (TrimSpace (getenv ?w2 ''START_INDEX'')) = Some 2"
    by code_simp
  have env: "getenv demo_world = demo_env"
    by (simp add: demo_world_def)
  note inst1 = malformed_payload_is_index_0 [of "''not json''" demo_world
      "Errorf ''invalid character''" empty_registry
      "[''cgr.dev/acme/a'', ''cgr.dev/acme/b'', ''cgr.dev/acme/c'']" "''2''"]
  note inst2 = malformed_payload_is_index_0 [of "[]" ?w2 _ empty_registry]
  have a: "handler demo_world empty_registry ''not json''
     = (case handler_event demo_world empty_registry \<lparr>Index = 0, Repo = []\<rparr> of
          (r, tr, reg') \<Rightarrow> (r, Log EventParseFailed # tr, reg'))"
    using inst1 rejected nonempty by blast
  have b: "take 2 (fst (snd (handler demo_world empty_registry ''not json'')))
       = [Log EventParseFailed, Log (ProcessingRepo 1 3 ''cgr.dev/acme/a'')]"
  proof -
    have "[''cgr.dev/acme/a'', ''cgr.dev/acme/b'', ''cgr.dev/acme/c''] \<noteq> ([] :: string list)"
      by simp
    then have "take 2 (fst (snd (handler demo_world empty_registry ''not json'')))
       = [Log EventParseFailed,
          Log (ProcessingRepo 1
                 (length [''cgr.dev/acme/a'', ''cgr.dev/acme/b'', ''cgr.dev/acme/c''])
                 ([''cgr.dev/acme/a'', ''cgr.dev/acme/b'', ''cgr.dev/acme/c''] ! 0))]"
      using inst1 rejected nonempty repos by blast
    then show ?thesis
      by simp
  qed
  have c: "handler (demo_world\<lparr>getenv := (getenv demo_world)(''START_INDEX'' := ''2'')\<rparr>)
         empty_registry ''not json''
       = handler demo_world empty_registry ''not json''"
    using inst1 nonempty by blast
  have d: "handler ?w2 empty_registry [] = handler_event ?w2 empty_registry \<lparr>Index = 2, Repo = []\<rparr>"
    using inst2 start by simp
  show ?thesis
    using a b c d unfolding env by (intro conjI)
qed

text \<open>
  Claim C4.  An invocation with a negative index is the invocation with index 0, and an
  indexed invocation whose index is the length of the resolved list or more returns
  without error, having processed no repository and dispatched nothing: its only effect is
  one log line.
\<close>

theorem index_is_clamped:
  "(Index evt < 0 \<longrightarrow> handler_event w reg evt = handler_event w reg (evt\<lparr>Index := 0\<rparr>))
   \<and> (parseJobEvent w raw = Inr evt \<and> Index evt < 0
        \<and> parseJobEvent w raw0 = Inr (evt\<lparr>Index := 0\<rparr>)
      \<longrightarrow> handler w reg raw = handler w reg raw0)
   \<and> (loadRepoList w = Inr repos \<and> TrimSpace (Repo evt) = []
        \<and> int (length repos) \<le> Index evt
      \<longrightarrow> handler_event w reg evt
           = (None,
              [Log (if repos = [] then NoRepositories
                    else NothingToDo (Index evt) (length repos))],
              reg))"
proof (intro conjI impI)
  show clamp: "handler_event w reg evt = handler_event w reg (evt\<lparr>Index := 0\<rparr>)"
    if "Index evt < 0" for evt
    using that by (simp add: handler_event_def Let_def cong: sum.case_cong if_cong)
  show "handler w reg raw = handler w reg raw0"
    if "parseJobEvent w raw = Inr evt \<and> Index evt < 0
        \<and> parseJobEvent w raw0 = Inr (evt\<lparr>Index := 0\<rparr>)"
    using that clamp [of evt] by (simp add: handler_def)
  show "handler_event w reg evt
          = (None,
             [Log (if repos = [] then NoRepositories
                   else NothingToDo (Index evt) (length repos))],
             reg)"
    if "loadRepoList w = Inr repos \<and> TrimSpace (Repo evt) = []
        \<and> int (length repos) \<le> Index evt"
    using that by (auto simp: handler_event_def Let_def)
qed

theorem index_is_clamped_witness:
  "handler_event demo_world empty_registry \<lparr>Index = - 5, Repo = []\<rparr>
     = handler_event demo_world empty_registry \<lparr>Index = 0, Repo = []\<rparr>
   \<and> handler (demo_world\<lparr>getenv := demo_env(''START_INDEX'' := ''-5'')\<rparr>) empty_registry []
     = handler (demo_world\<lparr>getenv := demo_env(''START_INDEX'' := ''-5'')\<rparr>) empty_registry ''{}''
   \<and> handler_event demo_world empty_registry \<lparr>Index = 3, Repo = []\<rparr>
     = (None, [Log (NothingToDo 3 3)], empty_registry)
   \<and> handler_event demo_world empty_registry \<lparr>Index = 7, Repo = []\<rparr>
     = (None, [Log (NothingToDo 7 3)], empty_registry)"
proof -
  let ?w5 = "demo_world\<lparr>getenv := demo_env(''START_INDEX'' := ''-5'')\<rparr>"
  let ?repos = "[''cgr.dev/acme/a'', ''cgr.dev/acme/b'', ''cgr.dev/acme/c'']"
  have repos: "loadRepoList demo_world = Inr ?repos"
    by code_simp
  have blank: "TrimSpace [] = []"
    by (rule TrimSpace_Nil)
  have negative: "parseJobEvent ?w5 [] = Inr \<lparr>Index = - 5, Repo = []\<rparr>"
    by code_simp
  have zero: "parseJobEvent ?w5 ''{}'' = Inr \<lparr>Index = 0, Repo = []\<rparr>"
    by code_simp
  have a: "handler_event demo_world empty_registry \<lparr>Index = - 5, Repo = []\<rparr>
     = handler_event demo_world empty_registry \<lparr>Index = 0, Repo = []\<rparr>"
    using index_is_clamped [of "\<lparr>Index = - 5, Repo = []\<rparr>" demo_world empty_registry]
    by simp
  have b: "handler ?w5 empty_registry [] = handler ?w5 empty_registry ''{}''"
    using index_is_clamped [of "\<lparr>Index = - 5, Repo = []\<rparr>" ?w5 empty_registry "[]" "''{}''"]
      negative zero
    by simp
  have c: "handler_event demo_world empty_registry \<lparr>Index = 3, Repo = []\<rparr>
     = (None, [Log (NothingToDo 3 3)], empty_registry)"
    using index_is_clamped [of "\<lparr>Index = 3, Repo = []\<rparr>" demo_world empty_registry _ _ ?repos]
      repos blank
    by simp
  have d: "handler_event demo_world empty_registry \<lparr>Index = 7, Repo = []\<rparr>
     = (None, [Log (NothingToDo 7 3)], empty_registry)"
    using index_is_clamped [of "\<lparr>Index = 7, Repo = []\<rparr>" demo_world empty_registry _ _ ?repos]
      repos blank
    by simp
  show ?thesis
    using a b c d by (intro conjI)
qed

subsection \<open>What a mirror pass does not do\<close>

text \<open>A mirror pass never calls the Lambda service.\<close>

lemma invoked_dispatched:
  "concat (map invoked tr) = map Payload (concat (map dispatched tr))"
proof (induction tr)
  case Nil
  show ?case by simp
next
  case (Cons e tr)
  then show ?case by (cases e) simp_all
qed

lemma invoked_none_dispatched:
  "concat (map invoked tr) = [] \<Longrightarrow> concat (map dispatched tr) = []"
  unfolding invoked_dispatched by simp

lemma invoked_none_queued:
  "concat (map invoked tr) = [] \<Longrightarrow> concat (map queued tr) = []"
proof (induction tr)
  case Nil
  show ?case by simp
next
  case (Cons e tr)
  then show ?case by (cases e) simp_all
qed

lemma ensure_repository_invoked:
  "ensure_repository w reg dn = (r, tr, reg') \<Longrightarrow> concat (map invoked tr) = []"
  by (auto simp: ensure_repository_def split: option.splits if_splits)

lemma tags_to_mirror_invoked:
  "tags_to_mirror w srcRepo = (r, tr) \<Longrightarrow> concat (map invoked tr) = []"
  by (auto simp: tags_to_mirror_def split: option.splits sum.splits if_splits)

lemma mirror_tag_invoked:
  "mirror_tag w srcRepo ep dn reg tag = (r, tr, reg') \<Longrightarrow> concat (map invoked tr) = []"
  by (auto simp: mirror_tag_def Let_def
           split: option.splits sum.splits decision.splits if_splits)

lemma mirror_tags_invoked:
  "mirror_tags w srcRepo ep dn reg tags = (r, tr, reg') \<Longrightarrow> concat (map invoked tr) = []"
proof (induction tags arbitrary: reg r tr reg')
  case Nil
  then show ?case by simp
next
  case (Cons tag tags)
  obtain r1 tr1 reg1 where one: "mirror_tag w srcRepo ep dn reg tag = (r1, tr1, reg1)"
    by (cases "mirror_tag w srcRepo ep dn reg tag") auto
  obtain r2 tr2 reg2 where rest: "mirror_tags w srcRepo ep dn reg1 tags = (r2, tr2, reg2)"
    by (cases "mirror_tags w srcRepo ep dn reg1 tags") auto
  have "concat (map invoked tr1) = []"
    using one by (rule mirror_tag_invoked)
  moreover have "concat (map invoked tr2) = []"
    using rest by (rule Cons.IH)
  ultimately show ?case
    using Cons.prems one rest by (cases r1) auto
qed

lemma mirrorSingleRepo_invoked:
  assumes "mirrorSingleRepo w reg srcRepo = (r, tr, reg')"
  shows "concat (map invoked tr) = []"
proof (cases "EqualFold_true (getenv w ''MIRROR_DRY_RUN'')")
  case True
  then show ?thesis
    using assms by (auto simp: mirrorSingleRepo_def)
next
  case False
  show ?thesis
  proof (cases "ecr_login w")
    case (Inl e)
    then show ?thesis
      using assms False by (auto simp: mirrorSingleRepo_def)
  next
    case (Inr login)
    obtain ecrPass ecrEndpoint where login: "login = (ecrPass, ecrEndpoint)"
      by (cases login) auto
    obtain r1 tr1 reg1 where
      ensure: "ensure_repository w reg (dstRepoName_of w srcRepo) = (r1, tr1, reg1)"
      by (cases "ensure_repository w reg (dstRepoName_of w srcRepo)") auto
    obtain r2 tr2 where sel: "tags_to_mirror w srcRepo = (r2, tr2)"
      by (cases "tags_to_mirror w srcRepo") auto
    have e1: "concat (map invoked tr1) = []"
      using ensure by (rule ensure_repository_invoked)
    have e2: "concat (map invoked tr2) = []"
      using sel by (rule tags_to_mirror_invoked)
    show ?thesis
    proof (cases r1)
      case (Some e)
      then show ?thesis
        using assms False Inr login ensure e1 by (auto simp: mirrorSingleRepo_def)
    next
      case None
      show ?thesis
      proof (cases r2)
        case (Inl e)
        then show ?thesis
          using assms False Inr login ensure None sel e1 e2
          by (auto simp: mirrorSingleRepo_def)
      next
        case tags: (Inr tags)
        obtain r3 tr3 reg3 where
          loop: "mirror_tags w srcRepo ecrEndpoint (dstRepoName_of w srcRepo) reg1 tags
                   = (r3, tr3, reg3)"
          by (cases "mirror_tags w srcRepo ecrEndpoint (dstRepoName_of w srcRepo) reg1 tags")
            auto
        have e3: "concat (map invoked tr3) = []"
          using loop by (rule mirror_tags_invoked)
        show ?thesis
          using assms False Inr login ensure None sel tags loop e1 e2 e3
          by (cases r3; cases "tags = []") (auto simp: mirrorSingleRepo_def)
      qed
    qed
  qed
qed

text \<open>
  Claim C3, as amended.  For every Job Descriptor whose repo field is not blank (not empty
  once the surrounding white space, that of Unicode, is cut), the invocation dispatches no
  continuation, whatever the resolved list, and it is the only invocation of its chain;
  when the resolved list is not empty it processes exactly that repository, trimmed, and
  returns what the pass returns.  A repo field of white space only is treated as absent:
  the invocation is the one of the same descriptor without the field.
\<close>

theorem explicit_repo_never_chains:
  "(TrimSpace (Repo evt) \<noteq> [] \<longrightarrow>
     concat (map invoked (fst (snd (handler_event w reg evt)))) = []
     \<and> (parseJobEvent w raw = Inr evt \<longrightarrow>
          sweep (Suc k) w reg raw
            = Some [(fst (handler w reg raw), fst (snd (handler w reg raw)))])
     \<and> (loadRepoList w = Inr repos \<and> repos \<noteq> [] \<longrightarrow>
          handler_event w reg evt
            = (case mirrorSingleRepo w reg (TrimSpace (Repo evt)) of
                 (Some e, tr, reg') \<Rightarrow>
                   (Some (Wrapf (''mirror explicit repo '' @ TrimSpace (Repo evt)) e),
                    Log (ProcessingExplicit (TrimSpace (Repo evt))) # tr, reg')
               | (None, tr, reg') \<Rightarrow>
                   (None,
                    Log (ProcessingExplicit (TrimSpace (Repo evt))) # tr @ [Log DoneExplicit],
                    reg'))))
   \<and> (TrimSpace (Repo evt) = [] \<longrightarrow>
        handler_event w reg evt = handler_event w reg (evt\<lparr>Repo := []\<rparr>))"
proof (intro conjI impI)
  show "handler_event w reg evt = handler_event w reg (evt\<lparr>Repo := []\<rparr>)"
    if "TrimSpace (Repo evt) = []"
    using that by (simp add: handler_event_def TrimSpace_Nil Let_def split: sum.splits)
next
  assume explicit: "TrimSpace (Repo evt) \<noteq> []"
  obtain r tr reg' where pass: "mirrorSingleRepo w reg (TrimSpace (Repo evt)) = (r, tr, reg')"
    by (cases "mirrorSingleRepo w reg (TrimSpace (Repo evt))") auto
  have quiet: "concat (map invoked tr) = []"
    using pass by (rule mirrorSingleRepo_invoked)
  show none: "concat (map invoked (fst (snd (handler_event w reg evt)))) = []"
    using explicit pass quiet
    by (cases r) (auto simp: handler_event_def Let_def split: sum.splits)
  show "sweep (Suc k) w reg raw
          = Some [(fst (handler w reg raw), fst (snd (handler w reg raw)))]"
    if "parseJobEvent w raw = Inr evt"
  proof -
    have same: "handler w reg raw = handler_event w reg evt"
      using that by (simp add: handler_def)
    have "concat (map queued (fst (snd (handler_event w reg evt)))) = []"
      using none by (rule invoked_none_queued)
    then have "continuation (fst (handler w reg raw)) (fst (snd (handler w reg raw))) = None"
      by (simp only: same continuation_def list.case if_cancel)
    then show ?thesis
      by (simp add: split_beta)
  qed
  show "handler_event w reg evt
            = (case mirrorSingleRepo w reg (TrimSpace (Repo evt)) of
                 (Some e, tr, reg') \<Rightarrow>
                   (Some (Wrapf (''mirror explicit repo '' @ TrimSpace (Repo evt)) e),
                    Log (ProcessingExplicit (TrimSpace (Repo evt))) # tr, reg')
               | (None, tr, reg') \<Rightarrow>
                   (None,
                    Log (ProcessingExplicit (TrimSpace (Repo evt))) # tr @ [Log DoneExplicit],
                    reg'))"
    if "loadRepoList w = Inr repos \<and> repos \<noteq> []"
    using that explicit by (simp add: handler_event_def Let_def)
qed

text \<open>
  The theorem at work: a repo field padded with a blank and a no-break space (the bytes
  \<open>C2 A0\<close>), and a repo field that is a no-break space only.
\<close>

theorem explicit_repo_never_chains_witness:
  "concat (map invoked (fst (snd (handler_event demo_world empty_registry
              \<lparr>Index = 0, Repo = '' cgr.dev/acme/b'' @ [CHR 0xC2, CHR 0xA0]\<rparr>)))) = []
   \<and> fst (handler_event demo_world empty_registry
              \<lparr>Index = 0, Repo = '' cgr.dev/acme/b'' @ [CHR 0xC2, CHR 0xA0]\<rparr>)
       = None
   \<and> take 2 (fst (snd (handler_event demo_world empty_registry
              \<lparr>Index = 0, Repo = '' cgr.dev/acme/b'' @ [CHR 0xC2, CHR 0xA0]\<rparr>)))
       = [Log (ProcessingExplicit ''cgr.dev/acme/b''), DescribeRepositories ''acme/b'']
   \<and> handler_event demo_world empty_registry \<lparr>Index = 2, Repo = [CHR 0xC2, CHR 0xA0]\<rparr>
       = handler_event demo_world empty_registry \<lparr>Index = 2, Repo = []\<rparr>"
proof -
  let ?evt = "\<lparr>Index = 0, Repo = '' cgr.dev/acme/b'' @ [CHR 0xC2, CHR 0xA0]\<rparr>"
  let ?blank = "\<lparr>Index = 2, Repo = [CHR 0xC2, CHR 0xA0]\<rparr>"
  have white: "TrimSpace (Repo ?blank) = []"
    by code_simp
  have d: "handler_event demo_world empty_registry ?blank
             = handler_event demo_world empty_registry \<lparr>Index = 2, Repo = []\<rparr>"
    using explicit_repo_never_chains [of ?blank demo_world empty_registry] white by simp
  let ?repos = "[''cgr.dev/acme/a'', ''cgr.dev/acme/b'', ''cgr.dev/acme/c'']"
  have trimmed: "TrimSpace (Repo ?evt) = ''cgr.dev/acme/b''"
    by code_simp
  have repos: "loadRepoList demo_world = Inr ?repos"
    by code_simp
  have ok: "fst (mirrorSingleRepo demo_world empty_registry ''cgr.dev/acme/b'') = None"
    by code_simp
  have first: "take 1 (fst (snd (mirrorSingleRepo demo_world empty_registry ''cgr.dev/acme/b'')))
                 = [DescribeRepositories ''acme/b'']"
    by code_simp
  obtain tr reg' where
    pass: "mirrorSingleRepo demo_world empty_registry ''cgr.dev/acme/b'' = (None, tr, reg')"
    using ok by (cases "mirrorSingleRepo demo_world empty_registry ''cgr.dev/acme/b''") auto
  have "take 1 tr = [DescribeRepositories ''acme/b'']"
    using first pass by simp
  then obtain rest where tr: "tr = DescribeRepositories ''acme/b'' # rest"
    by (cases tr) auto
  note inst = explicit_repo_never_chains [of ?evt demo_world empty_registry _ _ ?repos]
  have a: "concat (map invoked (fst (snd (handler_event demo_world empty_registry ?evt)))) = []"
    using inst [THEN conjunct1] trimmed by simp
  have "handler_event demo_world empty_registry ?evt
          = (None, Log (ProcessingExplicit ''cgr.dev/acme/b'') # tr @ [Log DoneExplicit], reg')"
    using inst [THEN conjunct1] trimmed repos pass by simp
  then have b: "fst (handler_event demo_world empty_registry ?evt) = None"
    and c: "take 2 (fst (snd (handler_event demo_world empty_registry ?evt)))
              = [Log (ProcessingExplicit ''cgr.dev/acme/b''), DescribeRepositories ''acme/b'']"
    using tr by (simp_all add: numeral_2_eq_2)
  show ?thesis
    using a b c d by (intro conjI)
qed

text \<open>The claim as it was stated fails: a repo field of one blank is not empty, and the
  invocation is an indexed one that chains; and with an explicit repo and an empty list
  nothing is processed.\<close>

theorem explicit_repo_counterexample:
  \<open>concat (map invoked (fst (snd (handler_event demo_world empty_registry
                                    \<lparr>Index = 0, Repo = '' ''\<rparr>))))
     = [''{"index":1}'']
   \<and> handler_event
        (demo_world\<lparr>getenv := demo_env(''REPO_LIST_JSON'' := ''[]''),
                     json_unmarshal_strings :=
                       (\<lambda>s. if s = ''[]'' then Inr [] else Inl (Errorf ''invalid character''))\<rparr>)
        empty_registry \<lparr>Index = 0, Repo = ''cgr.dev/acme/a''\<rparr>
      = (None, [Log NoRepositories], empty_registry)\<close>
proof (intro conjI)
  show \<open>concat (map invoked (fst (snd (handler_event demo_world empty_registry
                                    \<lparr>Index = 0, Repo = '' ''\<rparr>))))
     = [''{"index":1}'']\<close>
    by code_simp
  show "handler_event
        (demo_world\<lparr>getenv := demo_env(''REPO_LIST_JSON'' := ''[]''),
                     json_unmarshal_strings :=
                       (\<lambda>s. if s = ''[]'' then Inr [] else Inl (Errorf ''invalid character''))\<rparr>)
        empty_registry \<lparr>Index = 0, Repo = ''cgr.dev/acme/a''\<rparr>
      = (None, [Log NoRepositories], empty_registry)"
  proof -
    have "TrimSpace ''[]'' = ''[]''"
      by code_simp
    then show ?thesis
      by (simp add: handler_event_def loadRepoList_def normalizeRepoList_def)
  qed
qed

subsection \<open>Claim C5: a source that cannot be read\<close>

lemma mirror_tags_append:
  "mirror_tags w srcRepo ep dn reg pre = (None, tr, reg') \<Longrightarrow>
   mirror_tags w srcRepo ep dn reg (pre @ rest)
     = (case mirror_tags w srcRepo ep dn reg' rest of
          (r, tr', reg'') \<Rightarrow> (r, tr @ tr', reg''))"
proof (induction pre arbitrary: reg tr)
  case Nil
  then show ?case by (simp add: split_beta)
next
  case (Cons tag pre)
  obtain r1 tr1 reg1 where one: "mirror_tag w srcRepo ep dn reg tag = (r1, tr1, reg1)"
    by (cases "mirror_tag w srcRepo ep dn reg tag") auto
  obtain r2 tr2 reg2 where more: "mirror_tags w srcRepo ep dn reg1 pre = (r2, tr2, reg2)"
    by (cases "mirror_tags w srcRepo ep dn reg1 pre") auto
  have r1: "r1 = None" and r2: "r2 = None" and tr: "tr = tr1 @ tr2" and reg': "reg' = reg2"
    using Cons.prems one more by (cases r1; simp)+
  have "mirror_tags w srcRepo ep dn reg1 (pre @ rest)
          = (case mirror_tags w srcRepo ep dn reg2 rest of
               (r, tr', reg'') \<Rightarrow> (r, tr2 @ tr', reg''))"
    using Cons.IH [of reg1 tr2] more r2 reg' by simp
  then show ?case
    using one r1 tr reg' by (simp add: split_beta)
qed

lemma mirror_tag_get_fails:
  assumes "name_parse_reference w (srcRepo @ '':'' @ tag) = None"
    and "name_parse_reference w (ep @ ''/'' @ dn @ '':'' @ tag) = None"
    and "remote_get w (srcRepo @ '':'' @ tag) = Inl e"
  shows "mirror_tag w srcRepo ep dn reg tag
           = (Some (Wrapf (''get '' @ srcRepo @ '':'' @ tag) e),
              [RemoteGet (srcRepo @ '':'' @ tag)], reg)"
  using assms by (simp add: mirror_tag_def Let_def)

lemma mirrorSingleRepo_tags_error:
  assumes "\<not> EqualFold_true (getenv w ''MIRROR_DRY_RUN'')"
    and "ecr_login w = Inr (pw, ep)"
    and "ensure_repository w reg (dstRepoName_of w srcRepo) = (None, tr1, reg1)"
    and "tags_to_mirror w srcRepo = (Inr tags, tr2)"
    and "mirror_tags w srcRepo ep (dstRepoName_of w srcRepo) reg1 tags = (Some e, tr3, reg2)"
  shows "mirrorSingleRepo w reg srcRepo = (Some e, tr1 @ tr2 @ tr3, reg2)"
proof -
  have "tags \<noteq> []"
    using assms(5) by auto
  then show ?thesis
    using assms by (simp add: mirrorSingleRepo_def)
qed

lemma handler_event_mirror_error:
  assumes "loadRepoList w = Inr repos"
    and "TrimSpace (Repo evt) = []"
    and "0 \<le> Index evt" and "Index evt < int (length repos)"
    and "mirrorSingleRepo w reg (repos ! nat (Index evt)) = (Some e, tr, reg')"
  shows "handler_event w reg evt
           = (Some (Wrapf (''mirror '' @ repos ! nat (Index evt)) e),
              Log (ProcessingRepo (Index evt + 1) (length repos) (repos ! nat (Index evt))) # tr,
              reg')"
  using assms by (auto simp: handler_event_def Let_def)

text \<open>The full sync returns \<open>ok\<close> once its set-up is done, whatever happens in the loops.\<close>

lemma fs_handler_ok:
  assumes "fs_getenv w ''GROUP_NAME'' \<noteq> []"
    and "fs_getenv w ''CGR_USERNAME'' \<noteq> []"
    and "fs_getenv w ''CGR_PASSWORD'' \<noteq> []"
    and "fs_load_default_config w = Inr region"
    and "sts_get_caller_identity w = Inr accountID"
    and "ecrPassword w [accountID] = Inr ecrPass"
    and "crane_catalog w (if fs_getenv w ''SRC_REGISTRY'' = [] then ''cgr.dev''
                          else fs_getenv w ''SRC_REGISTRY'') = Inr repos"
  shows "fs_handler w
           = (Returned (Inr ''ok''),
              FsLog (FoundRepos
                       (length (filter (\<lambda>r. HasPrefix r (fs_getenv w ''GROUP_NAME'' @ ''/'')) repos))
                       (fs_getenv w ''GROUP_NAME''))
              # concat (map (fs_mirror_repo w
                               (if fs_getenv w ''SRC_REGISTRY'' = [] then ''cgr.dev''
                                else fs_getenv w ''SRC_REGISTRY'')
                               (TrimSuffix (fs_getenv w ''DST_PREFIX'') ''/'')
                               (ecrHost accountID region))
                          (filter (\<lambda>r. HasPrefix r (fs_getenv w ''GROUP_NAME'' @ ''/'')) repos)))"
  using assms by (simp add: fs_handler_def Let_def)

text \<open>
  Claim C5, as amended.  In the chained mirror, when the source descriptor of a tag cannot
  be fetched the pass ends there: the tags after it are not touched, and the invocation
  returns the error, having dispatched no continuation.  In the full sync the failure is
  only logged: the source digest is then empty, so the decision for the tag is \<open>Transfer\<close>
  whatever the destination records, the tag is not skipped and its copy is made (provided
  both references parse); the tag loop runs its body for the tags before and after it
  alike, and the invocation returns \<open>ok\<close>.
\<close>

theorem source_read_error_is_fatal:
  "(loadRepoList w = Inr repos \<and> TrimSpace (Repo evt) = []
      \<and> 0 \<le> Index evt \<and> Index evt < int (length repos)
      \<and> repos ! nat (Index evt) = srcRepo
      \<and> \<not> EqualFold_true (getenv w ''MIRROR_DRY_RUN'')
      \<and> ecr_login w = Inr (pw, ep)
      \<and> ensure_repository w reg (dstRepoName_of w srcRepo) = (None, tr1, reg1)
      \<and> tags_to_mirror w srcRepo = (Inr (pre @ tag # rest), tr2)
      \<and> mirror_tags w srcRepo ep (dstRepoName_of w srcRepo) reg1 pre = (None, tr3, reg2)
      \<and> name_parse_reference w (srcRepo @ '':'' @ tag) = None
      \<and> name_parse_reference w (ep @ ''/'' @ dstRepoName_of w srcRepo @ '':'' @ tag) = None
      \<and> remote_get w (srcRepo @ '':'' @ tag) = Inl e
     \<longrightarrow> handler_event w reg evt
           = (Some (Wrapf (''mirror '' @ srcRepo) (Wrapf (''get '' @ srcRepo @ '':'' @ tag) e)),
              Log (ProcessingRepo (Index evt + 1) (length repos) srcRepo)
              # tr1 @ tr2 @ tr3 @ [RemoteGet (srcRepo @ '':'' @ tag)],
              reg2)
         \<and> concat (map invoked (fst (snd (handler_event w reg evt)))) = [])
   \<and> (crane_digest fw (fullSrcRepo @ '':'' @ ftag) = ([], Some fe)
     \<longrightarrow> take 2 (fs_mirror_tag fw fullSrcRepo dstHost dstRepo ftag)
           = [CraneDigest (fullSrcRepo @ '':'' @ ftag),
              FsLog (DigestSrcFailed (fullSrcRepo @ '':'' @ ftag))]
         \<and> fs_digest_decision (fst (crane_digest fw (fullSrcRepo @ '':'' @ ftag)))
              (ecrTagDigest fw dstRepo ftag) = Transfer
         \<and> concat (map fs_skipped (fs_mirror_tag fw fullSrcRepo dstHost dstRepo ftag)) = []
         \<and> FsLog (CopyLine (fullSrcRepo @ '':'' @ ftag) (dstHost @ ''/'' @ dstRepo @ '':'' @ ftag))
             \<in> set (fs_mirror_tag fw fullSrcRepo dstHost dstRepo ftag)
         \<and> filter fs_is_copy (fs_mirror_tag fw fullSrcRepo dstHost dstRepo ftag)
             = (if fs_parse_reference fw (fullSrcRepo @ '':'' @ ftag) = None
                   \<and> fs_parse_reference fw (dstHost @ ''/'' @ dstRepo @ '':'' @ ftag) = None
                then [CraneCopy (fullSrcRepo @ '':'' @ ftag)
                        (dstHost @ ''/'' @ dstRepo @ '':'' @ ftag)]
                else []))
   \<and> (crane_list_tags fw (srcRegistry @ ''/'' @ repoPath) = Inr (fpre @ ftag # frest)
        \<and> ensureECRRepo fw (if dstPrefix \<noteq> [] then fs_path_join fw dstPrefix repoPath
                              else repoPath) = (None, etr)
     \<longrightarrow> fs_mirror_repo fw srcRegistry dstPrefix dstHost repoPath
           = CraneListTags (srcRegistry @ ''/'' @ repoPath) # etr
             @ concat (map (fs_mirror_tag fw (srcRegistry @ ''/'' @ repoPath) dstHost
                              (if dstPrefix \<noteq> [] then fs_path_join fw dstPrefix repoPath
                               else repoPath)) fpre)
             @ fs_mirror_tag fw (srcRegistry @ ''/'' @ repoPath) dstHost
                 (if dstPrefix \<noteq> [] then fs_path_join fw dstPrefix repoPath else repoPath) ftag
             @ concat (map (fs_mirror_tag fw (srcRegistry @ ''/'' @ repoPath) dstHost
                              (if dstPrefix \<noteq> [] then fs_path_join fw dstPrefix repoPath
                               else repoPath)) frest))
   \<and> (fs_getenv fw ''GROUP_NAME'' \<noteq> [] \<and> fs_getenv fw ''CGR_USERNAME'' \<noteq> []
        \<and> fs_getenv fw ''CGR_PASSWORD'' \<noteq> []
        \<and> fs_load_default_config fw = Inr region
        \<and> sts_get_caller_identity fw = Inr accountID
        \<and> ecrPassword fw [accountID] = Inr ecrPass
        \<and> crane_catalog fw (if fs_getenv fw ''SRC_REGISTRY'' = [] then ''cgr.dev''
                              else fs_getenv fw ''SRC_REGISTRY'') = Inr catalog
     \<longrightarrow> fst (fs_handler fw) = Returned (Inr ''ok''))"
proof (intro conjI impI)
  assume h: "loadRepoList w = Inr repos \<and> TrimSpace (Repo evt) = []
      \<and> 0 \<le> Index evt \<and> Index evt < int (length repos)
      \<and> repos ! nat (Index evt) = srcRepo
      \<and> \<not> EqualFold_true (getenv w ''MIRROR_DRY_RUN'')
      \<and> ecr_login w = Inr (pw, ep)
      \<and> ensure_repository w reg (dstRepoName_of w srcRepo) = (None, tr1, reg1)
      \<and> tags_to_mirror w srcRepo = (Inr (pre @ tag # rest), tr2)
      \<and> mirror_tags w srcRepo ep (dstRepoName_of w srcRepo) reg1 pre = (None, tr3, reg2)
      \<and> name_parse_reference w (srcRepo @ '':'' @ tag) = None
      \<and> name_parse_reference w (ep @ ''/'' @ dstRepoName_of w srcRepo @ '':'' @ tag) = None
      \<and> remote_get w (srcRepo @ '':'' @ tag) = Inl e"
  let ?dn = "dstRepoName_of w srcRepo"
  let ?src = "srcRepo @ '':'' @ tag"
  have one: "mirror_tag w srcRepo ep ?dn reg2 tag
               = (Some (Wrapf (''get '' @ ?src) e), [RemoteGet ?src], reg2)"
    using h by (intro mirror_tag_get_fails) simp_all
  have "mirror_tags w srcRepo ep ?dn reg2 (tag # rest)
          = (Some (Wrapf (''get '' @ ?src) e), [RemoteGet ?src], reg2)"
    using one by simp
  moreover have "mirror_tags w srcRepo ep ?dn reg1 (pre @ tag # rest)
          = (case mirror_tags w srcRepo ep ?dn reg2 (tag # rest) of
               (r, tr', reg'') \<Rightarrow> (r, tr3 @ tr', reg''))"
    using h by (intro mirror_tags_append) simp
  ultimately have loop: "mirror_tags w srcRepo ep ?dn reg1 (pre @ tag # rest)
          = (Some (Wrapf (''get '' @ ?src) e), tr3 @ [RemoteGet ?src], reg2)"
    by simp
  have pass: "mirrorSingleRepo w reg srcRepo
          = (Some (Wrapf (''get '' @ ?src) e), tr1 @ tr2 @ tr3 @ [RemoteGet ?src], reg2)"
    using h loop by (intro mirrorSingleRepo_tags_error [where pw = pw and ep = ep]) simp_all
  have "handler_event w reg evt
          = (Some (Wrapf (''mirror '' @ repos ! nat (Index evt)) (Wrapf (''get '' @ ?src) e)),
             Log (ProcessingRepo (Index evt + 1) (length repos) (repos ! nat (Index evt)))
             # tr1 @ tr2 @ tr3 @ [RemoteGet ?src],
             reg2)"
    using h pass by (intro handler_event_mirror_error) simp_all
  then show result: "handler_event w reg evt
           = (Some (Wrapf (''mirror '' @ srcRepo) (Wrapf (''get '' @ ?src) e)),
              Log (ProcessingRepo (Index evt + 1) (length repos) srcRepo)
              # tr1 @ tr2 @ tr3 @ [RemoteGet ?src],
              reg2)"
    using h by simp
  have "concat (map invoked (tr1 @ tr2 @ tr3 @ [RemoteGet ?src])) = []"
    using pass by (rule mirrorSingleRepo_invoked)
  then show "concat (map invoked (fst (snd (handler_event w reg evt)))) = []"
    unfolding result by simp
next
  let ?t = "fs_mirror_tag fw fullSrcRepo dstHost dstRepo ftag"
  assume unread: "crane_digest fw (fullSrcRepo @ '':'' @ ftag) = ([], Some fe)"
  then have other:
    "\<not> (fst (crane_digest fw (fullSrcRepo @ '':'' @ ftag)) \<noteq> []
        \<and> fs_recorded_digest (ecrTagDigest fw dstRepo ftag)
            = Some (fst (crane_digest fw (fullSrcRepo @ '':'' @ ftag))))"
    by simp
  show "take 2 ?t = [CraneDigest (fullSrcRepo @ '':'' @ ftag),
                     FsLog (DigestSrcFailed (fullSrcRepo @ '':'' @ ftag))]"
    unfolding fs_mirror_tag_Transfer [OF other] using unread by (simp add: numeral_2_eq_2)
  show "fs_digest_decision (fst (crane_digest fw (fullSrcRepo @ '':'' @ ftag)))
          (ecrTagDigest fw dstRepo ftag) = Transfer"
    using unread by (simp add: decision_Transfer_iff fs_digest_decision_Skip_iff)
  show "concat (map fs_skipped ?t) = []"
    using other by (rule fs_mirror_tag_Transfer_reads(1))
  show "FsLog (CopyLine (fullSrcRepo @ '':'' @ ftag) (dstHost @ ''/'' @ dstRepo @ '':'' @ ftag))
          \<in> set ?t"
    using other by (rule fs_mirror_tag_Transfer_reads(3))
  show "filter fs_is_copy ?t
          = (if fs_parse_reference fw (fullSrcRepo @ '':'' @ ftag) = None
                \<and> fs_parse_reference fw (dstHost @ ''/'' @ dstRepo @ '':'' @ ftag) = None
             then [CraneCopy (fullSrcRepo @ '':'' @ ftag)
                     (dstHost @ ''/'' @ dstRepo @ '':'' @ ftag)]
             else [])"
    using other by (rule fs_mirror_tag_Transfer_reads(2))
next
  let ?dn = "if dstPrefix \<noteq> [] then fs_path_join fw dstPrefix repoPath else repoPath"
  assume listed: "crane_list_tags fw (srcRegistry @ ''/'' @ repoPath) = Inr (fpre @ ftag # frest)
        \<and> ensureECRRepo fw ?dn = (None, etr)"
  have "fs_mirror_repo fw srcRegistry dstPrefix dstHost repoPath
          = CraneListTags (srcRegistry @ ''/'' @ repoPath) # etr
            @ concat (map (fs_mirror_tag fw (srcRegistry @ ''/'' @ repoPath) dstHost ?dn)
                        (fpre @ ftag # frest))"
    using listed by (intro fs_mirror_repo_tags) simp_all
  then show "fs_mirror_repo fw srcRegistry dstPrefix dstHost repoPath
           = CraneListTags (srcRegistry @ ''/'' @ repoPath) # etr
             @ concat (map (fs_mirror_tag fw (srcRegistry @ ''/'' @ repoPath) dstHost ?dn) fpre)
             @ fs_mirror_tag fw (srcRegistry @ ''/'' @ repoPath) dstHost ?dn ftag
             @ concat (map (fs_mirror_tag fw (srcRegistry @ ''/'' @ repoPath) dstHost ?dn) frest)"
    by simp
next
  assume "fs_getenv fw ''GROUP_NAME'' \<noteq> [] \<and> fs_getenv fw ''CGR_USERNAME'' \<noteq> []
        \<and> fs_getenv fw ''CGR_PASSWORD'' \<noteq> []
        \<and> fs_load_default_config fw = Inr region
        \<and> sts_get_caller_identity fw = Inr accountID
        \<and> ecrPassword fw [accountID] = Inr ecrPass
        \<and> crane_catalog fw (if fs_getenv fw ''SRC_REGISTRY'' = [] then ''cgr.dev''
                              else fs_getenv fw ''SRC_REGISTRY'') = Inr catalog"
  then have "fs_handler fw
           = (Returned (Inr ''ok''),
              FsLog (FoundRepos
                       (length (filter (\<lambda>r. HasPrefix r (fs_getenv fw ''GROUP_NAME'' @ ''/''))
                                  catalog))
                       (fs_getenv fw ''GROUP_NAME''))
              # concat (map (fs_mirror_repo fw
                               (if fs_getenv fw ''SRC_REGISTRY'' = [] then ''cgr.dev''
                                else fs_getenv fw ''SRC_REGISTRY'')
                               (TrimSuffix (fs_getenv fw ''DST_PREFIX'') ''/'')
                               (ecrHost accountID region))
                          (filter (\<lambda>r. HasPrefix r (fs_getenv fw ''GROUP_NAME'' @ ''/''))
                             catalog)))"
    by (intro fs_handler_ok [where ecrPass = ecrPass]) simp_all
  then show "fst (fs_handler fw) = Returned (Inr ''ok'')"
    by simp
qed

text \<open>
  The theorem at work.  In the chained mirror the descriptor of \<open>v1\<close>, the second of three
  tags, cannot be fetched: the invocation ends at that call with the error.  In the full
  sync the digest of \<open>v1\<close>, the first of two tags, cannot be read: \<open>v1\<close> is copied, then
  \<open>v2\<close>, and the handler returns \<open>ok\<close>.
\<close>

theorem source_read_error_is_fatal_witness:
  "fst (handler_event
          (demo_world\<lparr>remote_list := (\<lambda>r. Inr [''latest'', ''v1'', ''v2'']),
                       remote_get := (\<lambda>r. if r = ''cgr.dev/acme/a:v1''
                                            then Inl (Errorf ''unexpected status code 503'')
                                            else remote_get demo_world r)\<rparr>)
          empty_registry \<lparr>Index = 0, Repo = []\<rparr>)
     = Some (Wrapf ''mirror cgr.dev/acme/a''
              (Wrapf ''get cgr.dev/acme/a:v1'' (Errorf ''unexpected status code 503'')))
   \<and> last (fst (snd (handler_event
          (demo_world\<lparr>remote_list := (\<lambda>r. Inr [''latest'', ''v1'', ''v2'']),
                       remote_get := (\<lambda>r. if r = ''cgr.dev/acme/a:v1''
                                            then Inl (Errorf ''unexpected status code 503'')
                                            else remote_get demo_world r)\<rparr>)
          empty_registry \<lparr>Index = 0, Repo = []\<rparr>)))
     = RemoteGet ''cgr.dev/acme/a:v1''
   \<and> concat (map invoked (fst (snd (handler_event
          (demo_world\<lparr>remote_list := (\<lambda>r. Inr [''latest'', ''v1'', ''v2'']),
                       remote_get := (\<lambda>r. if r = ''cgr.dev/acme/a:v1''
                                            then Inl (Errorf ''unexpected status code 503'')
                                            else remote_get demo_world r)\<rparr>)
          empty_registry \<lparr>Index = 0, Repo = []\<rparr>)))) = []
   \<and> take 2 (fs_mirror_tag fs_demo_world ''cgr.dev/acme/a''
               ''1.dkr.ecr.us-east-2.amazonaws.com'' ''acme/a'' ''v1'')
       = [CraneDigest ''cgr.dev/acme/a:v1'', FsLog (DigestSrcFailed ''cgr.dev/acme/a:v1'')]
   \<and> filter fs_is_copy (fs_mirror_tag fs_demo_world ''cgr.dev/acme/a''
                          ''1.dkr.ecr.us-east-2.amazonaws.com'' ''acme/a'' ''v1'')
       = [CraneCopy ''cgr.dev/acme/a:v1'' ''1.dkr.ecr.us-east-2.amazonaws.com/acme/a:v1'']
   \<and> fs_mirror_repo fs_demo_world ''cgr.dev'' [] ''1.dkr.ecr.us-east-2.amazonaws.com'' ''acme/a''
       = [CraneListTags ''cgr.dev/acme/a'', FsDescribeRepositories ''acme/a'']
         @ fs_mirror_tag fs_demo_world ''cgr.dev/acme/a''
             ''1.dkr.ecr.us-east-2.amazonaws.com'' ''acme/a'' ''v1''
         @ fs_mirror_tag fs_demo_world ''cgr.dev/acme/a''
             ''1.dkr.ecr.us-east-2.amazonaws.com'' ''acme/a'' ''v2''
   \<and> fst (fs_handler fs_demo_world) = Returned (Inr ''ok'')"
proof -
  let ?w = "demo_world\<lparr>remote_list := (\<lambda>r. Inr [''latest'', ''v1'', ''v2'']),
                       remote_get := (\<lambda>r. if r = ''cgr.dev/acme/a:v1''
                                            then Inl (Errorf ''unexpected status code 503'')
                                            else remote_get demo_world r)\<rparr>"
  let ?repos = "[''cgr.dev/acme/a'', ''cgr.dev/acme/b'', ''cgr.dev/acme/c'']"
  let ?evt = "\<lparr>Index = 0, Repo = []\<rparr>"
  let ?ep = "''1.dkr.ecr.us-east-2.amazonaws.com''"
  let ?ensure = "ensure_repository ?w empty_registry ''acme/a''"
  let ?pre = "mirror_tags ?w ''cgr.dev/acme/a'' ?ep ''acme/a'' (snd (snd ?ensure)) [''latest'']"
  let ?e = "Errorf ''unexpected status code 503''"
  have h1: "loadRepoList ?w = Inr ?repos"
    by code_simp
  have h2: "TrimSpace (Repo ?evt) = []"
    by code_simp
  have h6: "\<not> EqualFold_true (getenv ?w ''MIRROR_DRY_RUN'')"
    by code_simp
  have h7: "ecr_login ?w = Inr (''pw'', ?ep)"
    by code_simp
  have dn: "dstRepoName_of ?w ''cgr.dev/acme/a'' = ''acme/a''"
    by code_simp
  have "fst ?ensure = None"
    by code_simp
  then have h8: "?ensure = (None, fst (snd ?ensure), snd (snd ?ensure))"
    by (simp add: prod_eq_iff)
  have h9: "tags_to_mirror ?w ''cgr.dev/acme/a''
              = (Inr [''latest'', ''v1'', ''v2''], [RemoteList ''cgr.dev/acme/a''])"
    by code_simp
  have "fst ?pre = None"
    by code_simp
  then have h10: "?pre = (None, fst (snd ?pre), snd (snd ?pre))"
    by (simp add: prod_eq_iff)
  have h11: "name_parse_reference ?w s = None" for s
    by (simp add: demo_world_def)
  have h13: "remote_get ?w ''cgr.dev/acme/a:v1'' = Inl ?e"
    by simp
  have f1: "crane_digest fs_demo_world ''cgr.dev/acme/a:v1''
              = ([], Some (Errorf ''unexpected status code 503''))"
    by (simp add: fs_demo_world_def)
  have f2: "fs_parse_reference fs_demo_world s = None" for s
    by (simp add: fs_demo_world_def)
  have f3: "crane_list_tags fs_demo_world ''cgr.dev/acme/a'' = Inr [''v1'', ''v2'']"
    by (simp add: fs_demo_world_def)
  have f4: "ensureECRRepo fs_demo_world ''acme/a'' = (None, [FsDescribeRepositories ''acme/a''])"
    by (simp add: ensureECRRepo_def fs_demo_world_def)
  have f5: "fs_getenv fs_demo_world ''GROUP_NAME'' \<noteq> []
      \<and> fs_getenv fs_demo_world ''CGR_USERNAME'' \<noteq> []
      \<and> fs_getenv fs_demo_world ''CGR_PASSWORD'' \<noteq> []
      \<and> fs_load_default_config fs_demo_world = Inr ''us-east-2''
      \<and> sts_get_caller_identity fs_demo_world = Inr ''1''
      \<and> crane_catalog fs_demo_world
            (if fs_getenv fs_demo_world ''SRC_REGISTRY'' = [] then ''cgr.dev''
             else fs_getenv fs_demo_world ''SRC_REGISTRY'') = Inr [''acme/a'', ''other/x'']"
    by (simp add: fs_demo_world_def)
  have f6: "ecrPassword fs_demo_world [''1''] = Inr ''pw''"
    by code_simp
  note inst = source_read_error_is_fatal [where w = ?w and repos = ?repos and evt = ?evt
      and srcRepo = "''cgr.dev/acme/a''" and pw = "''pw''" and ep = ?ep
      and reg = empty_registry and ?tr1.0 = "fst (snd ?ensure)" and ?reg1.0 = "snd (snd ?ensure)"
      and pre = "[''latest'']" and tag = "''v1''" and rest = "[''v2'']"
      and ?tr2.0 = "[RemoteList ''cgr.dev/acme/a'']"
      and ?tr3.0 = "fst (snd ?pre)" and ?reg2.0 = "snd (snd ?pre)" and e = ?e
      and fw = fs_demo_world and fullSrcRepo = "''cgr.dev/acme/a''" and ftag = "''v1''"
      and dstRepo = "''acme/a''" and dstHost = ?ep and fe = ?e
      and srcRegistry = "''cgr.dev''" and repoPath = "''acme/a''" and dstPrefix = "[]"
      and fpre = "[]" and frest = "[''v2'']" and etr = "[FsDescribeRepositories ''acme/a'']"
      and region = "''us-east-2''" and accountID = "''1''" and ecrPass = "''pw''"
      and catalog = "[''acme/a'', ''other/x'']"]
  have chained:
    "handler_event ?w empty_registry ?evt
       = (Some (Wrapf ''mirror cgr.dev/acme/a'' (Wrapf ''get cgr.dev/acme/a:v1'' ?e)),
          Log (ProcessingRepo 1 3 ''cgr.dev/acme/a'')
          # fst (snd ?ensure) @ [RemoteList ''cgr.dev/acme/a''] @ fst (snd ?pre)
            @ [RemoteGet ''cgr.dev/acme/a:v1''],
          snd (snd ?pre))
     \<and> concat (map invoked (fst (snd (handler_event ?w empty_registry ?evt)))) = []"
    using inst [THEN conjunct1] h1 h2 h6 h7 dn h8 h9 h10 h11 h13 by simp
  have full:
    "take 2 (fs_mirror_tag fs_demo_world ''cgr.dev/acme/a'' ?ep ''acme/a'' ''v1'')
       = [CraneDigest ''cgr.dev/acme/a:v1'', FsLog (DigestSrcFailed ''cgr.dev/acme/a:v1'')]
     \<and> filter fs_is_copy (fs_mirror_tag fs_demo_world ''cgr.dev/acme/a'' ?ep ''acme/a'' ''v1'')
       = [CraneCopy ''cgr.dev/acme/a:v1'' ''1.dkr.ecr.us-east-2.amazonaws.com/acme/a:v1'']"
    using inst [THEN conjunct2, THEN conjunct1] f1 by (simp add: f2)
  have loop:
    "fs_mirror_repo fs_demo_world ''cgr.dev'' [] ?ep ''acme/a''
       = [CraneListTags ''cgr.dev/acme/a'', FsDescribeRepositories ''acme/a'']
         @ fs_mirror_tag fs_demo_world ''cgr.dev/acme/a'' ?ep ''acme/a'' ''v1''
         @ fs_mirror_tag fs_demo_world ''cgr.dev/acme/a'' ?ep ''acme/a'' ''v2''"
    using inst [THEN conjunct2, THEN conjunct2, THEN conjunct1] f3 f4 by simp
  have returned: "fst (fs_handler fs_demo_world) = Returned (Inr ''ok'')"
    using inst [THEN conjunct2, THEN conjunct2, THEN conjunct2] f5 f6 by simp
  have a: "fst (handler_event ?w empty_registry ?evt)
             = Some (Wrapf ''mirror cgr.dev/acme/a'' (Wrapf ''get cgr.dev/acme/a:v1'' ?e))"
    and b: "last (fst (snd (handler_event ?w empty_registry ?evt)))
              = RemoteGet ''cgr.dev/acme/a:v1''"
    using chained [THEN conjunct1] by simp_all
  show ?thesis
    using a b chained [THEN conjunct2] full loop returned by (intro conjI) simp_all
qed

text \<open>The claim as it was stated fails in the full sync: the digest of \<open>v1\<close> cannot be
  read, and yet \<open>v1\<close> and the tag after it are copied and the handler returns \<open>ok\<close>.\<close>

theorem source_read_error_counterexample:
  "fs_handler fs_demo_world
     = (Returned (Inr ''ok''),
        [FsLog (FoundRepos 1 ''acme''), CraneListTags ''cgr.dev/acme/a'',
         FsDescribeRepositories ''acme/a'',
         CraneDigest ''cgr.dev/acme/a:v1'', FsLog (DigestSrcFailed ''cgr.dev/acme/a:v1''),
         DescribeImages ''acme/a'' ''v1'',
         FsLog (CopyLine ''cgr.dev/acme/a:v1'' ''1.dkr.ecr.us-east-2.amazonaws.com/acme/a:v1''),
         CraneCopy ''cgr.dev/acme/a:v1'' ''1.dkr.ecr.us-east-2.amazonaws.com/acme/a:v1'',
         CraneDigest ''cgr.dev/acme/a:v2'', DescribeImages ''acme/a'' ''v2'',
         FsLog (CopyLine ''cgr.dev/acme/a:v2'' ''1.dkr.ecr.us-east-2.amazonaws.com/acme/a:v2''),
         CraneCopy ''cgr.dev/acme/a:v2'' ''1.dkr.ecr.us-east-2.amazonaws.com/acme/a:v2''])"
  by code_simp

subsection \<open>The destination repository\<close>

text \<open>Only the existence step creates a repository.\<close>

lemma tags_to_mirror_creates:
  "tags_to_mirror w srcRepo = (r, tr) \<Longrightarrow> filter is_create tr = []"
  by (auto simp: tags_to_mirror_def split: option.splits sum.splits if_splits)

lemma mirror_tag_creates:
  "mirror_tag w srcRepo ep dn reg tag = (r, tr, reg') \<Longrightarrow> filter is_create tr = []"
  by (auto simp: mirror_tag_def Let_def
           split: option.splits sum.splits decision.splits if_splits)

lemma mirror_tags_creates:
  "mirror_tags w srcRepo ep dn reg tags = (r, tr, reg') \<Longrightarrow> filter is_create tr = []"
proof (induction tags arbitrary: reg r tr reg')
  case Nil
  then show ?case by simp
next
  case (Cons tag tags)
  obtain r1 tr1 reg1 where one: "mirror_tag w srcRepo ep dn reg tag = (r1, tr1, reg1)"
    by (cases "mirror_tag w srcRepo ep dn reg tag") auto
  obtain r2 tr2 reg2 where rest: "mirror_tags w srcRepo ep dn reg1 tags = (r2, tr2, reg2)"
    by (cases "mirror_tags w srcRepo ep dn reg1 tags") auto
  have "filter is_create tr1 = []"
    using one by (rule mirror_tag_creates)
  moreover have "filter is_create tr2 = []"
    using rest by (rule Cons.IH)
  ultimately show ?case
    using Cons.prems one rest by (cases r1) auto
qed

lemma mirrorSingleRepo_after_ensure:
  assumes "\<not> EqualFold_true (getenv w ''MIRROR_DRY_RUN'')"
    and "ecr_login w = Inr (pw, ep)"
    and "ensure_repository w reg (dstRepoName_of w srcRepo) = (r1, tr1, reg1)"
  shows "\<exists>rest. fst (snd (mirrorSingleRepo w reg srcRepo)) = tr1 @ rest
               \<and> filter is_create rest = []
               \<and> (r1 \<noteq> None \<longrightarrow> mirrorSingleRepo w reg srcRepo = (r1, tr1, reg1))"
proof (cases r1)
  case (Some e)
  then have "mirrorSingleRepo w reg srcRepo = (r1, tr1, reg1)"
    using assms by (simp add: mirrorSingleRepo_def)
  then show ?thesis
    by simp
next
  case None
  obtain r2 tr2 where sel: "tags_to_mirror w srcRepo = (r2, tr2)"
    by (cases "tags_to_mirror w srcRepo") auto
  have c2: "filter is_create tr2 = []"
    using sel by (rule tags_to_mirror_creates)
  show ?thesis
  proof (cases r2)
    case (Inl e)
    then have "fst (snd (mirrorSingleRepo w reg srcRepo)) = tr1 @ tr2"
      using assms None sel by (simp add: mirrorSingleRepo_def)
    then show ?thesis
      using c2 None by simp
  next
    case (Inr tags)
    obtain r3 tr3 reg3 where
      loop: "mirror_tags w srcRepo ep (dstRepoName_of w srcRepo) reg1 tags = (r3, tr3, reg3)"
      by (cases "mirror_tags w srcRepo ep (dstRepoName_of w srcRepo) reg1 tags") auto
    have c3: "filter is_create tr3 = []"
      using loop by (rule mirror_tags_creates)
    have "fst (snd (mirrorSingleRepo w reg srcRepo))
            = tr1 @ (if tags = [] then tr2
                     else if r3 = None then tr2 @ tr3 @ [Log (Mirrored srcRepo (length tags))]
                     else tr2 @ tr3)"
      using assms None sel Inr loop by (cases r3) (simp_all add: mirrorSingleRepo_def)
    then show ?thesis
      using c2 c3 None by auto
  qed
qed

text \<open>
  Claim C8, as amended.  In the chained mirror (not in dry run): when the existence check
  succeeds nothing is created; when it answers that the repository is not found, exactly
  one creation call, with scan-on-push, is made, and a creation error other than
  ``already exists'' ends the pass; any other error of the existence check ends the pass
  with no creation call.  The creation call, if any, comes before everything the pass does
  for the tags, and a pass that ends here has touched no tag.  In the full sync the
  creation call (one, with scan-on-push) follows every failure of the existence check,
  whatever it is; a creation error that mentions \<open>RepositoryAlreadyExistsException\<close>
  counts as success, any other one abandons the repository before its first tag.
\<close>

theorem ensure_destination_repository:
  "(ecr_describe_repositories w reg dn = None
      \<longrightarrow> ensure_repository w reg dn = (None, [DescribeRepositories dn], reg))
   \<and> (ecr_describe_repositories w reg dn = Some err \<and> As_RepositoryNotFound err
        \<and> ecr_create_repository w reg dn True = None
      \<longrightarrow> ensure_repository w reg dn
           = (None,
              [DescribeRepositories dn, CreateRepository dn True, Log (CreatedRepo dn)],
              reg\<lparr>repositories := insert dn (repositories reg)\<rparr>))
   \<and> (ecr_describe_repositories w reg dn = Some err \<and> As_RepositoryNotFound err
        \<and> ecr_create_repository w reg dn True = Some cerr
        \<and> \<not> Contains (Error_text cerr) ''RepositoryAlreadyExistsException''
      \<longrightarrow> ensure_repository w reg dn
           = (Some (Wrapf (''create ECR repo '' @ dn) cerr),
              [DescribeRepositories dn, CreateRepository dn True], reg))
   \<and> (ecr_describe_repositories w reg dn = Some err \<and> \<not> As_RepositoryNotFound err
      \<longrightarrow> ensure_repository w reg dn
           = (Some (Wrapf (''describe ECR repo '' @ dn) err), [DescribeRepositories dn], reg))
   \<and> (\<not> EqualFold_true (getenv w ''MIRROR_DRY_RUN'') \<and> ecr_login w = Inr (pw, ep)
        \<and> ensure_repository w reg (dstRepoName_of w srcRepo) = (r1, tr1, reg1)
      \<longrightarrow> (\<exists>rest. fst (snd (mirrorSingleRepo w reg srcRepo)) = tr1 @ rest
                  \<and> filter is_create rest = []
                  \<and> (r1 \<noteq> None \<longrightarrow> mirrorSingleRepo w reg srcRepo = (r1, tr1, reg1))))
   \<and> (fs_describe_repositories fw repo = None
      \<longrightarrow> ensureECRRepo fw repo = (None, [FsDescribeRepositories repo]))
   \<and> (fs_describe_repositories fw repo = Some derr
      \<longrightarrow> snd (ensureECRRepo fw repo) = [FsDescribeRepositories repo, FsCreateRepository repo True]
         \<and> fst (ensureECRRepo fw repo)
             = (case fs_create_repository fw repo True of
                  None \<Rightarrow> None
                | Some e \<Rightarrow>
                    if Contains (Error_text e) ''RepositoryAlreadyExistsException'' then None
                    else Some e))
   \<and> (crane_list_tags fw (srcRegistry @ ''/'' @ repoPath) = Inr tags \<and> tags \<noteq> []
        \<and> ensureECRRepo fw (if dstPrefix \<noteq> [] then fs_path_join fw dstPrefix repoPath
                             else repoPath) = (Some e, tr)
      \<longrightarrow> fs_mirror_repo fw srcRegistry dstPrefix dstHost repoPath
           = CraneListTags (srcRegistry @ ''/'' @ repoPath) # tr
             @ [FsLog (EnsureRepoFailed (if dstPrefix \<noteq> [] then fs_path_join fw dstPrefix repoPath
                                         else repoPath))])"
proof (intro conjI impI)
  show "ensure_repository w reg dn = (None, [DescribeRepositories dn], reg)"
    if "ecr_describe_repositories w reg dn = None"
    using that by (simp add: ensure_repository_def)
  show "ensure_repository w reg dn
           = (None,
              [DescribeRepositories dn, CreateRepository dn True, Log (CreatedRepo dn)],
              reg\<lparr>repositories := insert dn (repositories reg)\<rparr>)"
    if "ecr_describe_repositories w reg dn = Some err \<and> As_RepositoryNotFound err
        \<and> ecr_create_repository w reg dn True = None"
    using that by (simp add: ensure_repository_def)
  show "ensure_repository w reg dn
           = (Some (Wrapf (''create ECR repo '' @ dn) cerr),
              [DescribeRepositories dn, CreateRepository dn True], reg)"
    if "ecr_describe_repositories w reg dn = Some err \<and> As_RepositoryNotFound err
        \<and> ecr_create_repository w reg dn True = Some cerr
        \<and> \<not> Contains (Error_text cerr) ''RepositoryAlreadyExistsException''"
    using that by (simp add: ensure_repository_def)
  show "ensure_repository w reg dn
           = (Some (Wrapf (''describe ECR repo '' @ dn) err), [DescribeRepositories dn], reg)"
    if "ecr_describe_repositories w reg dn = Some err \<and> \<not> As_RepositoryNotFound err"
    using that by (simp add: ensure_repository_def)
  show "\<exists>rest. fst (snd (mirrorSingleRepo w reg srcRepo)) = tr1 @ rest
              \<and> filter is_create rest = []
              \<and> (r1 \<noteq> None \<longrightarrow> mirrorSingleRepo w reg srcRepo = (r1, tr1, reg1))"
    if "\<not> EqualFold_true (getenv w ''MIRROR_DRY_RUN'') \<and> ecr_login w = Inr (pw, ep)
        \<and> ensure_repository w reg (dstRepoName_of w srcRepo) = (r1, tr1, reg1)"
    using that by (intro mirrorSingleRepo_after_ensure [where pw = pw and ep = ep]) simp_all
  show "ensureECRRepo fw repo = (None, [FsDescribeRepositories repo])"
    if "fs_describe_repositories fw repo = None"
    using that by (simp add: ensureECRRepo_def)
  show "snd (ensureECRRepo fw repo) = [FsDescribeRepositories repo, FsCreateRepository repo True]"
    if "fs_describe_repositories fw repo = Some derr"
    using that by (simp add: ensureECRRepo_def Let_def)
  show "fst (ensureECRRepo fw repo)
             = (case fs_create_repository fw repo True of
                  None \<Rightarrow> None
                | Some e \<Rightarrow>
                    if Contains (Error_text e) ''RepositoryAlreadyExistsException'' then None
                    else Some e)"
    if "fs_describe_repositories fw repo = Some derr"
    using that by (simp add: ensureECRRepo_def Let_def split: option.splits)
  show "fs_mirror_repo fw srcRegistry dstPrefix dstHost repoPath
           = CraneListTags (srcRegistry @ ''/'' @ repoPath) # tr
             @ [FsLog (EnsureRepoFailed (if dstPrefix \<noteq> [] then fs_path_join fw dstPrefix repoPath
                                         else repoPath))]"
    if "crane_list_tags fw (srcRegistry @ ''/'' @ repoPath) = Inr tags \<and> tags \<noteq> []
        \<and> ensureECRRepo fw (if dstPrefix \<noteq> [] then fs_path_join fw dstPrefix repoPath
                             else repoPath) = (Some e, tr)"
    using that by (simp add: fs_mirror_repo_def Let_def)
qed

theorem ensure_destination_repository_counterexample:
  "mirrorSingleRepo
     (demo_world\<lparr>ecr_create_repository :=
        (\<lambda>reg n scan. Some (Errorf ''RepositoryAlreadyExistsException: the repository exists''))\<rparr>)
     empty_registry ''cgr.dev/acme/a''
     = (Some (Wrapf ''create ECR repo acme/a''
                (Errorf ''RepositoryAlreadyExistsException: the repository exists'')),
        [DescribeRepositories ''acme/a'', CreateRepository ''acme/a'' True],
        empty_registry)
   \<and> ensureECRRepo
        (fs_demo_world\<lparr>fs_describe_repositories :=
           (\<lambda>n. Some (Errorf ''AccessDeniedException: not authorized''))\<rparr>)
        ''acme/a''
     = (None, [FsDescribeRepositories ''acme/a'', FsCreateRepository ''acme/a'' True])"
proof (intro conjI)
  show "mirrorSingleRepo
     (demo_world\<lparr>ecr_create_repository :=
        (\<lambda>reg n scan. Some (Errorf ''RepositoryAlreadyExistsException: the repository exists''))\<rparr>)
     empty_registry ''cgr.dev/acme/a''
     = (Some (Wrapf ''create ECR repo acme/a''
                (Errorf ''RepositoryAlreadyExistsException: the repository exists'')),
        [DescribeRepositories ''acme/a'', CreateRepository ''acme/a'' True],
        empty_registry)"
    by (simp add: mirrorSingleRepo_def demo_world_def demo_env_def EqualFold_true_def
          ecr_login_def ToString_def TrimPrefix_def HasPrefix_def dstRepoName_of_def
          Trim_blank_def ensure_repository_def empty_registry_def Let_def)
  show "ensureECRRepo
        (fs_demo_world\<lparr>fs_describe_repositories :=
           (\<lambda>n. Some (Errorf ''AccessDeniedException: not authorized''))\<rparr>)
        ''acme/a''
     = (None, [FsDescribeRepositories ''acme/a'', FsCreateRepository ''acme/a'' True])"
    by (simp add: ensureECRRepo_def fs_demo_world_def)
qed

theorem ensure_destination_repository_witness:
  "ensure_repository demo_world empty_registry ''acme/a''
     = (None,
        [DescribeRepositories ''acme/a'', CreateRepository ''acme/a'' True,
         Log (CreatedRepo ''acme/a'')],
        empty_registry\<lparr>repositories := insert ''acme/a'' (repositories empty_registry)\<rparr>)
   \<and> filter is_create (fst (snd (mirrorSingleRepo demo_world empty_registry ''cgr.dev/acme/a'')))
       = [CreateRepository ''acme/a'' True]
   \<and> take 2 (fst (snd (mirrorSingleRepo demo_world empty_registry ''cgr.dev/acme/a'')))
       = [DescribeRepositories ''acme/a'', CreateRepository ''acme/a'' True]
   \<and> ensureECRRepo
        (fs_demo_world\<lparr>fs_describe_repositories :=
           (\<lambda>n. Some (Errorf ''RepositoryNotFoundException: no such repository'')),
          fs_create_repository :=
           (\<lambda>n scan. Some (Errorf ''RepositoryAlreadyExistsException: it exists''))\<rparr>)
        ''acme/a''
       = (None, [FsDescribeRepositories ''acme/a'', FsCreateRepository ''acme/a'' True])"
proof -
  let ?fw = "fs_demo_world\<lparr>fs_describe_repositories :=
           (\<lambda>n. Some (Errorf ''RepositoryNotFoundException: no such repository'')),
          fs_create_repository :=
           (\<lambda>n scan. Some (Errorf ''RepositoryAlreadyExistsException: it exists''))\<rparr>"
  let ?tr1 = "[DescribeRepositories ''acme/a'', CreateRepository ''acme/a'' True,
               Log (CreatedRepo ''acme/a'')]"
  let ?reg1 = "empty_registry\<lparr>repositories := insert ''acme/a'' (repositories empty_registry)\<rparr>"
  have absent: "ecr_describe_repositories demo_world empty_registry ''acme/a''
                  = Some (RepositoryNotFoundException ''acme/a'')"
    by (simp add: demo_world_def empty_registry_def)
  have created: "ecr_create_repository demo_world empty_registry ''acme/a'' True = None"
    by (simp add: demo_world_def)
  have wet: "\<not> EqualFold_true (getenv demo_world ''MIRROR_DRY_RUN'')"
    by code_simp
  have login: "ecr_login demo_world = Inr (''pw'', ''1.dkr.ecr.us-east-2.amazonaws.com'')"
    by code_simp
  have dn: "dstRepoName_of demo_world ''cgr.dev/acme/a'' = ''acme/a''"
    by code_simp
  have fdesc: "fs_describe_repositories ?fw ''acme/a''
                 = Some (Errorf ''RepositoryNotFoundException: no such repository'')"
    by simp
  have fcreate: "fs_create_repository ?fw ''acme/a'' True
                   = Some (Errorf ''RepositoryAlreadyExistsException: it exists'')"
    by simp
  have exists: "Contains ''RepositoryAlreadyExistsException: it exists''
                  ''RepositoryAlreadyExistsException''"
    by (simp add: HasPrefix_def)
  note inst = ensure_destination_repository [where w = demo_world and reg = empty_registry
      and dn = "''acme/a''" and err = "RepositoryNotFoundException ''acme/a''"
      and pw = "''pw''" and ep = "''1.dkr.ecr.us-east-2.amazonaws.com''"
      and srcRepo = "''cgr.dev/acme/a''" and ?r1.0 = None and ?tr1.0 = ?tr1 and ?reg1.0 = ?reg1
      and fw = ?fw and repo = "''acme/a''"
      and derr = "Errorf ''RepositoryNotFoundException: no such repository''"]
  have a: "ensure_repository demo_world empty_registry ''acme/a'' = (None, ?tr1, ?reg1)"
    using inst absent created by simp
  have e: "ensure_repository demo_world empty_registry
             (dstRepoName_of demo_world ''cgr.dev/acme/a'') = (None, ?tr1, ?reg1)"
    using a dn by simp
  note pass = inst [THEN conjunct2, THEN conjunct2, THEN conjunct2, THEN conjunct2,
      THEN conjunct1, rule_format]
  have "\<exists>rest. fst (snd (mirrorSingleRepo demo_world empty_registry ''cgr.dev/acme/a''))
                  = ?tr1 @ rest
               \<and> filter is_create rest = []
               \<and> (None \<noteq> (None :: error option) \<longrightarrow>
                    mirrorSingleRepo demo_world empty_registry ''cgr.dev/acme/a''
                      = (None, ?tr1, ?reg1))"
    using wet login e by (intro pass conjI)
  then obtain rest where
    rest: "fst (snd (mirrorSingleRepo demo_world empty_registry ''cgr.dev/acme/a'')) = ?tr1 @ rest"
    and quiet: "filter is_create rest = []"
    by blast
  have b: "filter is_create (fst (snd (mirrorSingleRepo demo_world empty_registry ''cgr.dev/acme/a'')))
             = [CreateRepository ''acme/a'' True]"
    unfolding rest using quiet by simp
  have c: "take 2 (fst (snd (mirrorSingleRepo demo_world empty_registry ''cgr.dev/acme/a'')))
             = [DescribeRepositories ''acme/a'', CreateRepository ''acme/a'' True]"
    unfolding rest by (simp add: numeral_2_eq_2)
  have "snd (ensureECRRepo ?fw ''acme/a'')
          = [FsDescribeRepositories ''acme/a'', FsCreateRepository ''acme/a'' True]
        \<and> fst (ensureECRRepo ?fw ''acme/a'') = None"
    using inst fdesc fcreate exists by simp
  then have d: "ensureECRRepo ?fw ''acme/a''
                  = (None, [FsDescribeRepositories ''acme/a'', FsCreateRepository ''acme/a'' True])"
    by (simp add: prod_eq_iff)
  show ?thesis
    using a b c d by (intro conjI)
qed

subsection \<open>Claim C2: chaining\<close>

lemma handler_event_indexed:
  assumes "loadRepoList w = Inr repos"
    and "TrimSpace (Repo evt) = []"
    and "0 \<le> Index evt" and "Index evt < int (length repos)"
    and "mirrorSingleRepo w reg (repos ! nat (Index evt)) = (None, tr, reg')"
  shows "handler_event w reg evt
           = (if Index evt + 1 < int (length repos) then
                (case invokeSelfAsync w \<lparr>Index = Index evt + 1, Repo = []\<rparr> of
                   (Some e, tr2) \<Rightarrow>
                     (Some (Wrapf ''invoke self'' e),
                      Log (ProcessingRepo (Index evt + 1) (length repos)
                             (repos ! nat (Index evt))) # tr @ tr2,
                      reg')
                 | (None, tr2) \<Rightarrow>
                     (None,
                      Log (ProcessingRepo (Index evt + 1) (length repos)
                             (repos ! nat (Index evt))) # tr @ tr2
                      @ [Log (QueuedNext (Index evt + 1))],
                      reg'))
              else
                (None,
                 Log (ProcessingRepo (Index evt + 1) (length repos) (repos ! nat (Index evt)))
                 # tr @ [Log (CompletedAll (length repos))],
                 reg'))"
  using assms by (auto simp: handler_event_def Let_def)

lemma invokeSelfAsync_dispatch:
  assumes "load_default_config w = None"
    and "getenv w ''AWS_LAMBDA_FUNCTION_NAME'' = fn" and "fn \<noteq> []"
    and "json_marshal_event w ev = Inr p"
  shows "invokeSelfAsync w ev
           = (lambda_invoke w
                \<lparr>FunctionName = fn, InvocationType = InvocationTypeEvent, Payload = p\<rparr>,
              [Invoke \<lparr>FunctionName = fn, InvocationType = InvocationTypeEvent, Payload = p\<rparr>])"
  using assms by (simp add: invokeSelfAsync_def Let_def)

lemma dispatch_okD:
  assumes "dispatch_ok w N" and "0 < i" and "i < N"
  obtains p where "json_marshal_event w \<lparr>Index = int i, Repo = []\<rparr> = Inr p"
    and "p \<noteq> []"
    and "json_unmarshal_event w p = Inr \<lparr>Index = int i, Repo = []\<rparr>"
    and "lambda_invoke w
           \<lparr>FunctionName = getenv w ''AWS_LAMBDA_FUNCTION_NAME'',
            InvocationType = InvocationTypeEvent, Payload = p\<rparr> = None"
proof -
  have "i \<in> {1..<N}"
    using assms(2,3) by simp
  then have "case json_marshal_event w \<lparr>Index = int i, Repo = []\<rparr> of
               Inl e \<Rightarrow> False
             | Inr p \<Rightarrow>
                 p \<noteq> [] \<and> json_unmarshal_event w p = Inr \<lparr>Index = int i, Repo = []\<rparr>
                 \<and> lambda_invoke w
                      \<lparr>FunctionName = getenv w ''AWS_LAMBDA_FUNCTION_NAME'',
                       InvocationType = InvocationTypeEvent, Payload = p\<rparr> = None"
    using assms(1) unfolding dispatch_ok_def by blast
  then show ?thesis
    using that by (cases "json_marshal_event w \<lparr>Index = int i, Repo = []\<rparr>") auto
qed

text \<open>One invocation of a sweep in which nothing fails.\<close>

lemma handler_step:
  assumes list: "loadRepoList w = Inr repos"
    and mirrors: "\<forall>r \<in> set repos. \<forall>reg. fst (mirrorSingleRepo w reg r) = None"
    and dispatch: "dispatch_ok w (length repos)"
    and i: "i < length repos"
    and parse: "parseJobEvent w raw = Inr \<lparr>Index = int i, Repo = []\<rparr>"
  shows "invocation_ok w (length repos) i
           (fst (handler w reg raw), fst (snd (handler w reg raw)))"
    and "continuation (fst (handler w reg raw)) (fst (snd (handler w reg raw)))
           = (if i + 1 < length repos
              then (case json_marshal_event w \<lparr>Index = int (i + 1), Repo = []\<rparr> of
                      Inl e \<Rightarrow> None | Inr p \<Rightarrow> Some p)
              else None)"
proof -
  let ?evt = "\<lparr>Index = int i, Repo = []\<rparr>"
  let ?N = "length repos"
  let ?start = "Log (ProcessingRepo (int i + 1) ?N (repos ! i))"
  have same: "handler w reg raw = handler_event w reg ?evt"
    using parse by (simp add: handler_def)
  have "repos ! i \<in> set repos"
    using i by simp
  then have "fst (mirrorSingleRepo w reg (repos ! i)) = None"
    using mirrors by blast
  then obtain tr reg' where pass: "mirrorSingleRepo w reg (repos ! i) = (None, tr, reg')"
    by (cases "mirrorSingleRepo w reg (repos ! i)") auto
  have "concat (map invoked tr) = []"
    using pass by (rule mirrorSingleRepo_invoked)
  then have quiet: "concat (map dispatched tr) = []" and silent: "concat (map queued tr) = []"
    by (rule invoked_none_dispatched, rule invoked_none_queued)
  have blank: "TrimSpace (Repo ?evt) = []"
    by (simp add: TrimSpace_Nil)
  let ?inp = "\<lambda>p. \<lparr>FunctionName = getenv w ''AWS_LAMBDA_FUNCTION_NAME'',
                    InvocationType = InvocationTypeEvent, Payload = p\<rparr>"
  have step: "handler_event w reg ?evt
           = (if int i + 1 < int ?N then
                (case invokeSelfAsync w \<lparr>Index = int i + 1, Repo = []\<rparr> of
                   (Some e, tr2) \<Rightarrow>
                     (Some (Wrapf ''invoke self'' e), ?start # tr @ tr2, reg')
                 | (None, tr2) \<Rightarrow>
                     (None, ?start # tr @ tr2 @ [Log (QueuedNext (int i + 1))], reg'))
              else (None, ?start # tr @ [Log (CompletedAll ?N)], reg'))"
    using handler_event_indexed [of w repos ?evt reg tr reg'] list blank i pass
    by (simp cong: if_cong prod.case_cong option.case_cong)
  let ?next = "if i + 1 < ?N
               then (case json_marshal_event w \<lparr>Index = int (i + 1), Repo = []\<rparr> of
                       Inl e \<Rightarrow> None | Inr p \<Rightarrow> Some p)
               else None"
  have both: "invocation_ok w ?N i (fst (handler w reg raw), fst (snd (handler w reg raw)))
              \<and> continuation (fst (handler w reg raw)) (fst (snd (handler w reg raw))) = ?next"
  proof (cases "i + 1 < ?N")
    case True
    obtain p where p: "json_marshal_event w \<lparr>Index = int (i + 1), Repo = []\<rparr> = Inr p"
      and accepted: "lambda_invoke w (?inp p) = None"
      using dispatch_okD [OF dispatch, of "i + 1"] True by auto
    have "invokeSelfAsync w \<lparr>Index = int (i + 1), Repo = []\<rparr>
            = (lambda_invoke w (?inp p), [Invoke (?inp p)])"
      using dispatch p by (intro invokeSelfAsync_dispatch) (simp_all add: dispatch_ok_def)
    then have sent: "invokeSelfAsync w \<lparr>Index = int i + 1, Repo = []\<rparr>
            = (None, [Invoke (?inp p)])"
      using accepted by (simp add: add.commute)
    have result: "handler w reg raw
            = (None,
               ?start # tr @ [Invoke (?inp p)] @ [Log (QueuedNext (int i + 1))],
               reg')"
      using step True sent same by simp
    have a: "invocation_ok w ?N i (fst (handler w reg raw), fst (snd (handler w reg raw)))"
      unfolding result using True p by (simp add: invocation_ok_def quiet)
    have b: "continuation (fst (handler w reg raw)) (fst (snd (handler w reg raw))) = ?next"
      unfolding result using True p by (simp add: continuation_def silent)
    show ?thesis
      using a b by (rule conjI)
  next
    case False
    then have final: "i + 1 = ?N"
      using i by simp
    have result: "handler w reg raw = (None, ?start # tr @ [Log (CompletedAll ?N)], reg')"
      using step False same by simp
    have a: "invocation_ok w ?N i (fst (handler w reg raw), fst (snd (handler w reg raw)))"
      unfolding result using False final by (simp add: invocation_ok_def quiet)
    have b: "continuation (fst (handler w reg raw)) (fst (snd (handler w reg raw))) = ?next"
      unfolding result using False by (simp add: continuation_def silent)
    show ?thesis
      using a b by (rule conjI)
  qed
  show "invocation_ok w ?N i (fst (handler w reg raw), fst (snd (handler w reg raw)))"
    using both by (rule conjunct1)
  show "continuation (fst (handler w reg raw)) (fst (snd (handler w reg raw)))
           = (if i + 1 < length repos
              then (case json_marshal_event w \<lparr>Index = int (i + 1), Repo = []\<rparr> of
                      Inl e \<Rightarrow> None | Inr p \<Rightarrow> Some p)
              else None)"
    using both by (rule conjunct2)
qed

text \<open>The rest of a sweep, from position \<open>i\<close> on.\<close>

lemma sweep_from:
  assumes list: "loadRepoList w = Inr repos"
    and mirrors: "\<forall>r \<in> set repos. \<forall>reg. fst (mirrorSingleRepo w reg r) = None"
    and dispatch: "dispatch_ok w (length repos)"
  shows "length repos - i = n \<Longrightarrow> i < length repos \<Longrightarrow> n \<le> fuel \<Longrightarrow>
         parseJobEvent w raw = Inr \<lparr>Index = int i, Repo = []\<rparr> \<Longrightarrow>
         \<exists>outs. sweep fuel w reg raw = Some outs \<and> length outs = n
                \<and> (\<forall>j < n. invocation_ok w (length repos) (i + j) (outs ! j))"
proof (induction n arbitrary: i fuel raw reg)
  case 0
  then show ?case by simp
next
  case (Suc n)
  let ?N = "length repos"
  let ?out = "(fst (handler w reg raw), fst (snd (handler w reg raw)))"
  obtain f where fuel: "fuel = Suc f" and f: "n \<le> f"
    using Suc.prems(3) by (cases fuel) auto
  have ok: "invocation_ok w ?N i ?out"
    and next_one: "continuation (fst (handler w reg raw)) (fst (snd (handler w reg raw)))
           = (if i + 1 < ?N
              then (case json_marshal_event w \<lparr>Index = int (i + 1), Repo = []\<rparr> of
                      Inl e \<Rightarrow> None | Inr p \<Rightarrow> Some p)
              else None)"
    using handler_step [OF list mirrors dispatch Suc.prems(2) Suc.prems(4)] by simp_all
  show ?case
  proof (cases "i + 1 < ?N")
    case False
    then have n: "n = 0"
      using Suc.prems(1,2) by simp
    have "sweep fuel w reg raw = Some [?out]"
      using False next_one fuel by (simp add: split_beta)
    then show ?thesis
      using ok n by simp
  next
    case True
    obtain p where p: "json_marshal_event w \<lparr>Index = int (i + 1), Repo = []\<rparr> = Inr p"
      and nonempty: "p \<noteq> []"
      and readback: "json_unmarshal_event w p = Inr \<lparr>Index = int (i + 1), Repo = []\<rparr>"
      using dispatch_okD [OF dispatch, of "i + 1"] True by auto
    have parse: "parseJobEvent w p = Inr \<lparr>Index = int (i + 1), Repo = []\<rparr>"
      using nonempty readback by (simp add: parseJobEvent_def)
    have "?N - (i + 1) = n"
      using Suc.prems(1) by simp
    then obtain rest where
      rest: "sweep f w (snd (snd (handler w reg raw))) p = Some rest"
      and len: "length rest = n"
      and each: "\<forall>j < n. invocation_ok w ?N (i + 1 + j) (rest ! j)"
      using Suc.IH [of "i + 1" f p "snd (snd (handler w reg raw))"] True f parse by blast
    have run: "sweep fuel w reg raw = Some (?out # rest)"
      using True next_one p rest fuel by (simp add: split_beta)
    have "invocation_ok w ?N (i + j) ((?out # rest) ! j)" if "j < Suc n" for j
    proof (cases j)
      case 0
      then show ?thesis using ok by simp
    next
      case (Suc k)
      then show ?thesis using each that by simp
    qed
    then show ?thesis
      using run len by simp
  qed
qed

text \<open>
  Claim C2, as amended.  An indexed invocation that has mirrored the repository at index
  \<open>i\<close> of a list of length \<open>N\<close>: when \<open>i + 1 < N\<close> and the continuation can be sent (the
  configuration loads, the function name is set, the event is marshalled), it makes the
  one call that dispatches \<open>{index: i + 1}\<close> to its own function, asynchronously (the
  invocation type is \<open>Event\<close>, so the service answers without running the function), and
  it returns without error exactly when the Lambda service accepts the call; otherwise it
  returns the error \<open>invoke self\<close>.  When \<open>i + 1 = N\<close> it logs the completion of all \<open>N\<close>
  repositories and dispatches nothing.  Hence a sweep from index 0 over a list of
  \<open>N \<ge> 1\<close> repositories in which every pass succeeds and every continuation can be
  dispatched consists of exactly \<open>N\<close> invocations, each without error; the invocation of
  position \<open>i\<close> calls \<open>Invoke\<close> once, asynchronously and with \<open>{index: i + 1}\<close>, if
  \<open>i + 1 < N\<close> and not at all otherwise, so that no index \<open>\<ge> N\<close> is ever scheduled.
\<close>

theorem chained_sweep:
  "(loadRepoList w = Inr repos \<and> TrimSpace (Repo evt) = []
      \<and> 0 \<le> Index evt \<and> Index evt + 1 < int (length repos)
      \<and> mirrorSingleRepo w reg (repos ! nat (Index evt)) = (None, tr, reg')
      \<and> load_default_config w = None
      \<and> getenv w ''AWS_LAMBDA_FUNCTION_NAME'' = fn \<and> fn \<noteq> []
      \<and> json_marshal_event w \<lparr>Index = Index evt + 1, Repo = []\<rparr> = Inr p
     \<longrightarrow> handler_event w reg evt
          = (case lambda_invoke w
                    \<lparr>FunctionName = fn, InvocationType = InvocationTypeEvent, Payload = p\<rparr> of
               None \<Rightarrow>
                 (None,
                  Log (ProcessingRepo (Index evt + 1) (length repos) (repos ! nat (Index evt)))
                  # tr
                  @ [Invoke \<lparr>FunctionName = fn, InvocationType = InvocationTypeEvent,
                              Payload = p\<rparr>,
                     Log (QueuedNext (Index evt + 1))],
                  reg')
             | Some e \<Rightarrow>
                 (Some (Wrapf ''invoke self'' e),
                  Log (ProcessingRepo (Index evt + 1) (length repos) (repos ! nat (Index evt)))
                  # tr
                  @ [Invoke \<lparr>FunctionName = fn, InvocationType = InvocationTypeEvent,
                              Payload = p\<rparr>],
                  reg')))
   \<and> (loadRepoList w = Inr repos \<and> TrimSpace (Repo evt) = []
      \<and> 0 \<le> Index evt \<and> Index evt + 1 = int (length repos)
      \<and> mirrorSingleRepo w reg (repos ! nat (Index evt)) = (None, tr, reg')
     \<longrightarrow> handler_event w reg evt
          = (None,
             Log (ProcessingRepo (Index evt + 1) (length repos) (repos ! nat (Index evt)))
             # tr @ [Log (CompletedAll (length repos))],
             reg')
        \<and> concat (map invoked (fst (snd (handler_event w reg evt)))) = [])
   \<and> (loadRepoList w = Inr repos \<and> repos \<noteq> []
      \<and> (\<forall>r \<in> set repos. \<forall>reg. fst (mirrorSingleRepo w reg r) = None)
      \<and> dispatch_ok w (length repos)
      \<and> parseJobEvent w raw = Inr \<lparr>Index = 0, Repo = []\<rparr>
      \<and> length repos \<le> fuel
     \<longrightarrow> (\<exists>outs. sweep fuel w reg raw = Some outs \<and> length outs = length repos
                 \<and> (\<forall>i < length repos. invocation_ok w (length repos) i (outs ! i))))"
proof (intro conjI impI)
  assume h: "loadRepoList w = Inr repos \<and> TrimSpace (Repo evt) = []
      \<and> 0 \<le> Index evt \<and> Index evt + 1 < int (length repos)
      \<and> mirrorSingleRepo w reg (repos ! nat (Index evt)) = (None, tr, reg')
      \<and> load_default_config w = None
      \<and> getenv w ''AWS_LAMBDA_FUNCTION_NAME'' = fn \<and> fn \<noteq> []
      \<and> json_marshal_event w \<lparr>Index = Index evt + 1, Repo = []\<rparr> = Inr p"
  have inv: "invokeSelfAsync w \<lparr>Index = Index evt + 1, Repo = []\<rparr>
               = (lambda_invoke w
                    \<lparr>FunctionName = fn, InvocationType = InvocationTypeEvent, Payload = p\<rparr>,
                  [Invoke \<lparr>FunctionName = fn, InvocationType = InvocationTypeEvent,
                           Payload = p\<rparr>])"
    using h by (intro invokeSelfAsync_dispatch) simp_all
  have "Index evt < int (length repos)"
    using h by simp
  then show "handler_event w reg evt
          = (case lambda_invoke w
                    \<lparr>FunctionName = fn, InvocationType = InvocationTypeEvent, Payload = p\<rparr> of
               None \<Rightarrow>
                 (None,
                  Log (ProcessingRepo (Index evt + 1) (length repos) (repos ! nat (Index evt)))
                  # tr
                  @ [Invoke \<lparr>FunctionName = fn, InvocationType = InvocationTypeEvent,
                              Payload = p\<rparr>,
                     Log (QueuedNext (Index evt + 1))],
                  reg')
             | Some e \<Rightarrow>
                 (Some (Wrapf ''invoke self'' e),
                  Log (ProcessingRepo (Index evt + 1) (length repos) (repos ! nat (Index evt)))
                  # tr
                  @ [Invoke \<lparr>FunctionName = fn, InvocationType = InvocationTypeEvent,
                              Payload = p\<rparr>],
                  reg'))"
    using handler_event_indexed [of w repos evt reg tr reg'] h inv
    by (simp split: option.splits)
next
  assume h: "loadRepoList w = Inr repos \<and> TrimSpace (Repo evt) = []
      \<and> 0 \<le> Index evt \<and> Index evt + 1 = int (length repos)
      \<and> mirrorSingleRepo w reg (repos ! nat (Index evt)) = (None, tr, reg')"
  have "Index evt < int (length repos)"
    using h by simp
  then show result: "handler_event w reg evt
          = (None,
             Log (ProcessingRepo (Index evt + 1) (length repos) (repos ! nat (Index evt)))
             # tr @ [Log (CompletedAll (length repos))],
             reg')"
    using handler_event_indexed [of w repos evt reg tr reg'] h by simp
  have "concat (map invoked tr) = []"
    using h mirrorSingleRepo_invoked by blast
  then show "concat (map invoked (fst (snd (handler_event w reg evt)))) = []"
    unfolding result by simp
next
  assume h: "loadRepoList w = Inr repos \<and> repos \<noteq> []
      \<and> (\<forall>r \<in> set repos. \<forall>reg. fst (mirrorSingleRepo w reg r) = None)
      \<and> dispatch_ok w (length repos)
      \<and> parseJobEvent w raw = Inr \<lparr>Index = 0, Repo = []\<rparr>
      \<and> length repos \<le> fuel"
  have "\<exists>outs. sweep fuel w reg raw = Some outs \<and> length outs = length repos
               \<and> (\<forall>j < length repos. invocation_ok w (length repos) (0 + j) (outs ! j))"
    using h by (intro sweep_from [where i = 0 and repos = repos]) simp_all
  then show "\<exists>outs. sweep fuel w reg raw = Some outs \<and> length outs = length repos
                 \<and> (\<forall>i < length repos. invocation_ok w (length repos) i (outs ! i))"
    by simp
qed

lemma demo_mirror_tag_ok: "fst (mirror_tag demo_world srcRepo ep dn reg tag) = None"
  by (simp add: mirror_tag_def demo_world_def Let_def split: decision.splits)

lemma demo_mirror_tags_ok: "fst (mirror_tags demo_world srcRepo ep dn reg tags) = None"
proof (induction tags arbitrary: reg)
  case Nil
  then show ?case by simp
next
  case (Cons tag tags)
  obtain tr reg' where one: "mirror_tag demo_world srcRepo ep dn reg tag = (None, tr, reg')"
    using demo_mirror_tag_ok [of srcRepo ep dn reg tag]
    by (cases "mirror_tag demo_world srcRepo ep dn reg tag") auto
  show ?case
    using one Cons.IH [of reg'] by (simp add: split_beta)
qed

lemma demo_mirror_ok: "fst (mirrorSingleRepo demo_world reg srcRepo) = None"
proof -
  have wet: "\<not> EqualFold_true (getenv demo_world ''MIRROR_DRY_RUN'')"
    by code_simp
  have login: "ecr_login demo_world = Inr (''pw'', ''1.dkr.ecr.us-east-2.amazonaws.com'')"
    by code_simp
  have tags: "tags_to_mirror demo_world srcRepo = (Inr [''latest'', ''v1''], [RemoteList srcRepo])"
    by (simp add: tags_to_mirror_def demo_world_def demo_env_def EqualFold_true_def toLower_def)
  have exists: "fst (ensure_repository demo_world reg dn) = None" for dn
    by (simp add: ensure_repository_def demo_world_def)
  obtain tr1 reg1 where
    ensure: "ensure_repository demo_world reg (dstRepoName_of demo_world srcRepo)
               = (None, tr1, reg1)"
    using exists [of "dstRepoName_of demo_world srcRepo"]
    by (cases "ensure_repository demo_world reg (dstRepoName_of demo_world srcRepo)") auto
  obtain tr3 reg3 where
    loop: "mirror_tags demo_world srcRepo ''1.dkr.ecr.us-east-2.amazonaws.com''
             (dstRepoName_of demo_world srcRepo) reg1 [''latest'', ''v1''] = (None, tr3, reg3)"
    using demo_mirror_tags_ok
      [of srcRepo "''1.dkr.ecr.us-east-2.amazonaws.com''" "dstRepoName_of demo_world srcRepo"
        reg1 "[''latest'', ''v1'']"]
    by (cases "mirror_tags demo_world srcRepo ''1.dkr.ecr.us-east-2.amazonaws.com''
                 (dstRepoName_of demo_world srcRepo) reg1 [''latest'', ''v1'']") auto
  show ?thesis
    using wet login tags ensure loop by (simp add: mirrorSingleRepo_def)
qed

text \<open>
  The theorem at work: the sweep over the three repositories of the example is three
  invocations; the first calls \<open>Invoke\<close> once, with the type \<open>Event\<close> and the payload
  \<open>{"index":1}\<close>, and the third logs the completion and calls nothing.
\<close>

theorem chained_sweep_witness:
  \<open>(\<exists>outs. sweep 3 demo_world empty_registry [] = Some outs \<and> length outs = 3
           \<and> invocation_ok demo_world 3 0 (outs ! 0)
           \<and> invocation_ok demo_world 3 1 (outs ! 1)
           \<and> invocation_ok demo_world 3 2 (outs ! 2))
   \<and> fst (handler_event demo_world empty_registry \<lparr>Index = 0, Repo = []\<rparr>) = None
   \<and> concat (map dispatched (fst (snd (handler_event demo_world empty_registry
                                         \<lparr>Index = 0, Repo = []\<rparr>))))
       = [\<lparr>FunctionName = ''mirror'', InvocationType = InvocationTypeEvent,
           Payload = ''{"index":1}''\<rparr>]
   \<and> fst (handler_event demo_world empty_registry \<lparr>Index = 2, Repo = []\<rparr>) = None
   \<and> concat (map invoked (fst (snd (handler_event demo_world empty_registry
                                      \<lparr>Index = 2, Repo = []\<rparr>)))) = []
   \<and> last (fst (snd (handler_event demo_world empty_registry \<lparr>Index = 2, Repo = []\<rparr>)))
       = Log (CompletedAll 3)\<close>
proof -
  let ?repos = "[''cgr.dev/acme/a'', ''cgr.dev/acme/b'', ''cgr.dev/acme/c'']"
  let ?e0 = "\<lparr>Index = 0, Repo = []\<rparr>"
  let ?e2 = "\<lparr>Index = 2, Repo = []\<rparr>"
  let ?m0 = "mirrorSingleRepo demo_world empty_registry ''cgr.dev/acme/a''"
  let ?m2 = "mirrorSingleRepo demo_world empty_registry ''cgr.dev/acme/c''"
  have repos: "loadRepoList demo_world = Inr ?repos"
    by code_simp
  have blank: "TrimSpace [] = []"
    by (rule TrimSpace_Nil)
  have dispatch: "dispatch_ok demo_world 3"
    by code_simp
  have trigger: "parseJobEvent demo_world [] = Inr ?e0"
    by code_simp
  have mirrors: "\<forall>r \<in> set ?repos. \<forall>reg. fst (mirrorSingleRepo demo_world reg r) = None"
    by (simp add: demo_mirror_ok)
  have config: "load_default_config demo_world = None"
    and fn: "getenv demo_world ''AWS_LAMBDA_FUNCTION_NAME'' = ''mirror''"
    by (simp_all add: demo_world_def demo_env_def)
  have payload: \<open>json_marshal_event demo_world \<lparr>Index = 1, Repo = []\<rparr> = Inr ''{"index":1}''\<close>
    by code_simp
  have accepted: "lambda_invoke demo_world inp = None" for inp
    by (simp add: demo_world_def)
  have m0: "?m0 = (None, fst (snd ?m0), snd (snd ?m0))"
    using demo_mirror_ok [of empty_registry "''cgr.dev/acme/a''"] by (simp add: prod_eq_iff)
  have m2: "?m2 = (None, fst (snd ?m2), snd (snd ?m2))"
    using demo_mirror_ok [of empty_registry "''cgr.dev/acme/c''"] by (simp add: prod_eq_iff)
  have "concat (map invoked (fst (snd ?m0))) = []"
    using m0 by (rule mirrorSingleRepo_invoked)
  then have quiet0: "concat (map dispatched (fst (snd ?m0))) = []"
    by (rule invoked_none_dispatched)
  note first = chained_sweep [where w = demo_world and repos = ?repos and evt = ?e0
      and reg = empty_registry and tr = "fst (snd ?m0)" and reg' = "snd (snd ?m0)"
      and fn = "''mirror''" and p = \<open>''{"index":1}''\<close> and raw = "[]" and fuel = 3,
      THEN conjunct1, rule_format]
  note final = chained_sweep [where w = demo_world and repos = ?repos and evt = ?e2
      and reg = empty_registry and tr = "fst (snd ?m2)" and reg' = "snd (snd ?m2)",
      THEN conjunct2, THEN conjunct1, rule_format]
  note whole = chained_sweep [where w = demo_world and repos = ?repos
      and reg = empty_registry and raw = "[]" and fuel = 3,
      THEN conjunct2, THEN conjunct2, rule_format]
  have "\<exists>outs. sweep 3 demo_world empty_registry [] = Some outs \<and> length outs = length ?repos
               \<and> (\<forall>i < length ?repos. invocation_ok demo_world (length ?repos) i (outs ! i))"
  proof (intro whole conjI)
    have three: "length ?repos = 3"
      by simp
    show "dispatch_ok demo_world (length ?repos)"
      unfolding three by (rule dispatch)
  qed (use repos mirrors trigger in simp_all)
  then obtain outs where run: "sweep 3 demo_world empty_registry [] = Some outs"
    and len: "length outs = 3"
    and each: "\<forall>i < 3. invocation_ok demo_world 3 i (outs ! i)"
    by (auto simp: numeral_3_eq_3)
  have a: "\<exists>outs. sweep 3 demo_world empty_registry [] = Some outs \<and> length outs = 3
           \<and> invocation_ok demo_world 3 0 (outs ! 0)
           \<and> invocation_ok demo_world 3 1 (outs ! 1)
           \<and> invocation_ok demo_world 3 2 (outs ! 2)"
    using run len each by auto
  have "handler_event demo_world empty_registry ?e0
          = (case lambda_invoke demo_world
                    \<lparr>FunctionName = ''mirror'', InvocationType = InvocationTypeEvent,
                     Payload = ''{\"index\":1}''\<rparr> of
               None \<Rightarrow>
                 (None,
                  Log (ProcessingRepo (Index ?e0 + 1) (length ?repos) (?repos ! nat (Index ?e0)))
                  # fst (snd ?m0)
                  @ [Invoke \<lparr>FunctionName = ''mirror'', InvocationType = InvocationTypeEvent,
                              Payload = ''{\"index\":1}''\<rparr>,
                     Log (QueuedNext (Index ?e0 + 1))],
                  snd (snd ?m0))
             | Some e \<Rightarrow>
                 (Some (Wrapf ''invoke self'' e),
                  Log (ProcessingRepo (Index ?e0 + 1) (length ?repos) (?repos ! nat (Index ?e0)))
                  # fst (snd ?m0)
                  @ [Invoke \<lparr>FunctionName = ''mirror'', InvocationType = InvocationTypeEvent,
                              Payload = ''{\"index\":1}''\<rparr>],
                  snd (snd ?m0)))"
    using repos blank m0 config fn payload by (intro first conjI) simp_all
  then have b: "fst (handler_event demo_world empty_registry ?e0) = None"
    and c: "concat (map dispatched (fst (snd (handler_event demo_world empty_registry ?e0))))
              = [\<lparr>FunctionName = ''mirror'', InvocationType = InvocationTypeEvent,
                  Payload = ''{\"index\":1}''\<rparr>]"
    using accepted by (simp_all add: quiet0)
  have last_one:
    "handler_event demo_world empty_registry ?e2
          = (None,
             Log (ProcessingRepo (Index ?e2 + 1) (length ?repos) (?repos ! nat (Index ?e2)))
             # fst (snd ?m2) @ [Log (CompletedAll (length ?repos))],
             snd (snd ?m2))
     \<and> concat (map invoked (fst (snd (handler_event demo_world empty_registry ?e2)))) = []"
    using repos blank m2 by (intro final conjI) simp_all
  then have d: "fst (handler_event demo_world empty_registry ?e2) = None"
    and e: "concat (map invoked (fst (snd (handler_event demo_world empty_registry ?e2)))) = []"
    and f: "last (fst (snd (handler_event demo_world empty_registry ?e2))) = Log (CompletedAll 3)"
    by simp_all
  show ?thesis
    using a b c d e f by (intro conjI)
qed

text \<open>
  The claim as it was stated fails: the pass succeeds and a repository remains, but the
  Lambda service refuses the call, and the invocation returns the error; and over an empty
  list the sweep is one invocation, not none.
\<close>

theorem chained_sweep_counterexample:
  "fst (mirrorSingleRepo
          (demo_world\<lparr>lambda_invoke :=
             (\<lambda>inp. Some (Errorf ''AccessDeniedException: not authorized''))\<rparr>)
          empty_registry ''cgr.dev/acme/a'') = None
   \<and> fst (handler
            (demo_world\<lparr>lambda_invoke :=
               (\<lambda>inp. Some (Errorf ''AccessDeniedException: not authorized''))\<rparr>)
            empty_registry [])
       = Some (Wrapf ''invoke self'' (Errorf ''AccessDeniedException: not authorized''))
   \<and> loadRepoList
        (demo_world\<lparr>getenv := demo_env(''REPO_LIST_JSON'' := ''[]''),
                     json_unmarshal_strings :=
                       (\<lambda>s. if s = ''[]'' then Inr [] else Inl (Errorf ''invalid character''))\<rparr>)
       = Inr []
   \<and> sweep 1
        (demo_world\<lparr>getenv := demo_env(''REPO_LIST_JSON'' := ''[]''),
                     json_unmarshal_strings :=
                       (\<lambda>s. if s = ''[]'' then Inr [] else Inl (Errorf ''invalid character''))\<rparr>)
        empty_registry []
       = Some [(None, [Log NoRepositories])]"
  by code_simp

subsection \<open>Running a pass twice\<close>


















end
